theory Spec2Isabelle
  imports Main
begin

section \<open>Data model of \<open>src/js/chess.js\<close>\<close>

text \<open>
  The constants \<open>PIECE\<close> and \<open>COLOR\<close> of the source are closed sets of one-letter
  strings; they are the two enumerations below.  A square of the board holds
  \<open>null\<close>, a piece object \<open>{type, color}\<close>, or (after an out-of-range read has been
  copied around) \<open>undefined\<close>.
\<close>

datatype ptype = King | Queen | Rook | Bishop | Knight | Pawn

datatype color = White | Black

datatype cell = Null | Undefined | Piece ptype color

datatype error = TypeError

text \<open>
  A property key of a row array: a number, or the name \<open>undefined\<close> (which is what
  \<open>row[rookFromCol]\<close> uses when the variable was never assigned).
\<close>

datatype key = Idx int | UndefKey

text \<open>
  \<open>Array(8).fill(...)\<close>: the eight elements 0..7 of a JavaScript array.  Index
  access is by number, as in the source.
\<close>

datatype 'a v8 = V8 'a 'a 'a 'a 'a 'a 'a 'a

fun get8 :: "'a v8 \<Rightarrow> int \<Rightarrow> 'a" where
  "get8 (V8 a0 a1 a2 a3 a4 a5 a6 a7) i =
     (if i = 0 then a0 else if i = 1 then a1 else if i = 2 then a2
      else if i = 3 then a3 else if i = 4 then a4 else if i = 5 then a5
      else if i = 6 then a6 else a7)"

fun set8 :: "'a v8 \<Rightarrow> int \<Rightarrow> 'a \<Rightarrow> 'a v8" where
  "set8 (V8 a0 a1 a2 a3 a4 a5 a6 a7) i x =
     (if i = 0 then V8 x a1 a2 a3 a4 a5 a6 a7
      else if i = 1 then V8 a0 x a2 a3 a4 a5 a6 a7
      else if i = 2 then V8 a0 a1 x a3 a4 a5 a6 a7
      else if i = 3 then V8 a0 a1 a2 x a4 a5 a6 a7
      else if i = 4 then V8 a0 a1 a2 a3 x a5 a6 a7
      else if i = 5 then V8 a0 a1 a2 a3 a4 x a6 a7
      else if i = 6 then V8 a0 a1 a2 a3 a4 a5 x a7
      else if i = 7 then V8 a0 a1 a2 a3 a4 a5 a6 x
      else V8 a0 a1 a2 a3 a4 a5 a6 a7)"

fun list8 :: "'a v8 \<Rightarrow> 'a list" where
  "list8 (V8 a0 a1 a2 a3 a4 a5 a6 a7) = [a0, a1, a2, a3, a4, a5, a6, a7]"

text \<open>
  The board is an array of eight row arrays.  \<open>grid\<close> holds the 64 elements with
  row and column in 0..7.  JavaScript also lets the program read and write any
  other key of a row (\<open>row[8]\<close>, \<open>row[-1]\<close>, \<open>row[undefined]\<close>): a key never written
  reads as \<open>undefined\<close>, a written one reads as what was written.  \<open>props\<close>
  holds those keys, by row.  Only what a read returns is modelled (not the
  \<open>length\<close> of a row).
\<close>

record board =
  grid :: "cell v8 v8"
  props :: "int \<Rightarrow> key \<Rightarrow> cell"

definition isWithinBoard :: "int \<Rightarrow> int \<Rightarrow> bool" where
  "isWithinBoard row col = (row \<ge> 0 \<and> row < 8 \<and> col \<ge> 0 \<and> col < 8)"

definition onGrid :: "int \<Rightarrow> key \<Rightarrow> bool" where
  "onGrid r k = (case k of Idx c \<Rightarrow> isWithinBoard r c | UndefKey \<Rightarrow> False)"

definition keyCol :: "key \<Rightarrow> int" where
  "keyCol k = (case k of Idx c \<Rightarrow> c | UndefKey \<Rightarrow> 0)"

text \<open>
  \<open>rd b r k\<close> is the read \<open>this.board[r][k]\<close> and \<open>wr b r k x\<close> the assignment
  \<open>this.board[r][k] = x\<close>, both for a row number \<open>r\<close> in 0..7.  (For any other
  \<open>r\<close> the expression \<open>this.board[r]\<close> is \<open>undefined\<close> and indexing it throws; the
  two entry points \<open>getValidMoves\<close> and \<open>makeMove\<close> test for that before they
  read, and every other row number in the program is in 0..7.)
\<close>

definition rd :: "board \<Rightarrow> int \<Rightarrow> key \<Rightarrow> cell" where
  "rd b r k = (if onGrid r k then get8 (get8 (grid b) r) (keyCol k) else props b r k)"

definition wr :: "board \<Rightarrow> int \<Rightarrow> key \<Rightarrow> cell \<Rightarrow> board" where
  "wr b r k x =
     (if onGrid r k
      then b\<lparr>grid := set8 (grid b) r (set8 (get8 (grid b) r) (keyCol k) x)\<rparr>
      else b\<lparr>props := (props b)(r := (props b r)(k := x))\<rparr>)"

abbreviation at :: "board \<Rightarrow> int \<Rightarrow> int \<Rightarrow> cell" where
  "at b r c \<equiv> rd b r (Idx c)"

record rights =
  kingSide :: bool
  queenSide :: bool

record castling =
  wRights :: rights
  bRights :: rights

text \<open>One entry of \<open>moveHistory\<close>.\<close>

record moveEntry =
  piece :: cell
  fromSq :: "int \<times> int"
  toSq :: "int \<times> int"
  captured :: cell
  castlingRook :: "((int \<times> key) \<times> (int \<times> int)) option"
  enPassant :: "(int \<times> int) option"
  promotion :: "ptype option"

text \<open>The fields of class \<open>Chess\<close>.\<close>

record chess =
  board :: board
  currentPlayer :: color
  moveHistory :: "moveEntry list"
  gameOver :: bool
  gameResult :: "string option"
  startPosition :: "ptype option v8 option"
  castlingRights :: castling
  enPassantTarget :: "(int \<times> int) option"
  halfMoveClock :: int
  fullMoveNumber :: int

definition opponent :: "color \<Rightarrow> color" where
  "opponent c = (if c = White then Black else White)"

text \<open>The loop \<open>for (let i = 0; i < 8; i++)\<close>.\<close>

definition idx8 :: "int list" where
  "idx8 = [0, 1, 2, 3, 4, 5, 6, 7]"

section \<open>Start position\<close>

text \<open>
  \<open>getRandomPosition\<close> takes \<open>positions[Math.floor(Math.random() * positions.length)]\<close>.
  The random source is a parameter of the model: the index \<open>randomIndex\<close> it yields.
  \<open>Math.random()\<close> lies in [0,1), so the index is below the length; for any other
  index the read is \<open>undefined\<close>, here \<open>None\<close>.
\<close>

definition getRandomPosition :: "int list \<Rightarrow> nat \<Rightarrow> int option" where
  "getRandomPosition positions randomIndex =
     (if randomIndex < length positions then Some (positions ! randomIndex) else None)"

definition emptyPositionsOf :: "ptype option v8 \<Rightarrow> int list" where
  "emptyPositionsOf backrank = filter (\<lambda>i. get8 backrank i = None) idx8"

definition getRandomEmptyPosition :: "ptype option v8 \<Rightarrow> nat \<Rightarrow> int option" where
  "getRandomEmptyPosition backrank randomIndex =
     getRandomPosition (emptyPositionsOf backrank) randomIndex"

text \<open>
  \<open>generateChess960Position\<close>, with the five random indices it draws, in the order
  it draws them.  The result is \<open>None\<close> when a draw is out of range or fewer than
  three files stay empty (neither happens with \<open>Math.random\<close>).
\<close>

definition generateChess960Position ::
  "nat \<Rightarrow> nat \<Rightarrow> nat \<Rightarrow> nat \<Rightarrow> nat \<Rightarrow> ptype option v8 option" where
  "generateChess960Position d1 d2 d3 d4 d5 =
     (let backrank0 = V8 None None None None None None None None in
      (case getRandomPosition [0, 2, 4, 6] d1 of None \<Rightarrow> None | Some bishopDarkPos \<Rightarrow>
      (case getRandomPosition [1, 3, 5, 7] d2 of None \<Rightarrow> None | Some bishopLightPos \<Rightarrow>
      (let backrank1 = set8 backrank0 bishopDarkPos (Some Bishop);
           backrank2 = set8 backrank1 bishopLightPos (Some Bishop) in
      (case getRandomEmptyPosition backrank2 d3 of None \<Rightarrow> None | Some queenPos \<Rightarrow>
      (let backrank3 = set8 backrank2 queenPos (Some Queen) in
      (case getRandomEmptyPosition backrank3 d4 of None \<Rightarrow> None | Some knight1Pos \<Rightarrow>
      (let backrank4 = set8 backrank3 knight1Pos (Some Knight) in
      (case getRandomEmptyPosition backrank4 d5 of None \<Rightarrow> None | Some knight2Pos \<Rightarrow>
      (let backrank5 = set8 backrank4 knight2Pos (Some Knight) in
      (case emptyPositionsOf backrank5 of
        e0 # e1 # e2 # _ \<Rightarrow>
          Some (set8 (set8 (set8 backrank5 e0 (Some Rook)) e2 (Some Rook)) e1 (Some King))
      | _ \<Rightarrow> None)))))))))))"

section \<open>Move generation\<close>

text \<open>
  The methods of the class read \<open>this.board\<close>, \<open>this.enPassantTarget\<close> and
  \<open>this.castlingRights\<close>; each function below takes the fields its method reads.
\<close>

type_synonym move = "int \<times> int"

fun consMove :: "move \<Rightarrow> error + move list \<Rightarrow> error + move list" where
  "consMove m (Inl e) = Inl e"
| "consMove m (Inr ms) = Inr (m # ms)"

fun appendMoves :: "error + move list \<Rightarrow> error + move list \<Rightarrow> error + move list" where
  "appendMoves (Inl e) r = Inl e"
| "appendMoves (Inr xs) (Inl e) = Inl e"
| "appendMoves (Inr xs) (Inr ys) = Inr (xs @ ys)"

text \<open>
  The test \<open>targetPiece === null || targetPiece.color !== piece.color\<close>.  Reading
  \<open>.color\<close> of \<open>undefined\<close> or \<open>null\<close> throws a TypeError.
\<close>

fun mayEnter :: "cell \<Rightarrow> cell \<Rightarrow> error + bool" where
  "mayEnter Null p = Inr True"
| "mayEnter Undefined p = Inl TypeError"
| "mayEnter (Piece t c) (Piece t' c') = Inr (c \<noteq> c')"
| "mayEnter (Piece t c) p = Inl TypeError"

definition direction :: "color \<Rightarrow> int" where
  "direction c = (if c = White then - 1 else 1)"

text \<open>\<open>getPawnMoves\<close>; the moves pushed, in the order they are pushed.\<close>

definition getPawnMoves :: "board \<Rightarrow> (int \<times> int) option \<Rightarrow> int \<Rightarrow> int \<Rightarrow> error + move list" where
  "getPawnMoves b ep row col =
     (case at b row col of
        Piece pt pc \<Rightarrow>
          (let d = direction pc;
               startRow = (if pc = White then 6 else 1);
               forward =
                 (if isWithinBoard (row + d) col \<and> at b (row + d) col = Null
                  then (row + d, col) #
                       (if row = startRow \<and> at b (row + 2 * d) col = Null
                        then [(row + 2 * d, col)] else [])
                  else []);
               captures =
                 concat (map (\<lambda>offset.
                    let newCol = col + offset in
                    if isWithinBoard (row + d) newCol
                    then (case at b (row + d) newCol of
                            Piece t c \<Rightarrow> if c \<noteq> pc then [(row + d, newCol)] else []
                          | _ \<Rightarrow> [])
                    else []) [- 1, 1]);
               enPassantMoves =
                 (case ep of
                    Some (epRow, epCol) \<Rightarrow>
                      if row = (if pc = White then 3 else 4)
                         \<and> \<bar>col - epCol\<bar> = 1 \<and> epRow = row + d
                      then [(epRow, epCol)] else []
                  | None \<Rightarrow> [])
           in Inr (forward @ captures @ enPassantMoves))
      | _ \<Rightarrow> Inl TypeError)"

text \<open>The loop over fixed offsets of \<open>getKnightMoves\<close>.\<close>

fun stepMoves :: "board \<Rightarrow> cell \<Rightarrow> int \<Rightarrow> int \<Rightarrow> (int \<times> int) list \<Rightarrow> error + move list" where
  "stepMoves b p row col [] = Inr []"
| "stepMoves b p row col ((rowOffset, colOffset) # offsets) =
     (let newRow = row + rowOffset; newCol = col + colOffset in
      if isWithinBoard newRow newCol
      then (case mayEnter (at b newRow newCol) p of
              Inl e \<Rightarrow> Inl e
            | Inr True \<Rightarrow> consMove (newRow, newCol) (stepMoves b p row col offsets)
            | Inr False \<Rightarrow> stepMoves b p row col offsets)
      else stepMoves b p row col offsets)"

definition knightOffsets :: "(int \<times> int) list" where
  "knightOffsets = [(- 2, - 1), (- 2, 1), (- 1, - 2), (- 1, 2), (1, - 2), (1, 2), (2, - 1), (2, 1)]"

definition getKnightMoves :: "board \<Rightarrow> int \<Rightarrow> int \<Rightarrow> error + move list" where
  "getKnightMoves b row col = stepMoves b (at b row col) row col knightOffsets"

text \<open>
  One ray of \<open>getSlidingMoves\<close>: the \<open>while (this.isWithinBoard(newRow, newCol))\<close>
  loop.  Every direction in the source is non-zero; with a zero direction the
  loop of the source would not move, and the model stops.
\<close>

function slide :: "board \<Rightarrow> cell \<Rightarrow> int \<Rightarrow> int \<Rightarrow> int \<Rightarrow> int \<Rightarrow> error + move list" where
  "slide b p newRow newCol rowDir colDir =
     (if isWithinBoard newRow newCol \<and> (rowDir \<noteq> 0 \<or> colDir \<noteq> 0)
      then (case at b newRow newCol of
              Null \<Rightarrow> consMove (newRow, newCol)
                        (slide b p (newRow + rowDir) (newCol + colDir) rowDir colDir)
            | Undefined \<Rightarrow> Inl TypeError
            | Piece t c \<Rightarrow>
                (case p of
                   Piece t' pc \<Rightarrow> if c \<noteq> pc then Inr [(newRow, newCol)] else Inr []
                 | _ \<Rightarrow> Inl TypeError))
      else Inr [])"
  by pat_completeness auto
termination
  by (relation "measure (\<lambda>(b, p, newRow, newCol, rowDir, colDir).
        if rowDir > 0 then nat (8 - newRow)
        else if rowDir < 0 then nat (newRow + 1)
        else if colDir > 0 then nat (8 - newCol) else nat (newCol + 1))")
     (auto simp: isWithinBoard_def)

declare slide.simps [simp del]

fun slideAll :: "board \<Rightarrow> cell \<Rightarrow> int \<Rightarrow> int \<Rightarrow> (int \<times> int) list \<Rightarrow> error + move list" where
  "slideAll b p row col [] = Inr []"
| "slideAll b p row col ((rowDir, colDir) # directions) =
     appendMoves (slide b p (row + rowDir) (col + colDir) rowDir colDir)
                 (slideAll b p row col directions)"

definition getSlidingMoves :: "board \<Rightarrow> int \<Rightarrow> int \<Rightarrow> (int \<times> int) list \<Rightarrow> error + move list" where
  "getSlidingMoves b row col directions = slideAll b (at b row col) row col directions"

definition bishopDirections :: "(int \<times> int) list" where
  "bishopDirections = [(- 1, - 1), (- 1, 1), (1, - 1), (1, 1)]"

definition rookDirections :: "(int \<times> int) list" where
  "rookDirections = [(- 1, 0), (0, - 1), (0, 1), (1, 0)]"

definition queenDirections :: "(int \<times> int) list" where
  "queenDirections = [(- 1, - 1), (- 1, 0), (- 1, 1), (0, - 1), (0, 1), (1, - 1), (1, 0), (1, 1)]"

definition getBishopMoves :: "board \<Rightarrow> int \<Rightarrow> int \<Rightarrow> error + move list" where
  "getBishopMoves b row col = getSlidingMoves b row col bishopDirections"

definition getRookMoves :: "board \<Rightarrow> int \<Rightarrow> int \<Rightarrow> error + move list" where
  "getRookMoves b row col = getSlidingMoves b row col rookDirections"

definition getQueenMoves :: "board \<Rightarrow> int \<Rightarrow> int \<Rightarrow> error + move list" where
  "getQueenMoves b row col = getSlidingMoves b row col queenDirections"

section \<open>Attacks and check\<close>

text \<open>\<open>moves.some(([r, c]) => r === row && c === col)\<close>.\<close>

definition hasMove :: "move list \<Rightarrow> int \<Rightarrow> int \<Rightarrow> bool" where
  "hasMove moves row col = list_ex (\<lambda>(r, c). r = row \<and> c = col) moves"

fun hits :: "error + move list \<Rightarrow> int \<Rightarrow> int \<Rightarrow> error + bool" where
  "hits (Inl e) row col = Inl e"
| "hits (Inr moves) row col = Inr (hasMove moves row col)"

text \<open>
  The body of the two loops of \<open>isSquareUnderAttack\<close> for one piece of the
  attacking colour on \<open>(r, c)\<close>: does it attack \<open>(row, col)\<close>?
\<close>

definition pieceAttacks :: "board \<Rightarrow> ptype \<Rightarrow> color \<Rightarrow> int \<Rightarrow> int \<Rightarrow> int \<Rightarrow> int \<Rightarrow> error + bool" where
  "pieceAttacks b t pc r c row col =
     (case t of
        Pawn \<Rightarrow> Inr (r + direction pc = row \<and> (col = c - 1 \<or> col = c + 1))
      | Knight \<Rightarrow> hits (getKnightMoves b r c) row col
      | Bishop \<Rightarrow> hits (getBishopMoves b r c) row col
      | Rook \<Rightarrow> hits (getRookMoves b r c) row col
      | Queen \<Rightarrow> hits (getQueenMoves b r c) row col
      | King \<Rightarrow>
          Inr (hasMove (filter (\<lambda>(newRow, newCol). isWithinBoard newRow newCol)
                          (map (\<lambda>(rowOffset, colOffset). (r + rowOffset, c + colOffset))
                               queenDirections)) row col))"

text \<open>
  The two nested loops \<open>for (r = 0; r < 8; r++) for (c = 0; c < 8; c++)\<close> of
  \<open>isSquareUnderAttack\<close>, from \<open>(r, c)\<close> on; they return at the first attacker.
\<close>

function scanAttack :: "board \<Rightarrow> color \<Rightarrow> int \<Rightarrow> int \<Rightarrow> int \<Rightarrow> int \<Rightarrow> error + bool" where
  "scanAttack b attackingColor row col r c =
     (if r < 8
      then (if c < 8
            then (case at b r c of
                    Piece t pc \<Rightarrow>
                      if pc = attackingColor
                      then (case pieceAttacks b t pc r c row col of
                              Inl e \<Rightarrow> Inl e
                            | Inr True \<Rightarrow> Inr True
                            | Inr False \<Rightarrow> scanAttack b attackingColor row col r (c + 1))
                      else scanAttack b attackingColor row col r (c + 1)
                  | _ \<Rightarrow> scanAttack b attackingColor row col r (c + 1))
            else scanAttack b attackingColor row col (r + 1) 0)
      else Inr False)"
  by pat_completeness auto
termination
  by (relation "measures [\<lambda>(b, a, row, col, r, c). nat (8 - r),
                          \<lambda>(b, a, row, col, r, c). nat (8 - c)]") auto

declare scanAttack.simps [simp del]

definition isSquareUnderAttack :: "board \<Rightarrow> int \<Rightarrow> int \<Rightarrow> color \<Rightarrow> error + bool" where
  "isSquareUnderAttack b row col defendingColor =
     scanAttack b (opponent defendingColor) row col 0 0"

text \<open>
  The search of \<open>isInCheck\<close> for the king: the first king of the colour in
  row-major order, or \<open>(-1, -1)\<close>.
\<close>

function findKing :: "board \<Rightarrow> color \<Rightarrow> int \<Rightarrow> int \<Rightarrow> int \<times> int" where
  "findKing b color r c =
     (if r < 8
      then (if c < 8
            then (case at b r c of
                    Piece t pc \<Rightarrow>
                      if t = King \<and> pc = color then (r, c) else findKing b color r (c + 1)
                  | _ \<Rightarrow> findKing b color r (c + 1))
            else findKing b color (r + 1) 0)
      else (- 1, - 1))"
  by pat_completeness auto
termination
  by (relation "measures [\<lambda>(b, a, r, c). nat (8 - r), \<lambda>(b, a, r, c). nat (8 - c)]") auto

declare findKing.simps [simp del]

definition isInCheck :: "board \<Rightarrow> color \<Rightarrow> error + bool" where
  "isInCheck b color =
     (case findKing b color 0 0 of
        (kingRow, kingCol) \<Rightarrow> isSquareUnderAttack b kingRow kingCol color)"

section \<open>King moves and castling\<close>

text \<open>The first loop of \<open>getKingMoves\<close>: the eight neighbours.\<close>

fun kingSteps :: "board \<Rightarrow> cell \<Rightarrow> int \<Rightarrow> int \<Rightarrow> (int \<times> int) list \<Rightarrow> error + move list" where
  "kingSteps b p row col [] = Inr []"
| "kingSteps b p row col ((rowOffset, colOffset) # directions) =
     (let newRow = row + rowOffset; newCol = col + colOffset in
      if isWithinBoard newRow newCol
      then (case mayEnter (at b newRow newCol) p of
              Inl e \<Rightarrow> Inl e
            | Inr False \<Rightarrow> kingSteps b p row col directions
            | Inr True \<Rightarrow>
                (case p of
                   Piece t pc \<Rightarrow>
                     (case isSquareUnderAttack b newRow newCol pc of
                        Inl e \<Rightarrow> Inl e
                      | Inr True \<Rightarrow> kingSteps b p row col directions
                      | Inr False \<Rightarrow> consMove (newRow, newCol) (kingSteps b p row col directions))
                 | _ \<Rightarrow> Inl TypeError))
      else kingSteps b p row col directions)"

text \<open>
  The loop that finds the rooks on the home rank: the first rook to the right
  of the king, the last rook to its left; \<open>-1\<close> when there is none.
\<close>

fun findRooks :: "board \<Rightarrow> color \<Rightarrow> int \<Rightarrow> int \<Rightarrow> int list \<Rightarrow> int \<times> int \<Rightarrow> int \<times> int" where
  "findRooks b pc rank kingStartCol [] acc = acc"
| "findRooks b pc rank kingStartCol (i # rest) (kingSideRookCol, queenSideRookCol) =
     (case at b rank i of
        Piece t c \<Rightarrow>
          if t = Rook \<and> c = pc
          then (if i > kingStartCol \<and> kingSideRookCol = - 1
                then findRooks b pc rank kingStartCol rest (i, queenSideRookCol)
                else if i < kingStartCol
                then findRooks b pc rank kingStartCol rest (kingSideRookCol, i)
                else findRooks b pc rank kingStartCol rest (kingSideRookCol, queenSideRookCol))
          else findRooks b pc rank kingStartCol rest (kingSideRookCol, queenSideRookCol)
      | _ \<Rightarrow> findRooks b pc rank kingStartCol rest (kingSideRookCol, queenSideRookCol))"

text \<open>
  The loop \<open>for (let i = lo; i < hi; i++)\<close> that sets \<open>canCastle\<close>: false at the
  first square that is not \<open>null\<close> or is attacked.
\<close>

function canCastleLoop :: "board \<Rightarrow> color \<Rightarrow> int \<Rightarrow> int \<Rightarrow> int \<Rightarrow> error + bool" where
  "canCastleLoop b pc rank i hi =
     (if i < hi
      then (if at b rank i \<noteq> Null then Inr False
            else (case isSquareUnderAttack b rank i pc of
                    Inl e \<Rightarrow> Inl e
                  | Inr True \<Rightarrow> Inr False
                  | Inr False \<Rightarrow> canCastleLoop b pc rank (i + 1) hi))
      else Inr True)"
  by pat_completeness auto
termination
  by (relation "measure (\<lambda>(b, pc, rank, i, hi). nat (hi - i))") auto

declare canCastleLoop.simps [simp del]

definition homeRank :: "color \<Rightarrow> int" where
  "homeRank c = (if c = White then 7 else 0)"

definition rightsOf :: "castling \<Rightarrow> color \<Rightarrow> rights" where
  "rightsOf cr c = (if c = White then wRights cr else bRights cr)"

text \<open>The castling part of \<open>getKingMoves\<close>: the moves it pushes.\<close>

definition castlingMoves :: "board \<Rightarrow> castling \<Rightarrow> color \<Rightarrow> int \<Rightarrow> error + move list" where
  "castlingMoves b cr pc col =
     (case isInCheck b pc of
        Inl e \<Rightarrow> Inl e
      | Inr True \<Rightarrow> Inr []
      | Inr False \<Rightarrow>
          (let rights = rightsOf cr pc;
               rank = homeRank pc;
               kingStartCol = col
           in case findRooks b pc rank kingStartCol idx8 (- 1, - 1) of
             (kingSideRookCol, queenSideRookCol) \<Rightarrow>
               (case (if kingSide rights \<and> kingSideRookCol \<noteq> - 1
                      then canCastleLoop b pc rank (kingStartCol + 1) kingSideRookCol
                      else Inr False) of
                  Inl e \<Rightarrow> Inl e
                | Inr canK \<Rightarrow>
                   (case (if queenSide rights \<and> queenSideRookCol \<noteq> - 1
                          then canCastleLoop b pc rank (queenSideRookCol + 1) kingStartCol
                          else Inr False) of
                      Inl e \<Rightarrow> Inl e
                    | Inr canQ \<Rightarrow>
                        Inr ((if canK then [(rank, kingStartCol + 2)] else []) @
                             (if canQ then [(rank, kingStartCol - 2)] else []))))))"

definition getKingMoves :: "board \<Rightarrow> castling \<Rightarrow> int \<Rightarrow> int \<Rightarrow> error + move list" where
  "getKingMoves b cr row col =
     (let p = at b row col in
      case kingSteps b p row col queenDirections of
        Inl e \<Rightarrow> Inl e
      | Inr steps \<Rightarrow>
          (case p of
             Piece t pc \<Rightarrow> appendMoves (Inr steps) (castlingMoves b cr pc col)
           | _ \<Rightarrow> Inl TypeError))"

section \<open>Legal moves\<close>

text \<open>The \<open>switch (piece.type)\<close> of \<open>getValidMoves\<close>.\<close>

definition pseudoMoves ::
  "board \<Rightarrow> (int \<times> int) option \<Rightarrow> castling \<Rightarrow> ptype \<Rightarrow> int \<Rightarrow> int \<Rightarrow> error + move list" where
  "pseudoMoves b ep cr t row col =
     (case t of
        Pawn \<Rightarrow> getPawnMoves b ep row col
      | Knight \<Rightarrow> getKnightMoves b row col
      | Bishop \<Rightarrow> getBishopMoves b row col
      | Rook \<Rightarrow> getRookMoves b row col
      | Queen \<Rightarrow> getQueenMoves b row col
      | King \<Rightarrow> getKingMoves b cr row col)"

definition isEnPassantTarget :: "(int \<times> int) option \<Rightarrow> int \<Rightarrow> int \<Rightarrow> bool" where
  "isEnPassantTarget ep toRow toCol =
     (case ep of
        Some (epRow, epCol) \<Rightarrow> toRow = epRow \<and> toCol = epCol
      | None \<Rightarrow> False)"

text \<open>
  The callback of \<open>moves.filter\<close>, run over the candidate moves in order.  It
  changes the live board, asks \<open>isInCheck\<close>, and writes the board back; the
  board after each candidate is the board the next one starts from, and the
  board after the last one is returned with the moves kept.
\<close>

fun filterMoves ::
  "board \<Rightarrow> (int \<times> int) option \<Rightarrow> int \<Rightarrow> int \<Rightarrow> color \<Rightarrow> move list \<Rightarrow> error + (move list \<times> board)" where
  "filterMoves b ep row col pc [] = Inr ([], b)"
| "filterMoves b ep row col pc ((toRow, toCol) # rest) =
     (let originalPiece = at b toRow toCol;
          movingPiece = at b row col
      in case movingPiece of
        Piece mt mc \<Rightarrow>
          (let capturedPawn = (mt = Pawn \<and> isEnPassantTarget ep toRow toCol);
               b1 = wr b toRow (Idx toCol) movingPiece;
               b2 = wr b1 row (Idx col) Null;
               b3 = (if capturedPawn then wr b2 row (Idx toCol) Null else b2)
           in case isInCheck b3 pc of
             Inl e \<Rightarrow> Inl e
           | Inr inCheck \<Rightarrow>
               (let b4 = wr b3 row (Idx col) movingPiece;
                    b5 = wr b4 toRow (Idx toCol) originalPiece;
                    b6 = (if capturedPawn
                          then wr b5 row (Idx toCol) (Piece Pawn (opponent pc)) else b5)
                in case filterMoves b6 ep row col pc rest of
                  Inl e \<Rightarrow> Inl e
                | Inr (kept, b') \<Rightarrow>
                    Inr (if inCheck then kept else (toRow, toCol) # kept, b')))
      | _ \<Rightarrow> Inl TypeError)"

definition rowExists :: "int \<Rightarrow> bool" where
  "rowExists row = (0 \<le> row \<and> row < 8)"

text \<open>
  \<open>getValidMoves\<close>: the moves it returns and the board it leaves behind.
\<close>

definition getValidMoves :: "chess \<Rightarrow> int \<Rightarrow> int \<Rightarrow> error + (move list \<times> board)" where
  "getValidMoves s row col =
     (if \<not> rowExists row then Inl TypeError
      else case at (board s) row col of
        Piece t pc \<Rightarrow>
          if pc \<noteq> currentPlayer s then Inr ([], board s)
          else (case pseudoMoves (board s) (enPassantTarget s) (castlingRights s) t row col of
                  Inl e \<Rightarrow> Inl e
                | Inr moves \<Rightarrow> filterMoves (board s) (enPassantTarget s) row col pc moves)
      | _ \<Rightarrow> Inr ([], board s))"

section \<open>End of the game\<close>

text \<open>The two nested loops of \<open>hasLegalMoves\<close>, from \<open>(r, c)\<close> on.\<close>

function hasLegalScan :: "chess \<Rightarrow> color \<Rightarrow> int \<Rightarrow> int \<Rightarrow> error + (bool \<times> chess)" where
  "hasLegalScan s color r c =
     (if r < 8
      then (if c < 8
            then (case at (board s) r c of
                    Piece t pc \<Rightarrow>
                      if pc = color
                      then (case getValidMoves s r c of
                              Inl e \<Rightarrow> Inl e
                            | Inr (moves, b') \<Rightarrow>
                                if length moves > 0 then Inr (True, s\<lparr>board := b'\<rparr>)
                                else hasLegalScan (s\<lparr>board := b'\<rparr>) color r (c + 1))
                      else hasLegalScan s color r (c + 1)
                  | _ \<Rightarrow> hasLegalScan s color r (c + 1))
            else hasLegalScan s color (r + 1) 0)
      else Inr (False, s))"
  by pat_completeness auto
termination
  by (relation "measures [\<lambda>(s, a, r, c). nat (8 - r), \<lambda>(s, a, r, c). nat (8 - c)]") auto

declare hasLegalScan.simps [simp del]

definition hasLegalMoves :: "chess \<Rightarrow> color \<Rightarrow> error + (bool \<times> chess)" where
  "hasLegalMoves s color = hasLegalScan s color 0 0"

definition isInCheckmate :: "chess \<Rightarrow> color \<Rightarrow> error + (bool \<times> chess)" where
  "isInCheckmate s color =
     (case isInCheck (board s) color of
        Inl e \<Rightarrow> Inl e
      | Inr False \<Rightarrow> Inr (False, s)
      | Inr True \<Rightarrow>
          (case hasLegalMoves s color of
             Inl e \<Rightarrow> Inl e
           | Inr (legal, s') \<Rightarrow> Inr (\<not> legal, s')))"

definition isInStalemate :: "chess \<Rightarrow> color \<Rightarrow> error + (bool \<times> chess)" where
  "isInStalemate s color =
     (case isInCheck (board s) color of
        Inl e \<Rightarrow> Inl e
      | Inr True \<Rightarrow> Inr (False, s)
      | Inr False \<Rightarrow>
          (case hasLegalMoves s color of
             Inl e \<Rightarrow> Inl e
           | Inr (legal, s') \<Rightarrow> Inr (\<not> legal, s')))"

definition checkGameEnd :: "chess \<Rightarrow> error + chess" where
  "checkGameEnd s =
     (let currentColor = currentPlayer s in
      case isInCheckmate s currentColor of
        Inl e \<Rightarrow> Inl e
      | Inr (True, s1) \<Rightarrow>
          Inr (s1\<lparr>gameOver := True,
                  gameResult := Some (if currentColor = White
                                      then ''Black wins'' else ''White wins'')\<rparr>)
      | Inr (False, s1) \<Rightarrow>
          (case isInStalemate s1 currentColor of
             Inl e \<Rightarrow> Inl e
           | Inr (True, s2) \<Rightarrow>
               Inr (s2\<lparr>gameOver := True, gameResult := Some ''Stalemate''\<rparr>)
           | Inr (False, s2) \<Rightarrow>
               if halfMoveClock s2 \<ge> 100
               then Inr (s2\<lparr>gameOver := True,
                            gameResult := Some ''Draw by fifty-move rule''\<rparr>)
               else Inr s2))"

section \<open>Applying a move\<close>

text \<open>
  The two loops of \<open>makeMove\<close> that look for the castling rook, to the right of
  the king's file and to its left.  \<open>rookFromCol\<close> stays unassigned when no rook
  is found; as a key that is \<open>undefined\<close>.
\<close>

function findRookRight :: "board \<Rightarrow> color \<Rightarrow> int \<Rightarrow> int \<Rightarrow> key" where
  "findRookRight b pc rank i =
     (if i < 8
      then (case at b rank i of
              Piece t c \<Rightarrow> if t = Rook \<and> c = pc then Idx i else findRookRight b pc rank (i + 1)
            | _ \<Rightarrow> findRookRight b pc rank (i + 1))
      else UndefKey)"
  by pat_completeness auto
termination
  by (relation "measure (\<lambda>(b, pc, rank, i). nat (8 - i))") auto

function findRookLeft :: "board \<Rightarrow> color \<Rightarrow> int \<Rightarrow> int \<Rightarrow> key" where
  "findRookLeft b pc rank i =
     (if i \<ge> 0
      then (case at b rank i of
              Piece t c \<Rightarrow> if t = Rook \<and> c = pc then Idx i else findRookLeft b pc rank (i - 1)
            | _ \<Rightarrow> findRookLeft b pc rank (i - 1))
      else UndefKey)"
  by pat_completeness auto
termination
  by (relation "measure (\<lambda>(b, pc, rank, i). nat (i + 1))") auto

declare findRookRight.simps [simp del] findRookLeft.simps [simp del]

text \<open>The loop that looks for the king's column on a rank; \<open>-1\<close> when there is none.\<close>

fun findKingCol :: "board \<Rightarrow> color \<Rightarrow> int \<Rightarrow> int list \<Rightarrow> int" where
  "findKingCol b color rank [] = - 1"
| "findKingCol b color rank (i # rest) =
     (case at b rank i of
        Piece t c \<Rightarrow> if t = King \<and> c = color then i else findKingCol b color rank rest
      | _ \<Rightarrow> findKingCol b color rank rest)"

definition setRights :: "castling \<Rightarrow> color \<Rightarrow> rights \<Rightarrow> castling" where
  "setRights cr c r = (if c = White then cr\<lparr>wRights := r\<rparr> else cr\<lparr>bRights := r\<rparr>)"

definition isPiece :: "cell \<Rightarrow> bool" where
  "isPiece p = (case p of Piece t c \<Rightarrow> True | _ \<Rightarrow> False)"

definition isRook :: "cell \<Rightarrow> bool" where
  "isRook p = (case p of Piece t c \<Rightarrow> t = Rook | _ \<Rightarrow> False)"

text \<open>
  The block \<open>if (piece.type === PIECE.PAWN) {...} else {...}\<close>: en passant capture,
  en passant target, promotion, half-move clock.
\<close>

definition pawnOrClock ::
  "chess \<Rightarrow> moveEntry \<Rightarrow> ptype \<Rightarrow> color \<Rightarrow> cell \<Rightarrow> int \<Rightarrow> int \<Rightarrow> int \<Rightarrow> int \<Rightarrow> chess \<times> moveEntry" where
  "pawnOrClock s entry pt pc capturedPiece fromRow fromCol toRow toCol =
     (if pt = Pawn
      then
        (let s1 = s\<lparr>halfMoveClock := 0\<rparr>;
             ep = isEnPassantTarget (enPassantTarget s1) toRow toCol;
             s2 = (if ep then s1\<lparr>board := wr (board s1) fromRow (Idx toCol) Null\<rparr> else s1);
             entry2 = (if ep then entry\<lparr>enPassant := Some (fromRow, toCol)\<rparr> else entry);
             s3 = (if \<bar>toRow - fromRow\<bar> = 2
                   then s2\<lparr>enPassantTarget := Some ((fromRow + toRow) div 2, fromCol)\<rparr>
                   else s2\<lparr>enPassantTarget := None\<rparr>)
         in if toRow = 0 \<or> toRow = 7
            then (s3\<lparr>board := wr (board s3) toRow (Idx toCol) (Piece Queen pc)\<rparr>,
                  entry2\<lparr>promotion := Some Queen\<rparr>)
            else (s3, entry2))
      else
        (let s1 = s\<lparr>enPassantTarget := None\<rparr>
         in (if isPiece capturedPiece then s1\<lparr>halfMoveClock := 0\<rparr>
             else s1\<lparr>halfMoveClock := halfMoveClock s1 + 1\<rparr>, entry)))"

text \<open>The block \<open>if (piece.type === PIECE.KING) {...}\<close>: rook relocation and rights.\<close>

definition kingCastling ::
  "chess \<Rightarrow> moveEntry \<Rightarrow> ptype \<Rightarrow> color \<Rightarrow> int \<Rightarrow> int \<Rightarrow> chess \<times> moveEntry" where
  "kingCastling s entry pt pc fromCol toCol =
     (if pt = King
      then
        (let rank = homeRank pc;
             (s1, entry1) =
               (if \<bar>toCol - fromCol\<bar> = 2
                then
                  (let isKingSide = toCol > fromCol;
                       rookFromCol = (if isKingSide
                                      then findRookRight (board s) pc rank (fromCol + 1)
                                      else findRookLeft (board s) pc rank (fromCol - 1));
                       rookToCol = (if isKingSide then fromCol + 1 else fromCol - 1);
                       b1 = wr (board s) rank (Idx rookToCol) (rd (board s) rank rookFromCol);
                       b2 = wr b1 rank rookFromCol Null
                   in (s\<lparr>board := b2\<rparr>,
                       entry\<lparr>castlingRook := Some ((rank, rookFromCol), (rank, rookToCol))\<rparr>))
                else (s, entry))
         in (s1\<lparr>castlingRights :=
                   setRights (castlingRights s1) pc \<lparr>kingSide = False, queenSide = False\<rparr>\<rparr>,
             entry1))
      else (s, entry))"

text \<open>The block \<open>// Update castling rights if rook moves or is captured\<close>.\<close>

definition rookRights ::
  "chess \<Rightarrow> ptype \<Rightarrow> color \<Rightarrow> cell \<Rightarrow> int \<Rightarrow> int \<Rightarrow> int \<Rightarrow> chess" where
  "rookRights s pt pc capturedPiece fromRow fromCol toCol =
     (if pt = Rook \<or> isRook capturedPiece
      then
        (let rank = fromRow;
             col = (if isPiece capturedPiece then toCol else fromCol);
             color = (case capturedPiece of Piece t c \<Rightarrow> c | _ \<Rightarrow> pc);
             rights = rightsOf (castlingRights s) color
         in if rank = homeRank color
            then (let kingCol = findKingCol (board s) color rank idx8
                  in if kingCol \<noteq> - 1
                     then (if col > kingCol
                           then s\<lparr>castlingRights :=
                                    setRights (castlingRights s) color (rights\<lparr>kingSide := False\<rparr>)\<rparr>
                           else s\<lparr>castlingRights :=
                                    setRights (castlingRights s) color (rights\<lparr>queenSide := False\<rparr>)\<rparr>)
                     else s)
            else s)
      else s)"

text \<open>
  Everything \<open>makeMove\<close> does after it has accepted the move, up to the call of
  \<open>checkGameEnd\<close>.
\<close>

definition applyMove :: "chess \<Rightarrow> ptype \<Rightarrow> color \<Rightarrow> int \<Rightarrow> int \<Rightarrow> int \<Rightarrow> int \<Rightarrow> chess" where
  "applyMove s pt pc fromRow fromCol toRow toCol =
     (let capturedPiece = at (board s) toRow toCol;
          moveEntry = \<lparr>piece = Piece pt pc, fromSq = (fromRow, fromCol), toSq = (toRow, toCol),
                       captured = capturedPiece, castlingRook = None, enPassant = None,
                       promotion = None\<rparr>;
          s1 = s\<lparr>board := wr (wr (board s) toRow (Idx toCol) (Piece pt pc)) fromRow (Idx fromCol) Null\<rparr>;
          (s2, entry2) = pawnOrClock s1 moveEntry pt pc capturedPiece fromRow fromCol toRow toCol;
          (s3, entry3) = kingCastling s2 entry2 pt pc fromCol toCol;
          s4 = rookRights s3 pt pc capturedPiece fromRow fromCol toCol;
          s5 = s4\<lparr>moveHistory := moveHistory s4 @ [entry3]\<rparr>;
          s6 = (if currentPlayer s5 = Black
                then s5\<lparr>fullMoveNumber := fullMoveNumber s5 + 1\<rparr> else s5)
      in s6\<lparr>currentPlayer := (if currentPlayer s6 = White then Black else White)\<rparr>)"

text \<open>
  \<open>makeMove\<close>.  The result is the boolean the source returns and the position
  the call leaves behind; \<open>Inl\<close> is a thrown error.
\<close>

definition makeMove :: "chess \<Rightarrow> int \<Rightarrow> int \<Rightarrow> int \<Rightarrow> int \<Rightarrow> error + (bool \<times> chess)" where
  "makeMove s fromRow fromCol toRow toCol =
     (if \<not> rowExists fromRow then Inl TypeError
      else case at (board s) fromRow fromCol of
        Piece pt pc \<Rightarrow>
          if pc \<noteq> currentPlayer s then Inr (False, s)
          else (case getValidMoves s fromRow fromCol of
                  Inl e \<Rightarrow> Inl e
                | Inr (validMoves, b') \<Rightarrow>
                    if \<not> hasMove validMoves toRow toCol then Inr (False, s\<lparr>board := b'\<rparr>)
                    else (case checkGameEnd
                                 (applyMove (s\<lparr>board := b'\<rparr>) pt pc fromRow fromCol toRow toCol) of
                            Inl e \<Rightarrow> Inl e
                          | Inr s'' \<Rightarrow> Inr (True, s'')))
      | _ \<Rightarrow> Inr (False, s))"

section \<open>FEN\<close>

text \<open>A JavaScript integer number converted to a string (decimal digits).\<close>

function natStr :: "nat \<Rightarrow> string" where
  "natStr n = (if n < 10 then [''0123456789'' ! n]
               else natStr (n div 10) @ [''0123456789'' ! (n mod 10)])"
  by pat_completeness auto
termination
  by (relation "measure id") auto

declare natStr.simps [simp del]

definition numStr :: "int \<Rightarrow> string" where
  "numStr i = (if i < 0 then CHR ''-'' # natStr (nat (- i)) else natStr (nat i))"

definition typeChar :: "ptype \<Rightarrow> char" where
  "typeChar t = (case t of King \<Rightarrow> CHR ''k'' | Queen \<Rightarrow> CHR ''q'' | Rook \<Rightarrow> CHR ''r''
                 | Bishop \<Rightarrow> CHR ''b'' | Knight \<Rightarrow> CHR ''n'' | Pawn \<Rightarrow> CHR ''p'')"

definition upperChar :: "ptype \<Rightarrow> char" where
  "upperChar t = (case t of King \<Rightarrow> CHR ''K'' | Queen \<Rightarrow> CHR ''Q'' | Rook \<Rightarrow> CHR ''R''
                  | Bishop \<Rightarrow> CHR ''B'' | Knight \<Rightarrow> CHR ''N'' | Pawn \<Rightarrow> CHR ''P'')"

definition pieceChar :: "ptype \<Rightarrow> color \<Rightarrow> char" where
  "pieceChar t c = (if c = White then upperChar t else typeChar t)"

definition colorChar :: "color \<Rightarrow> char" where
  "colorChar c = (if c = White then CHR ''w'' else CHR ''b'')"

text \<open>
  The inner loop of \<open>generateFEN\<close> over the files of one rank, with the running
  \<open>emptyCount\<close>.  Reading \<open>.type\<close> of \<open>undefined\<close> throws.
\<close>

fun fenRank :: "board \<Rightarrow> int \<Rightarrow> int list \<Rightarrow> int \<Rightarrow> error + string" where
  "fenRank b rank [] emptyCount = Inr (if emptyCount > 0 then numStr emptyCount else [])"
| "fenRank b rank (file # rest) emptyCount =
     (case at b rank file of
        Null \<Rightarrow> fenRank b rank rest (emptyCount + 1)
      | Undefined \<Rightarrow> Inl TypeError
      | Piece t c \<Rightarrow>
          (case fenRank b rank rest 0 of
             Inl e \<Rightarrow> Inl e
           | Inr str \<Rightarrow>
               Inr ((if emptyCount > 0 then numStr emptyCount else []) @ pieceChar t c # str)))"

fun fenBoard :: "board \<Rightarrow> int list \<Rightarrow> error + string" where
  "fenBoard b [] = Inr []"
| "fenBoard b (rank # rest) =
     (case fenRank b rank idx8 0 of
        Inl e \<Rightarrow> Inl e
      | Inr str \<Rightarrow>
          (case fenBoard b rest of
             Inl e \<Rightarrow> Inl e
           | Inr others \<Rightarrow> Inr (str @ (if rank < 7 then ''/'' else []) @ others)))"

definition fenCastling :: "chess \<Rightarrow> string" where
  "fenCastling s =
     (let castling =
            (if kingSide (wRights (castlingRights s)) then ''K'' else []) @
            (if queenSide (wRights (castlingRights s)) then ''Q'' else []) @
            (if kingSide (bRights (castlingRights s)) then ''k'' else []) @
            (if queenSide (bRights (castlingRights s)) then ''q'' else [])
      in if castling = [] then ''-'' else castling)"

text \<open>
  \<open>(this.enPassantTarget || '-')\<close> appended to a string: the target is the array
  \<open>[row, col]\<close>, and an array converts to its elements joined by a comma.
\<close>

definition fenEnPassant :: "chess \<Rightarrow> string" where
  "fenEnPassant s =
     (case enPassantTarget s of
        Some (epRow, epCol) \<Rightarrow> numStr epRow @ '','' @ numStr epCol
      | None \<Rightarrow> ''-'')"

definition generateFEN :: "chess \<Rightarrow> error + string" where
  "generateFEN s =
     (case fenBoard (board s) idx8 of
        Inl e \<Rightarrow> Inl e
      | Inr placement \<Rightarrow>
          Inr (placement @ '' '' @ [colorChar (currentPlayer s)] @ '' '' @ fenCastling s
               @ '' '' @ fenEnPassant s @ '' '' @ numStr (halfMoveClock s)
               @ '' '' @ numStr (fullMoveNumber s)))"

section \<open>A new game\<close>

definition emptyRow :: "cell v8" where
  "emptyRow = V8 Null Null Null Null Null Null Null Null"

definition emptyBoard :: board where
  "emptyBoard = \<lparr>grid = V8 emptyRow emptyRow emptyRow emptyRow emptyRow emptyRow emptyRow emptyRow,
                 props = (\<lambda>r k. Undefined)\<rparr>"

text \<open>
  The two set-up loops of \<open>initializeChess960\<close>.  A back-rank entry that is still
  \<open>null\<close> would give a piece without a type; the model has no such piece and
  gives \<open>None\<close> (it does not happen: see \<open>generateChess960Position\<close>).
\<close>

fun setUp :: "board \<Rightarrow> ptype option v8 \<Rightarrow> int \<Rightarrow> int \<Rightarrow> color \<Rightarrow> int list \<Rightarrow> board option" where
  "setUp b backrank backRow pawnRow color [] = Some b"
| "setUp b backrank backRow pawnRow color (i # rest) =
     (case get8 backrank i of
        None \<Rightarrow> None
      | Some t \<Rightarrow>
          setUp (wr (wr b backRow (Idx i) (Piece t color)) pawnRow (Idx i) (Piece Pawn color))
                backrank backRow pawnRow color rest)"

text \<open>
  \<open>initializeChess960\<close> overwrites every field, so the position it leaves does
  not depend on the one before; it returns the FEN of the new position.
\<close>

definition initializeChess960 :: "nat \<Rightarrow> nat \<Rightarrow> nat \<Rightarrow> nat \<Rightarrow> nat \<Rightarrow> chess option" where
  "initializeChess960 d1 d2 d3 d4 d5 =
     (case generateChess960Position d1 d2 d3 d4 d5 of
        None \<Rightarrow> None
      | Some backrank \<Rightarrow>
          (case setUp emptyBoard backrank 7 6 White idx8 of
             None \<Rightarrow> None
           | Some b1 \<Rightarrow>
               (case setUp b1 backrank 0 1 Black idx8 of
                  None \<Rightarrow> None
                | Some b2 \<Rightarrow>
                    Some \<lparr>board = b2, currentPlayer = White, moveHistory = [],
                          gameOver = False, gameResult = None,
                          startPosition = Some backrank,
                          castlingRights =
                            \<lparr>wRights = \<lparr>kingSide = True, queenSide = True\<rparr>,
                             bRights = \<lparr>kingSide = True, queenSide = True\<rparr>\<rparr>,
                          enPassantTarget = None, halfMoveClock = 0, fullMoveNumber = 1\<rparr>)))"

section \<open>What the claims speak about\<close>

subsection \<open>Well-formed back ranks and start positions\<close>

text \<open>The files (in ascending order) on which a back rank holds a piece of a given kind.\<close>

definition filesOf :: "ptype option v8 \<Rightarrow> ptype \<Rightarrow> int list" where
  "filesOf backrank t = filter (\<lambda>i. get8 backrank i = Some t) idx8"

text \<open>
  Two bishops on files of opposite parity, two rooks with the one king strictly
  between them, two knights and one queen.
\<close>

definition validBackrank :: "ptype option v8 \<Rightarrow> bool" where
  "validBackrank backrank =
     ((case filesOf backrank Bishop of [b1, b2] \<Rightarrow> (b1 + b2) mod 2 = 1 | _ \<Rightarrow> False) \<and>
      (case filesOf backrank Rook of
         [r1, r2] \<Rightarrow> (case filesOf backrank King of [k] \<Rightarrow> r1 < k \<and> k < r2 | _ \<Rightarrow> False)
       | _ \<Rightarrow> False) \<and>
      length (filesOf backrank Knight) = 2 \<and> length (filesOf backrank Queen) = 1)"

fun map8 :: "('a \<Rightarrow> 'b) \<Rightarrow> 'a v8 \<Rightarrow> 'b v8" where
  "map8 f (V8 a0 a1 a2 a3 a4 a5 a6 a7) = V8 (f a0) (f a1) (f a2) (f a3) (f a4) (f a5) (f a6) (f a7)"

definition backPiece :: "color \<Rightarrow> ptype option \<Rightarrow> cell" where
  "backPiece c t = (case t of Some p \<Rightarrow> Piece p c | None \<Rightarrow> Null)"

definition pawnRow :: "color \<Rightarrow> cell v8" where
  "pawnRow c = V8 (Piece Pawn c) (Piece Pawn c) (Piece Pawn c) (Piece Pawn c)
                  (Piece Pawn c) (Piece Pawn c) (Piece Pawn c) (Piece Pawn c)"

text \<open>
  The board of a new game on a given back rank: Black's pieces on row 0 (rank 8)
  and pawns on row 1 (rank 7), White's pawns on row 6 (rank 2) and pieces on
  row 7 (rank 1), nothing between.
\<close>

definition startGrid :: "ptype option v8 \<Rightarrow> cell v8 v8" where
  "startGrid backrank =
     V8 (map8 (backPiece Black) backrank) (pawnRow Black) emptyRow emptyRow
        emptyRow emptyRow (pawnRow White) (map8 (backPiece White) backrank)"

subsection \<open>Games\<close>

text \<open>
  The positions of a game: the one \<open>initializeChess960\<close> sets up, and every
  position a successful \<open>makeMove\<close> leaves.
\<close>

inductive reachable :: "chess \<Rightarrow> bool" where
  start: "initializeChess960 d1 d2 d3 d4 d5 = Some s \<Longrightarrow> reachable s"
| move: "reachable s \<Longrightarrow> makeMove s fromRow fromCol toRow toCol = Inr (True, s') \<Longrightarrow> reachable s'"

text \<open>A sequence of \<open>makeMove\<close> calls, each of which has to return \<open>true\<close>.\<close>

fun play :: "chess \<Rightarrow> (int \<times> int \<times> int \<times> int) list \<Rightarrow> chess option" where
  "play s [] = Some s"
| "play s ((fromRow, fromCol, toRow, toCol) # rest) =
     (case makeMove s fromRow fromCol toRow toCol of
        Inr (True, s') \<Rightarrow> play s' rest
      | _ \<Rightarrow> None)"

text \<open>
  The en passant target agrees with the board: it lies on the row behind a
  pawn of the side that has just moved, and that pawn stands next to it on the
  row from which the side to move captures.
\<close>

definition epConsistent :: "chess \<Rightarrow> bool" where
  "epConsistent s =
     (case enPassantTarget s of
        None \<Rightarrow> True
      | Some (epRow, epCol) \<Rightarrow>
          epRow = (if currentPlayer s = White then 2 else 5) \<and>
          at (board s) (if currentPlayer s = White then 3 else 4) epCol
            = Piece Pawn (opponent (currentPlayer s)))"

text \<open>The cells of the 8 by 8 grid, row by row, and the number of kings among them.\<close>

definition gridCells :: "board \<Rightarrow> cell list" where
  "gridCells b = concat (map list8 (list8 (grid b)))"

definition countKings :: "board \<Rightarrow> color \<Rightarrow> nat" where
  "countKings b c = length (filter (\<lambda>x. x = Piece King c) (gridCells b))"

definition countPawns :: "board \<Rightarrow> color \<Rightarrow> nat" where
  "countPawns b c = length (filter (\<lambda>x. x = Piece Pawn c) (gridCells b))"

subsection \<open>Positions\<close>

definition allRights :: castling where
  "allRights = \<lparr>wRights = \<lparr>kingSide = True, queenSide = True\<rparr>,
                 bRights = \<lparr>kingSide = True, queenSide = True\<rparr>\<rparr>"

text \<open>The start position of standard chess (back rank \<open>RNBQKBNR\<close>).\<close>

definition stdBoard :: board where
  "stdBoard = \<lparr>grid = V8
     (V8 (Piece Rook Black) (Piece Knight Black) (Piece Bishop Black) (Piece Queen Black) (Piece King Black) (Piece Bishop Black) (Piece Knight Black) (Piece Rook Black))
     (V8 (Piece Pawn Black) (Piece Pawn Black) (Piece Pawn Black) (Piece Pawn Black) (Piece Pawn Black) (Piece Pawn Black) (Piece Pawn Black) (Piece Pawn Black))
     (V8 Null Null Null Null Null Null Null Null)
     (V8 Null Null Null Null Null Null Null Null)
     (V8 Null Null Null Null Null Null Null Null)
     (V8 Null Null Null Null Null Null Null Null)
     (V8 (Piece Pawn White) (Piece Pawn White) (Piece Pawn White) (Piece Pawn White) (Piece Pawn White) (Piece Pawn White) (Piece Pawn White) (Piece Pawn White))
     (V8 (Piece Rook White) (Piece Knight White) (Piece Bishop White) (Piece Queen White) (Piece King White) (Piece Bishop White) (Piece Knight White) (Piece Rook White)),
     props = (\<lambda>r k. Undefined)\<rparr>"

text \<open>The same after White's knight has gone from g1 to f3,\<close>

definition nf3Board :: board where
  "nf3Board = \<lparr>grid = V8
     (V8 (Piece Rook Black) (Piece Knight Black) (Piece Bishop Black) (Piece Queen Black) (Piece King Black) (Piece Bishop Black) (Piece Knight Black) (Piece Rook Black))
     (V8 (Piece Pawn Black) (Piece Pawn Black) (Piece Pawn Black) (Piece Pawn Black) (Piece Pawn Black) (Piece Pawn Black) (Piece Pawn Black) (Piece Pawn Black))
     (V8 Null Null Null Null Null Null Null Null)
     (V8 Null Null Null Null Null Null Null Null)
     (V8 Null Null Null Null Null Null Null Null)
     (V8 Null Null Null Null Null (Piece Knight White) Null Null)
     (V8 (Piece Pawn White) (Piece Pawn White) (Piece Pawn White) (Piece Pawn White) (Piece Pawn White) (Piece Pawn White) (Piece Pawn White) (Piece Pawn White))
     (V8 (Piece Rook White) (Piece Knight White) (Piece Bishop White) (Piece Queen White) (Piece King White) (Piece Bishop White) Null (Piece Rook White)),
     props = (\<lambda>r k. Undefined)\<rparr>"

text \<open>after Black's knight has gone from g8 to f6,\<close>

definition nf3nf6Board :: board where
  "nf3nf6Board = \<lparr>grid = V8
     (V8 (Piece Rook Black) (Piece Knight Black) (Piece Bishop Black) (Piece Queen Black) (Piece King Black) (Piece Bishop Black) Null (Piece Rook Black))
     (V8 (Piece Pawn Black) (Piece Pawn Black) (Piece Pawn Black) (Piece Pawn Black) (Piece Pawn Black) (Piece Pawn Black) (Piece Pawn Black) (Piece Pawn Black))
     (V8 Null Null Null Null Null (Piece Knight Black) Null Null)
     (V8 Null Null Null Null Null Null Null Null)
     (V8 Null Null Null Null Null Null Null Null)
     (V8 Null Null Null Null Null (Piece Knight White) Null Null)
     (V8 (Piece Pawn White) (Piece Pawn White) (Piece Pawn White) (Piece Pawn White) (Piece Pawn White) (Piece Pawn White) (Piece Pawn White) (Piece Pawn White))
     (V8 (Piece Rook White) (Piece Knight White) (Piece Bishop White) (Piece Queen White) (Piece King White) (Piece Bishop White) Null (Piece Rook White)),
     props = (\<lambda>r k. Undefined)\<rparr>"

text \<open>and after White's knight has gone back to g1.\<close>

definition nf6Board :: board where
  "nf6Board = \<lparr>grid = V8
     (V8 (Piece Rook Black) (Piece Knight Black) (Piece Bishop Black) (Piece Queen Black) (Piece King Black) (Piece Bishop Black) Null (Piece Rook Black))
     (V8 (Piece Pawn Black) (Piece Pawn Black) (Piece Pawn Black) (Piece Pawn Black) (Piece Pawn Black) (Piece Pawn Black) (Piece Pawn Black) (Piece Pawn Black))
     (V8 Null Null Null Null Null (Piece Knight Black) Null Null)
     (V8 Null Null Null Null Null Null Null Null)
     (V8 Null Null Null Null Null Null Null Null)
     (V8 Null Null Null Null Null Null Null Null)
     (V8 (Piece Pawn White) (Piece Pawn White) (Piece Pawn White) (Piece Pawn White) (Piece Pawn White) (Piece Pawn White) (Piece Pawn White) (Piece Pawn White))
     (V8 (Piece Rook White) (Piece Knight White) (Piece Bishop White) (Piece Queen White) (Piece King White) (Piece Bishop White) (Piece Knight White) (Piece Rook White)),
     props = (\<lambda>r k. Undefined)\<rparr>"

text \<open>The standard start position after 1. f3,\<close>

definition f3Board :: board where
  "f3Board = \<lparr>grid = V8
     (V8 (Piece Rook Black) (Piece Knight Black) (Piece Bishop Black) (Piece Queen Black) (Piece King Black) (Piece Bishop Black) (Piece Knight Black) (Piece Rook Black))
     (V8 (Piece Pawn Black) (Piece Pawn Black) (Piece Pawn Black) (Piece Pawn Black) (Piece Pawn Black) (Piece Pawn Black) (Piece Pawn Black) (Piece Pawn Black))
     (V8 Null Null Null Null Null Null Null Null)
     (V8 Null Null Null Null Null Null Null Null)
     (V8 Null Null Null Null Null Null Null Null)
     (V8 Null Null Null Null Null (Piece Pawn White) Null Null)
     (V8 (Piece Pawn White) (Piece Pawn White) (Piece Pawn White) (Piece Pawn White) (Piece Pawn White) Null (Piece Pawn White) (Piece Pawn White))
     (V8 (Piece Rook White) (Piece Knight White) (Piece Bishop White) (Piece Queen White) (Piece King White) (Piece Bishop White) (Piece Knight White) (Piece Rook White)),
     props = (\<lambda>r k. Undefined)\<rparr>"

text \<open>after 1. f3 e5,\<close>

definition f3e5Board :: board where
  "f3e5Board = \<lparr>grid = V8
     (V8 (Piece Rook Black) (Piece Knight Black) (Piece Bishop Black) (Piece Queen Black) (Piece King Black) (Piece Bishop Black) (Piece Knight Black) (Piece Rook Black))
     (V8 (Piece Pawn Black) (Piece Pawn Black) (Piece Pawn Black) (Piece Pawn Black) Null (Piece Pawn Black) (Piece Pawn Black) (Piece Pawn Black))
     (V8 Null Null Null Null Null Null Null Null)
     (V8 Null Null Null Null (Piece Pawn Black) Null Null Null)
     (V8 Null Null Null Null Null Null Null Null)
     (V8 Null Null Null Null Null (Piece Pawn White) Null Null)
     (V8 (Piece Pawn White) (Piece Pawn White) (Piece Pawn White) (Piece Pawn White) (Piece Pawn White) Null (Piece Pawn White) (Piece Pawn White))
     (V8 (Piece Rook White) (Piece Knight White) (Piece Bishop White) (Piece Queen White) (Piece King White) (Piece Bishop White) (Piece Knight White) (Piece Rook White)),
     props = (\<lambda>r k. Undefined)\<rparr>"

text \<open>after 1. f3 e5 2. g4,\<close>

definition f3e5g4Board :: board where
  "f3e5g4Board = \<lparr>grid = V8
     (V8 (Piece Rook Black) (Piece Knight Black) (Piece Bishop Black) (Piece Queen Black) (Piece King Black) (Piece Bishop Black) (Piece Knight Black) (Piece Rook Black))
     (V8 (Piece Pawn Black) (Piece Pawn Black) (Piece Pawn Black) (Piece Pawn Black) Null (Piece Pawn Black) (Piece Pawn Black) (Piece Pawn Black))
     (V8 Null Null Null Null Null Null Null Null)
     (V8 Null Null Null Null (Piece Pawn Black) Null Null Null)
     (V8 Null Null Null Null Null Null (Piece Pawn White) Null)
     (V8 Null Null Null Null Null (Piece Pawn White) Null Null)
     (V8 (Piece Pawn White) (Piece Pawn White) (Piece Pawn White) (Piece Pawn White) (Piece Pawn White) Null Null (Piece Pawn White))
     (V8 (Piece Rook White) (Piece Knight White) (Piece Bishop White) (Piece Queen White) (Piece King White) (Piece Bishop White) (Piece Knight White) (Piece Rook White)),
     props = (\<lambda>r k. Undefined)\<rparr>"

text \<open>and after 1. f3 e5 2. g4 Qh4, which is mate.\<close>

definition mateBoard :: board where
  "mateBoard = \<lparr>grid = V8
     (V8 (Piece Rook Black) (Piece Knight Black) (Piece Bishop Black) Null (Piece King Black) (Piece Bishop Black) (Piece Knight Black) (Piece Rook Black))
     (V8 (Piece Pawn Black) (Piece Pawn Black) (Piece Pawn Black) (Piece Pawn Black) Null (Piece Pawn Black) (Piece Pawn Black) (Piece Pawn Black))
     (V8 Null Null Null Null Null Null Null Null)
     (V8 Null Null Null Null (Piece Pawn Black) Null Null Null)
     (V8 Null Null Null Null Null Null (Piece Pawn White) (Piece Queen Black))
     (V8 Null Null Null Null Null (Piece Pawn White) Null Null)
     (V8 (Piece Pawn White) (Piece Pawn White) (Piece Pawn White) (Piece Pawn White) (Piece Pawn White) Null Null (Piece Pawn White))
     (V8 (Piece Rook White) (Piece Knight White) (Piece Bishop White) (Piece Queen White) (Piece King White) (Piece Bishop White) (Piece Knight White) (Piece Rook White)),
     props = (\<lambda>r k. Undefined)\<rparr>"

text \<open>The start position on the back rank \<open>RNBQKBRN\<close>,\<close>

definition rkBoard :: board where
  "rkBoard = \<lparr>grid = V8
     (V8 (Piece Rook Black) (Piece Knight Black) (Piece Bishop Black) (Piece Queen Black) (Piece King Black) (Piece Bishop Black) (Piece Rook Black) (Piece Knight Black))
     (V8 (Piece Pawn Black) (Piece Pawn Black) (Piece Pawn Black) (Piece Pawn Black) (Piece Pawn Black) (Piece Pawn Black) (Piece Pawn Black) (Piece Pawn Black))
     (V8 Null Null Null Null Null Null Null Null)
     (V8 Null Null Null Null Null Null Null Null)
     (V8 Null Null Null Null Null Null Null Null)
     (V8 Null Null Null Null Null Null Null Null)
     (V8 (Piece Pawn White) (Piece Pawn White) (Piece Pawn White) (Piece Pawn White) (Piece Pawn White) (Piece Pawn White) (Piece Pawn White) (Piece Pawn White))
     (V8 (Piece Rook White) (Piece Knight White) (Piece Bishop White) (Piece Queen White) (Piece King White) (Piece Bishop White) (Piece Rook White) (Piece Knight White)),
     props = (\<lambda>r k. Undefined)\<rparr>"

text \<open>after 1. e3,\<close>

definition rkE3Board :: board where
  "rkE3Board = \<lparr>grid = V8
     (V8 (Piece Rook Black) (Piece Knight Black) (Piece Bishop Black) (Piece Queen Black) (Piece King Black) (Piece Bishop Black) (Piece Rook Black) (Piece Knight Black))
     (V8 (Piece Pawn Black) (Piece Pawn Black) (Piece Pawn Black) (Piece Pawn Black) (Piece Pawn Black) (Piece Pawn Black) (Piece Pawn Black) (Piece Pawn Black))
     (V8 Null Null Null Null Null Null Null Null)
     (V8 Null Null Null Null Null Null Null Null)
     (V8 Null Null Null Null Null Null Null Null)
     (V8 Null Null Null Null (Piece Pawn White) Null Null Null)
     (V8 (Piece Pawn White) (Piece Pawn White) (Piece Pawn White) (Piece Pawn White) Null (Piece Pawn White) (Piece Pawn White) (Piece Pawn White))
     (V8 (Piece Rook White) (Piece Knight White) (Piece Bishop White) (Piece Queen White) (Piece King White) (Piece Bishop White) (Piece Rook White) (Piece Knight White)),
     props = (\<lambda>r k. Undefined)\<rparr>"

text \<open>after 1. e3 a6,\<close>

definition rkA6Board :: board where
  "rkA6Board = \<lparr>grid = V8
     (V8 (Piece Rook Black) (Piece Knight Black) (Piece Bishop Black) (Piece Queen Black) (Piece King Black) (Piece Bishop Black) (Piece Rook Black) (Piece Knight Black))
     (V8 Null (Piece Pawn Black) (Piece Pawn Black) (Piece Pawn Black) (Piece Pawn Black) (Piece Pawn Black) (Piece Pawn Black) (Piece Pawn Black))
     (V8 (Piece Pawn Black) Null Null Null Null Null Null Null)
     (V8 Null Null Null Null Null Null Null Null)
     (V8 Null Null Null Null Null Null Null Null)
     (V8 Null Null Null Null (Piece Pawn White) Null Null Null)
     (V8 (Piece Pawn White) (Piece Pawn White) (Piece Pawn White) (Piece Pawn White) Null (Piece Pawn White) (Piece Pawn White) (Piece Pawn White))
     (V8 (Piece Rook White) (Piece Knight White) (Piece Bishop White) (Piece Queen White) (Piece King White) (Piece Bishop White) (Piece Rook White) (Piece Knight White)),
     props = (\<lambda>r k. Undefined)\<rparr>"

text \<open>after 1. e3 a6 2. Be2,\<close>

definition rkBe2Board :: board where
  "rkBe2Board = \<lparr>grid = V8
     (V8 (Piece Rook Black) (Piece Knight Black) (Piece Bishop Black) (Piece Queen Black) (Piece King Black) (Piece Bishop Black) (Piece Rook Black) (Piece Knight Black))
     (V8 Null (Piece Pawn Black) (Piece Pawn Black) (Piece Pawn Black) (Piece Pawn Black) (Piece Pawn Black) (Piece Pawn Black) (Piece Pawn Black))
     (V8 (Piece Pawn Black) Null Null Null Null Null Null Null)
     (V8 Null Null Null Null Null Null Null Null)
     (V8 Null Null Null Null Null Null Null Null)
     (V8 Null Null Null Null (Piece Pawn White) Null Null Null)
     (V8 (Piece Pawn White) (Piece Pawn White) (Piece Pawn White) (Piece Pawn White) (Piece Bishop White) (Piece Pawn White) (Piece Pawn White) (Piece Pawn White))
     (V8 (Piece Rook White) (Piece Knight White) (Piece Bishop White) (Piece Queen White) (Piece King White) Null (Piece Rook White) (Piece Knight White)),
     props = (\<lambda>r k. Undefined)\<rparr>"

text \<open>and after 1. e3 a6 2. Be2 a5.\<close>

definition rkReadyBoard :: board where
  "rkReadyBoard = \<lparr>grid = V8
     (V8 (Piece Rook Black) (Piece Knight Black) (Piece Bishop Black) (Piece Queen Black) (Piece King Black) (Piece Bishop Black) (Piece Rook Black) (Piece Knight Black))
     (V8 Null (Piece Pawn Black) (Piece Pawn Black) (Piece Pawn Black) (Piece Pawn Black) (Piece Pawn Black) (Piece Pawn Black) (Piece Pawn Black))
     (V8 Null Null Null Null Null Null Null Null)
     (V8 (Piece Pawn Black) Null Null Null Null Null Null Null)
     (V8 Null Null Null Null Null Null Null Null)
     (V8 Null Null Null Null (Piece Pawn White) Null Null Null)
     (V8 (Piece Pawn White) (Piece Pawn White) (Piece Pawn White) (Piece Pawn White) (Piece Bishop White) (Piece Pawn White) (Piece Pawn White) (Piece Pawn White))
     (V8 (Piece Rook White) (Piece Knight White) (Piece Bishop White) (Piece Queen White) (Piece King White) Null (Piece Rook White) (Piece Knight White)),
     props = (\<lambda>r k. Undefined)\<rparr>"

text \<open>White king f7 and queen g5, Black king h8,\<close>

definition queenBoard :: board where
  "queenBoard = \<lparr>grid = V8
     (V8 Null Null Null Null Null Null Null (Piece King Black))
     (V8 Null Null Null Null Null (Piece King White) Null Null)
     (V8 Null Null Null Null Null Null Null Null)
     (V8 Null Null Null Null Null Null (Piece Queen White) Null)
     (V8 Null Null Null Null Null Null Null Null)
     (V8 Null Null Null Null Null Null Null Null)
     (V8 Null Null Null Null Null Null Null Null)
     (V8 Null Null Null Null Null Null Null Null),
     props = (\<lambda>r k. Undefined)\<rparr>"

text \<open>and the same with the queen on g6: Black has no move and is not in check.\<close>

definition staleBoard :: board where
  "staleBoard = \<lparr>grid = V8
     (V8 Null Null Null Null Null Null Null (Piece King Black))
     (V8 Null Null Null Null Null (Piece King White) Null Null)
     (V8 Null Null Null Null Null Null (Piece Queen White) Null)
     (V8 Null Null Null Null Null Null Null Null)
     (V8 Null Null Null Null Null Null Null Null)
     (V8 Null Null Null Null Null Null Null Null)
     (V8 Null Null Null Null Null Null Null Null)
     (V8 Null Null Null Null Null Null Null Null),
     props = (\<lambda>r k. Undefined)\<rparr>"

text \<open>The start position on the back rank \<open>BBNNQRKR\<close>.\<close>

definition wingBoard :: board where
  "wingBoard = \<lparr>grid = V8
     (V8 (Piece Bishop Black) (Piece Bishop Black) (Piece Knight Black) (Piece Knight Black) (Piece Queen Black) (Piece Rook Black) (Piece King Black) (Piece Rook Black))
     (V8 (Piece Pawn Black) (Piece Pawn Black) (Piece Pawn Black) (Piece Pawn Black) (Piece Pawn Black) (Piece Pawn Black) (Piece Pawn Black) (Piece Pawn Black))
     (V8 Null Null Null Null Null Null Null Null)
     (V8 Null Null Null Null Null Null Null Null)
     (V8 Null Null Null Null Null Null Null Null)
     (V8 Null Null Null Null Null Null Null Null)
     (V8 (Piece Pawn White) (Piece Pawn White) (Piece Pawn White) (Piece Pawn White) (Piece Pawn White) (Piece Pawn White) (Piece Pawn White) (Piece Pawn White))
     (V8 (Piece Bishop White) (Piece Bishop White) (Piece Knight White) (Piece Knight White) (Piece Queen White) (Piece Rook White) (Piece King White) (Piece Rook White)),
     props = (\<lambda>r k. Undefined)\<rparr>"

text \<open>White king e1 and rook b1, Black queen a1 and king e8.\<close>

definition pinBoard :: board where
  "pinBoard = \<lparr>grid = V8
     (V8 Null Null Null Null (Piece King Black) Null Null Null)
     (V8 Null Null Null Null Null Null Null Null)
     (V8 Null Null Null Null Null Null Null Null)
     (V8 Null Null Null Null Null Null Null Null)
     (V8 Null Null Null Null Null Null Null Null)
     (V8 Null Null Null Null Null Null Null Null)
     (V8 Null Null Null Null Null Null Null Null)
     (V8 (Piece Queen Black) (Piece Rook White) Null Null (Piece King White) Null Null Null),
     props = (\<lambda>r k. Undefined)\<rparr>"

text \<open>White king e1 and rook f1, Black rook f8 on the open f-file, Black king a8.\<close>

definition fileBoard :: board where
  "fileBoard = \<lparr>grid = V8
     (V8 (Piece King Black) Null Null Null Null (Piece Rook Black) Null Null)
     (V8 Null Null Null Null Null Null Null Null)
     (V8 Null Null Null Null Null Null Null Null)
     (V8 Null Null Null Null Null Null Null Null)
     (V8 Null Null Null Null Null Null Null Null)
     (V8 Null Null Null Null Null Null Null Null)
     (V8 Null Null Null Null Null Null Null Null)
     (V8 Null Null Null Null (Piece King White) (Piece Rook White) Null Null),
     props = (\<lambda>r k. Undefined)\<rparr>"

text \<open>White king e1 and rook a1, Black pawn a7 and king e8.\<close>

definition rookBoard :: board where
  "rookBoard = \<lparr>grid = V8
     (V8 Null Null Null Null (Piece King Black) Null Null Null)
     (V8 (Piece Pawn Black) Null Null Null Null Null Null Null)
     (V8 Null Null Null Null Null Null Null Null)
     (V8 Null Null Null Null Null Null Null Null)
     (V8 Null Null Null Null Null Null Null Null)
     (V8 Null Null Null Null Null Null Null Null)
     (V8 Null Null Null Null Null Null Null Null)
     (V8 (Piece Rook White) Null Null Null (Piece King White) Null Null Null),
     props = (\<lambda>r k. Undefined)\<rparr>"

text \<open>The start position on \<open>BBNNQRKR\<close> without White's king and king's rook.\<close>

definition wingLeftBoard :: board where
  "wingLeftBoard = \<lparr>grid = V8
     (V8 (Piece Bishop Black) (Piece Bishop Black) (Piece Knight Black) (Piece Knight Black) (Piece Queen Black) (Piece Rook Black) (Piece King Black) (Piece Rook Black))
     (V8 (Piece Pawn Black) (Piece Pawn Black) (Piece Pawn Black) (Piece Pawn Black) (Piece Pawn Black) (Piece Pawn Black) (Piece Pawn Black) (Piece Pawn Black))
     (V8 Null Null Null Null Null Null Null Null)
     (V8 Null Null Null Null Null Null Null Null)
     (V8 Null Null Null Null Null Null Null Null)
     (V8 Null Null Null Null Null Null Null Null)
     (V8 (Piece Pawn White) (Piece Pawn White) (Piece Pawn White) (Piece Pawn White) (Piece Pawn White) (Piece Pawn White) (Piece Pawn White) (Piece Pawn White))
     (V8 (Piece Bishop White) (Piece Bishop White) (Piece Knight White) (Piece Knight White) (Piece Queen White) (Piece Rook White) Null Null),
     props = (\<lambda>r k. Undefined)\<rparr>"

text \<open>The position of the pin after White has castled: king c1, rook d1.\<close>

definition pinCastledBoard :: board where
  "pinCastledBoard = \<lparr>grid = V8
     (V8 Null Null Null Null (Piece King Black) Null Null Null)
     (V8 Null Null Null Null Null Null Null Null)
     (V8 Null Null Null Null Null Null Null Null)
     (V8 Null Null Null Null Null Null Null Null)
     (V8 Null Null Null Null Null Null Null Null)
     (V8 Null Null Null Null Null Null Null Null)
     (V8 Null Null Null Null Null Null Null Null)
     (V8 (Piece Queen Black) Null (Piece King White) (Piece Rook White) Null Null Null Null),
     props = (\<lambda>r k. Undefined)\<rparr>"

text \<open>A position at the first move of a game on a given board.\<close>

definition gameOn :: "board \<Rightarrow> ptype option v8 option \<Rightarrow> chess" where
  "gameOn b sp =
     \<lparr>board = b, currentPlayer = White, moveHistory = [], gameOver = False,
      gameResult = None, startPosition = sp, castlingRights = allRights,
      enPassantTarget = None, halfMoveClock = 0, fullMoveNumber = 1\<rparr>"

definition stdRank :: "ptype option v8" where
  "stdRank = V8 (Some Rook) (Some Knight) (Some Bishop) (Some Queen)
                (Some King) (Some Bishop) (Some Knight) (Some Rook)"

definition wingRank :: "ptype option v8" where
  "wingRank = V8 (Some Bishop) (Some Bishop) (Some Knight) (Some Knight)
                 (Some Queen) (Some Rook) (Some King) (Some Rook)"

definition stdStart :: chess where
  "stdStart = gameOn stdBoard (Some stdRank)"

definition wingStart :: chess where
  "wingStart = gameOn wingBoard (Some wingRank)"

definition pinPosition :: chess where
  "pinPosition = gameOn pinBoard None"

definition filePosition :: chess where
  "filePosition = gameOn fileBoard None"



text \<open>
  A position of a standard game in which no king or rook has moved, all other
  fields given.
\<close>

definition standing ::
  "bool \<Rightarrow> string option \<Rightarrow> board \<Rightarrow> color \<Rightarrow> (int \<times> int) option \<Rightarrow> int \<Rightarrow> int
   \<Rightarrow> moveEntry list \<Rightarrow> chess" where
  "standing over result b c ep h n hist =
     \<lparr>board = b, currentPlayer = c, moveHistory = hist, gameOver = over,
      gameResult = result, startPosition = Some stdRank, castlingRights = allRights,
      enPassantTarget = ep, halfMoveClock = h, fullMoveNumber = n\<rparr>"

text \<open>The entry \<open>makeMove\<close> logs for a move that is no capture, castling or promotion.\<close>

definition plain :: "ptype \<Rightarrow> color \<Rightarrow> int \<times> int \<Rightarrow> int \<times> int \<Rightarrow> moveEntry" where
  "plain t c from to =
     \<lparr>piece = Piece t c, fromSq = from, toSq = to, captured = Null,
      castlingRook = None, enPassant = None, promotion = None\<rparr>"

text \<open>
  The rook position: White to move and still allowed to castle to the queen's
  side; no other castling right is left.
\<close>

definition rookPosition :: chess where
  "rookPosition =
     \<lparr>board = rookBoard, currentPlayer = White, moveHistory = [], gameOver = False,
      gameResult = None, startPosition = None,
      castlingRights = \<lparr>wRights = \<lparr>kingSide = False, queenSide = True\<rparr>,
                         bRights = \<lparr>kingSide = False, queenSide = False\<rparr>\<rparr>,
      enPassantTarget = None, halfMoveClock = 0, fullMoveNumber = 1\<rparr>"

text \<open>The position of a standard game after 1. e4.\<close>

definition afterE4 :: chess where
  "afterE4 =
     \<lparr>board = wr (wr stdBoard 4 (Idx 4) (Piece Pawn White)) 6 (Idx 4) Null,
      currentPlayer = Black, moveHistory = [plain Pawn White (6, 4) (4, 4)],
      gameOver = False, gameResult = None, startPosition = Some stdRank,
      castlingRights = allRights,
      enPassantTarget = Some (5, 4), halfMoveClock = 0, fullMoveNumber = 1\<rparr>"

text \<open>The game 1. f3 e5 2. g4 Qh4: before Black's second move, and after it.\<close>

definition beforeMate :: chess where
  "beforeMate =
     standing False None f3e5g4Board Black (Some (5, 6)) 0 2
       [plain Pawn White (6, 5) (5, 5), plain Pawn Black (1, 4) (3, 4),
        plain Pawn White (6, 6) (4, 6)]"

definition mated :: chess where
  "mated =
     standing True (Some ''Black wins'') mateBoard White None 1 3
       [plain Pawn White (6, 5) (5, 5), plain Pawn Black (1, 4) (3, 4),
        plain Pawn White (6, 6) (4, 6), plain Queen Black (0, 3) (4, 7)]"

text \<open>
  A game on the back rank \<open>RNBQKBRN\<close> in which no king or rook has moved and
  the last move was no double step.
\<close>

definition rkRank :: "ptype option v8" where
  "rkRank = V8 (Some Rook) (Some Knight) (Some Bishop) (Some Queen)
               (Some King) (Some Bishop) (Some Rook) (Some Knight)"

definition rkGame :: "board \<Rightarrow> color \<Rightarrow> int \<Rightarrow> int \<Rightarrow> moveEntry list \<Rightarrow> chess" where
  "rkGame b c h n hist =
     \<lparr>board = b, currentPlayer = c, moveHistory = hist, gameOver = False,
      gameResult = None, startPosition = Some rkRank, castlingRights = allRights,
      enPassantTarget = None, halfMoveClock = h, fullMoveNumber = n\<rparr>"

definition rkStart :: chess where
  "rkStart = gameOn rkBoard (Some rkRank)"

text \<open>That game after 1. e3 a6 2. Be2 a5: White's king e1 and rook g1 with f1 empty.\<close>

definition rkReady :: chess where
  "rkReady =
     rkGame rkReadyBoard White 0 3
       [plain Pawn White (6, 4) (5, 4), plain Pawn Black (1, 0) (2, 0),
        plain Bishop White (7, 5) (6, 4), plain Pawn Black (2, 0) (3, 0)]"

text \<open>
  King and queen against the king, no castling right left: White to move with
  the queen on g5, and the position after the queen has gone to g6.
\<close>

definition noRights :: castling where
  "noRights = \<lparr>wRights = \<lparr>kingSide = False, queenSide = False\<rparr>,
               bRights = \<lparr>kingSide = False, queenSide = False\<rparr>\<rparr>"

definition beforeStalemate :: chess where
  "beforeStalemate =
     \<lparr>board = queenBoard, currentPlayer = White, moveHistory = [], gameOver = False,
      gameResult = None, startPosition = None, castlingRights = noRights,
      enPassantTarget = None, halfMoveClock = 0, fullMoveNumber = 1\<rparr>"

definition stalemated :: chess where
  "stalemated =
     \<lparr>board = staleBoard, currentPlayer = Black,
      moveHistory = [plain Queen White (3, 6) (2, 6)], gameOver = True,
      gameResult = Some ''Stalemate'', startPosition = None, castlingRights = noRights,
      enPassantTarget = None, halfMoveClock = 1, fullMoveNumber = 1\<rparr>"

subsection \<open>Parts of the program, named\<close>

text \<open>The fields that only an applied move changes.\<close>

definition gameFields ::
  "chess \<Rightarrow> color \<times> moveEntry list \<times> ptype option v8 option \<times> castling \<times> (int \<times> int) option \<times> int \<times> int" where
  "gameFields s = (currentPlayer s, moveHistory s, startPosition s, castlingRights s,
                   enPassantTarget s, halfMoveClock s, fullMoveNumber s)"

definition isPawn :: "cell \<Rightarrow> bool" where
  "isPawn p = (case p of Piece t c \<Rightarrow> t = Pawn | _ \<Rightarrow> False)"

text \<open>
  The board on which the filter of \<open>getValidMoves\<close> asks \<open>isInCheck\<close> for the candidate
  \<open>(toRow, toCol)\<close>, and the board it leaves after writing the squares back.
\<close>

definition trial :: "board \<Rightarrow> (int \<times> int) option \<Rightarrow> int \<Rightarrow> int \<Rightarrow> int \<Rightarrow> int \<Rightarrow> board" where
  "trial b ep row col toRow toCol =
     (let b2 = wr (wr b toRow (Idx toCol) (at b row col)) row (Idx col) Null
      in if isPawn (at b row col) \<and> isEnPassantTarget ep toRow toCol
         then wr b2 row (Idx toCol) Null else b2)"

definition undone :: "board \<Rightarrow> (int \<times> int) option \<Rightarrow> int \<Rightarrow> int \<Rightarrow> color \<Rightarrow> int \<Rightarrow> int \<Rightarrow> board" where
  "undone b ep row col pc toRow toCol =
     (let b5 = wr (wr (trial b ep row col toRow toCol) row (Idx col) (at b row col))
                  toRow (Idx toCol) (at b toRow toCol)
      in if isPawn (at b row col) \<and> isEnPassantTarget ep toRow toCol
         then wr b5 row (Idx toCol) (Piece Pawn (opponent pc)) else b5)"


text \<open>
  The side to move has a legal move: on some square of the board stands a piece
  of its colour for which \<open>getValidMoves\<close> returns a move.
\<close>

definition ownValidMove :: "chess \<Rightarrow> int \<Rightarrow> int \<Rightarrow> bool" where
  "ownValidMove s r c =
     (case at (board s) r c of
        Piece t pc \<Rightarrow>
          pc = currentPlayer s \<and>
          (case getValidMoves s r c of
             Inr (moves, b) \<Rightarrow> moves \<noteq> []
           | Inl e \<Rightarrow> False)
      | _ \<Rightarrow> False)"

definition hasValidMove :: "chess \<Rightarrow> bool" where
  "hasValidMove s = list_ex (\<lambda>r. list_ex (\<lambda>c. ownValidMove s r c) idx8) idx8"

section \<open>Reading and writing the board\<close>

lemma get8_set8:
  "0 \<le> j \<Longrightarrow> j < 8 \<Longrightarrow> get8 (set8 v i x) j = (if i = j then x else get8 v j)"
  by (cases v) auto

lemma set8_set8: "set8 (set8 v i x) i y = set8 v i y"
  by (cases v) auto

lemma set8_get8: "set8 v i (get8 v i) = v"
  by (cases v) auto

lemma set8_comm: "i \<noteq> j \<Longrightarrow> set8 (set8 v i x) j y = set8 (set8 v j y) i x"
  by (cases v) auto

lemma rd_wr: "rd (wr b r k x) r' k' = (if r = r' \<and> k = k' then x else rd b r' k')"
  by (cases k; cases k')
     (auto simp: rd_def wr_def onGrid_def keyCol_def isWithinBoard_def get8_set8)

lemma wr_wr_same: "wr (wr b r k x) r k y = wr b r k y"
  by (auto simp: wr_def get8_set8 set8_set8 onGrid_def isWithinBoard_def split: key.splits)

lemma wr_same: "rd b r k = x \<Longrightarrow> wr b r k x = b"
  by (auto simp: wr_def rd_def set8_get8)

section \<open>The positions, square by square\<close>

lemma stdBoard_at:
  "at stdBoard 0 0 = Piece Rook Black" "at stdBoard 0 1 = Piece Knight Black" "at stdBoard 0 2 = Piece Bishop Black" "at stdBoard 0 3 = Piece Queen Black" "at stdBoard 0 4 = Piece King Black" "at stdBoard 0 5 = Piece Bishop Black" "at stdBoard 0 6 = Piece Knight Black" "at stdBoard 0 7 = Piece Rook Black"
  "at stdBoard 1 0 = Piece Pawn Black" "at stdBoard 1 1 = Piece Pawn Black" "at stdBoard 1 2 = Piece Pawn Black" "at stdBoard 1 3 = Piece Pawn Black" "at stdBoard 1 4 = Piece Pawn Black" "at stdBoard 1 5 = Piece Pawn Black" "at stdBoard 1 6 = Piece Pawn Black" "at stdBoard 1 7 = Piece Pawn Black"
  "at stdBoard 2 0 = Null" "at stdBoard 2 1 = Null" "at stdBoard 2 2 = Null" "at stdBoard 2 3 = Null" "at stdBoard 2 4 = Null" "at stdBoard 2 5 = Null" "at stdBoard 2 6 = Null" "at stdBoard 2 7 = Null"
  "at stdBoard 3 0 = Null" "at stdBoard 3 1 = Null" "at stdBoard 3 2 = Null" "at stdBoard 3 3 = Null" "at stdBoard 3 4 = Null" "at stdBoard 3 5 = Null" "at stdBoard 3 6 = Null" "at stdBoard 3 7 = Null"
  "at stdBoard 4 0 = Null" "at stdBoard 4 1 = Null" "at stdBoard 4 2 = Null" "at stdBoard 4 3 = Null" "at stdBoard 4 4 = Null" "at stdBoard 4 5 = Null" "at stdBoard 4 6 = Null" "at stdBoard 4 7 = Null"
  "at stdBoard 5 0 = Null" "at stdBoard 5 1 = Null" "at stdBoard 5 2 = Null" "at stdBoard 5 3 = Null" "at stdBoard 5 4 = Null" "at stdBoard 5 5 = Null" "at stdBoard 5 6 = Null" "at stdBoard 5 7 = Null"
  "at stdBoard 6 0 = Piece Pawn White" "at stdBoard 6 1 = Piece Pawn White" "at stdBoard 6 2 = Piece Pawn White" "at stdBoard 6 3 = Piece Pawn White" "at stdBoard 6 4 = Piece Pawn White" "at stdBoard 6 5 = Piece Pawn White" "at stdBoard 6 6 = Piece Pawn White" "at stdBoard 6 7 = Piece Pawn White"
  "at stdBoard 7 0 = Piece Rook White" "at stdBoard 7 1 = Piece Knight White" "at stdBoard 7 2 = Piece Bishop White" "at stdBoard 7 3 = Piece Queen White" "at stdBoard 7 4 = Piece King White" "at stdBoard 7 5 = Piece Bishop White" "at stdBoard 7 6 = Piece Knight White" "at stdBoard 7 7 = Piece Rook White"
  by (simp_all add: stdBoard_def rd_def onGrid_def isWithinBoard_def keyCol_def)

lemma stdBoard_off: "\<not> onGrid r k \<Longrightarrow> rd stdBoard r k = Undefined"
  by (simp add: stdBoard_def rd_def)







lemma f3Board_at:
  "at f3Board 0 0 = Piece Rook Black" "at f3Board 0 1 = Piece Knight Black" "at f3Board 0 2 = Piece Bishop Black" "at f3Board 0 3 = Piece Queen Black" "at f3Board 0 4 = Piece King Black" "at f3Board 0 5 = Piece Bishop Black" "at f3Board 0 6 = Piece Knight Black" "at f3Board 0 7 = Piece Rook Black"
  "at f3Board 1 0 = Piece Pawn Black" "at f3Board 1 1 = Piece Pawn Black" "at f3Board 1 2 = Piece Pawn Black" "at f3Board 1 3 = Piece Pawn Black" "at f3Board 1 4 = Piece Pawn Black" "at f3Board 1 5 = Piece Pawn Black" "at f3Board 1 6 = Piece Pawn Black" "at f3Board 1 7 = Piece Pawn Black"
  "at f3Board 2 0 = Null" "at f3Board 2 1 = Null" "at f3Board 2 2 = Null" "at f3Board 2 3 = Null" "at f3Board 2 4 = Null" "at f3Board 2 5 = Null" "at f3Board 2 6 = Null" "at f3Board 2 7 = Null"
  "at f3Board 3 0 = Null" "at f3Board 3 1 = Null" "at f3Board 3 2 = Null" "at f3Board 3 3 = Null" "at f3Board 3 4 = Null" "at f3Board 3 5 = Null" "at f3Board 3 6 = Null" "at f3Board 3 7 = Null"
  "at f3Board 4 0 = Null" "at f3Board 4 1 = Null" "at f3Board 4 2 = Null" "at f3Board 4 3 = Null" "at f3Board 4 4 = Null" "at f3Board 4 5 = Null" "at f3Board 4 6 = Null" "at f3Board 4 7 = Null"
  "at f3Board 5 0 = Null" "at f3Board 5 1 = Null" "at f3Board 5 2 = Null" "at f3Board 5 3 = Null" "at f3Board 5 4 = Null" "at f3Board 5 5 = Piece Pawn White" "at f3Board 5 6 = Null" "at f3Board 5 7 = Null"
  "at f3Board 6 0 = Piece Pawn White" "at f3Board 6 1 = Piece Pawn White" "at f3Board 6 2 = Piece Pawn White" "at f3Board 6 3 = Piece Pawn White" "at f3Board 6 4 = Piece Pawn White" "at f3Board 6 5 = Null" "at f3Board 6 6 = Piece Pawn White" "at f3Board 6 7 = Piece Pawn White"
  "at f3Board 7 0 = Piece Rook White" "at f3Board 7 1 = Piece Knight White" "at f3Board 7 2 = Piece Bishop White" "at f3Board 7 3 = Piece Queen White" "at f3Board 7 4 = Piece King White" "at f3Board 7 5 = Piece Bishop White" "at f3Board 7 6 = Piece Knight White" "at f3Board 7 7 = Piece Rook White"
  by (simp_all add: f3Board_def rd_def onGrid_def isWithinBoard_def keyCol_def)

lemma f3Board_off: "\<not> onGrid r k \<Longrightarrow> rd f3Board r k = Undefined"
  by (simp add: f3Board_def rd_def)

lemma f3e5Board_at:
  "at f3e5Board 0 0 = Piece Rook Black" "at f3e5Board 0 1 = Piece Knight Black" "at f3e5Board 0 2 = Piece Bishop Black" "at f3e5Board 0 3 = Piece Queen Black" "at f3e5Board 0 4 = Piece King Black" "at f3e5Board 0 5 = Piece Bishop Black" "at f3e5Board 0 6 = Piece Knight Black" "at f3e5Board 0 7 = Piece Rook Black"
  "at f3e5Board 1 0 = Piece Pawn Black" "at f3e5Board 1 1 = Piece Pawn Black" "at f3e5Board 1 2 = Piece Pawn Black" "at f3e5Board 1 3 = Piece Pawn Black" "at f3e5Board 1 4 = Null" "at f3e5Board 1 5 = Piece Pawn Black" "at f3e5Board 1 6 = Piece Pawn Black" "at f3e5Board 1 7 = Piece Pawn Black"
  "at f3e5Board 2 0 = Null" "at f3e5Board 2 1 = Null" "at f3e5Board 2 2 = Null" "at f3e5Board 2 3 = Null" "at f3e5Board 2 4 = Null" "at f3e5Board 2 5 = Null" "at f3e5Board 2 6 = Null" "at f3e5Board 2 7 = Null"
  "at f3e5Board 3 0 = Null" "at f3e5Board 3 1 = Null" "at f3e5Board 3 2 = Null" "at f3e5Board 3 3 = Null" "at f3e5Board 3 4 = Piece Pawn Black" "at f3e5Board 3 5 = Null" "at f3e5Board 3 6 = Null" "at f3e5Board 3 7 = Null"
  "at f3e5Board 4 0 = Null" "at f3e5Board 4 1 = Null" "at f3e5Board 4 2 = Null" "at f3e5Board 4 3 = Null" "at f3e5Board 4 4 = Null" "at f3e5Board 4 5 = Null" "at f3e5Board 4 6 = Null" "at f3e5Board 4 7 = Null"
  "at f3e5Board 5 0 = Null" "at f3e5Board 5 1 = Null" "at f3e5Board 5 2 = Null" "at f3e5Board 5 3 = Null" "at f3e5Board 5 4 = Null" "at f3e5Board 5 5 = Piece Pawn White" "at f3e5Board 5 6 = Null" "at f3e5Board 5 7 = Null"
  "at f3e5Board 6 0 = Piece Pawn White" "at f3e5Board 6 1 = Piece Pawn White" "at f3e5Board 6 2 = Piece Pawn White" "at f3e5Board 6 3 = Piece Pawn White" "at f3e5Board 6 4 = Piece Pawn White" "at f3e5Board 6 5 = Null" "at f3e5Board 6 6 = Piece Pawn White" "at f3e5Board 6 7 = Piece Pawn White"
  "at f3e5Board 7 0 = Piece Rook White" "at f3e5Board 7 1 = Piece Knight White" "at f3e5Board 7 2 = Piece Bishop White" "at f3e5Board 7 3 = Piece Queen White" "at f3e5Board 7 4 = Piece King White" "at f3e5Board 7 5 = Piece Bishop White" "at f3e5Board 7 6 = Piece Knight White" "at f3e5Board 7 7 = Piece Rook White"
  by (simp_all add: f3e5Board_def rd_def onGrid_def isWithinBoard_def keyCol_def)

lemma f3e5Board_off: "\<not> onGrid r k \<Longrightarrow> rd f3e5Board r k = Undefined"
  by (simp add: f3e5Board_def rd_def)

lemma f3e5g4Board_at:
  "at f3e5g4Board 0 0 = Piece Rook Black" "at f3e5g4Board 0 1 = Piece Knight Black" "at f3e5g4Board 0 2 = Piece Bishop Black" "at f3e5g4Board 0 3 = Piece Queen Black" "at f3e5g4Board 0 4 = Piece King Black" "at f3e5g4Board 0 5 = Piece Bishop Black" "at f3e5g4Board 0 6 = Piece Knight Black" "at f3e5g4Board 0 7 = Piece Rook Black"
  "at f3e5g4Board 1 0 = Piece Pawn Black" "at f3e5g4Board 1 1 = Piece Pawn Black" "at f3e5g4Board 1 2 = Piece Pawn Black" "at f3e5g4Board 1 3 = Piece Pawn Black" "at f3e5g4Board 1 4 = Null" "at f3e5g4Board 1 5 = Piece Pawn Black" "at f3e5g4Board 1 6 = Piece Pawn Black" "at f3e5g4Board 1 7 = Piece Pawn Black"
  "at f3e5g4Board 2 0 = Null" "at f3e5g4Board 2 1 = Null" "at f3e5g4Board 2 2 = Null" "at f3e5g4Board 2 3 = Null" "at f3e5g4Board 2 4 = Null" "at f3e5g4Board 2 5 = Null" "at f3e5g4Board 2 6 = Null" "at f3e5g4Board 2 7 = Null"
  "at f3e5g4Board 3 0 = Null" "at f3e5g4Board 3 1 = Null" "at f3e5g4Board 3 2 = Null" "at f3e5g4Board 3 3 = Null" "at f3e5g4Board 3 4 = Piece Pawn Black" "at f3e5g4Board 3 5 = Null" "at f3e5g4Board 3 6 = Null" "at f3e5g4Board 3 7 = Null"
  "at f3e5g4Board 4 0 = Null" "at f3e5g4Board 4 1 = Null" "at f3e5g4Board 4 2 = Null" "at f3e5g4Board 4 3 = Null" "at f3e5g4Board 4 4 = Null" "at f3e5g4Board 4 5 = Null" "at f3e5g4Board 4 6 = Piece Pawn White" "at f3e5g4Board 4 7 = Null"
  "at f3e5g4Board 5 0 = Null" "at f3e5g4Board 5 1 = Null" "at f3e5g4Board 5 2 = Null" "at f3e5g4Board 5 3 = Null" "at f3e5g4Board 5 4 = Null" "at f3e5g4Board 5 5 = Piece Pawn White" "at f3e5g4Board 5 6 = Null" "at f3e5g4Board 5 7 = Null"
  "at f3e5g4Board 6 0 = Piece Pawn White" "at f3e5g4Board 6 1 = Piece Pawn White" "at f3e5g4Board 6 2 = Piece Pawn White" "at f3e5g4Board 6 3 = Piece Pawn White" "at f3e5g4Board 6 4 = Piece Pawn White" "at f3e5g4Board 6 5 = Null" "at f3e5g4Board 6 6 = Null" "at f3e5g4Board 6 7 = Piece Pawn White"
  "at f3e5g4Board 7 0 = Piece Rook White" "at f3e5g4Board 7 1 = Piece Knight White" "at f3e5g4Board 7 2 = Piece Bishop White" "at f3e5g4Board 7 3 = Piece Queen White" "at f3e5g4Board 7 4 = Piece King White" "at f3e5g4Board 7 5 = Piece Bishop White" "at f3e5g4Board 7 6 = Piece Knight White" "at f3e5g4Board 7 7 = Piece Rook White"
  by (simp_all add: f3e5g4Board_def rd_def onGrid_def isWithinBoard_def keyCol_def)

lemma f3e5g4Board_off: "\<not> onGrid r k \<Longrightarrow> rd f3e5g4Board r k = Undefined"
  by (simp add: f3e5g4Board_def rd_def)

lemma mateBoard_at:
  "at mateBoard 0 0 = Piece Rook Black" "at mateBoard 0 1 = Piece Knight Black" "at mateBoard 0 2 = Piece Bishop Black" "at mateBoard 0 3 = Null" "at mateBoard 0 4 = Piece King Black" "at mateBoard 0 5 = Piece Bishop Black" "at mateBoard 0 6 = Piece Knight Black" "at mateBoard 0 7 = Piece Rook Black"
  "at mateBoard 1 0 = Piece Pawn Black" "at mateBoard 1 1 = Piece Pawn Black" "at mateBoard 1 2 = Piece Pawn Black" "at mateBoard 1 3 = Piece Pawn Black" "at mateBoard 1 4 = Null" "at mateBoard 1 5 = Piece Pawn Black" "at mateBoard 1 6 = Piece Pawn Black" "at mateBoard 1 7 = Piece Pawn Black"
  "at mateBoard 2 0 = Null" "at mateBoard 2 1 = Null" "at mateBoard 2 2 = Null" "at mateBoard 2 3 = Null" "at mateBoard 2 4 = Null" "at mateBoard 2 5 = Null" "at mateBoard 2 6 = Null" "at mateBoard 2 7 = Null"
  "at mateBoard 3 0 = Null" "at mateBoard 3 1 = Null" "at mateBoard 3 2 = Null" "at mateBoard 3 3 = Null" "at mateBoard 3 4 = Piece Pawn Black" "at mateBoard 3 5 = Null" "at mateBoard 3 6 = Null" "at mateBoard 3 7 = Null"
  "at mateBoard 4 0 = Null" "at mateBoard 4 1 = Null" "at mateBoard 4 2 = Null" "at mateBoard 4 3 = Null" "at mateBoard 4 4 = Null" "at mateBoard 4 5 = Null" "at mateBoard 4 6 = Piece Pawn White" "at mateBoard 4 7 = Piece Queen Black"
  "at mateBoard 5 0 = Null" "at mateBoard 5 1 = Null" "at mateBoard 5 2 = Null" "at mateBoard 5 3 = Null" "at mateBoard 5 4 = Null" "at mateBoard 5 5 = Piece Pawn White" "at mateBoard 5 6 = Null" "at mateBoard 5 7 = Null"
  "at mateBoard 6 0 = Piece Pawn White" "at mateBoard 6 1 = Piece Pawn White" "at mateBoard 6 2 = Piece Pawn White" "at mateBoard 6 3 = Piece Pawn White" "at mateBoard 6 4 = Piece Pawn White" "at mateBoard 6 5 = Null" "at mateBoard 6 6 = Null" "at mateBoard 6 7 = Piece Pawn White"
  "at mateBoard 7 0 = Piece Rook White" "at mateBoard 7 1 = Piece Knight White" "at mateBoard 7 2 = Piece Bishop White" "at mateBoard 7 3 = Piece Queen White" "at mateBoard 7 4 = Piece King White" "at mateBoard 7 5 = Piece Bishop White" "at mateBoard 7 6 = Piece Knight White" "at mateBoard 7 7 = Piece Rook White"
  by (simp_all add: mateBoard_def rd_def onGrid_def isWithinBoard_def keyCol_def)

lemma mateBoard_off: "\<not> onGrid r k \<Longrightarrow> rd mateBoard r k = Undefined"
  by (simp add: mateBoard_def rd_def)

lemma rkBoard_at:
  "at rkBoard 0 0 = Piece Rook Black" "at rkBoard 0 1 = Piece Knight Black" "at rkBoard 0 2 = Piece Bishop Black" "at rkBoard 0 3 = Piece Queen Black" "at rkBoard 0 4 = Piece King Black" "at rkBoard 0 5 = Piece Bishop Black" "at rkBoard 0 6 = Piece Rook Black" "at rkBoard 0 7 = Piece Knight Black"
  "at rkBoard 1 0 = Piece Pawn Black" "at rkBoard 1 1 = Piece Pawn Black" "at rkBoard 1 2 = Piece Pawn Black" "at rkBoard 1 3 = Piece Pawn Black" "at rkBoard 1 4 = Piece Pawn Black" "at rkBoard 1 5 = Piece Pawn Black" "at rkBoard 1 6 = Piece Pawn Black" "at rkBoard 1 7 = Piece Pawn Black"
  "at rkBoard 2 0 = Null" "at rkBoard 2 1 = Null" "at rkBoard 2 2 = Null" "at rkBoard 2 3 = Null" "at rkBoard 2 4 = Null" "at rkBoard 2 5 = Null" "at rkBoard 2 6 = Null" "at rkBoard 2 7 = Null"
  "at rkBoard 3 0 = Null" "at rkBoard 3 1 = Null" "at rkBoard 3 2 = Null" "at rkBoard 3 3 = Null" "at rkBoard 3 4 = Null" "at rkBoard 3 5 = Null" "at rkBoard 3 6 = Null" "at rkBoard 3 7 = Null"
  "at rkBoard 4 0 = Null" "at rkBoard 4 1 = Null" "at rkBoard 4 2 = Null" "at rkBoard 4 3 = Null" "at rkBoard 4 4 = Null" "at rkBoard 4 5 = Null" "at rkBoard 4 6 = Null" "at rkBoard 4 7 = Null"
  "at rkBoard 5 0 = Null" "at rkBoard 5 1 = Null" "at rkBoard 5 2 = Null" "at rkBoard 5 3 = Null" "at rkBoard 5 4 = Null" "at rkBoard 5 5 = Null" "at rkBoard 5 6 = Null" "at rkBoard 5 7 = Null"
  "at rkBoard 6 0 = Piece Pawn White" "at rkBoard 6 1 = Piece Pawn White" "at rkBoard 6 2 = Piece Pawn White" "at rkBoard 6 3 = Piece Pawn White" "at rkBoard 6 4 = Piece Pawn White" "at rkBoard 6 5 = Piece Pawn White" "at rkBoard 6 6 = Piece Pawn White" "at rkBoard 6 7 = Piece Pawn White"
  "at rkBoard 7 0 = Piece Rook White" "at rkBoard 7 1 = Piece Knight White" "at rkBoard 7 2 = Piece Bishop White" "at rkBoard 7 3 = Piece Queen White" "at rkBoard 7 4 = Piece King White" "at rkBoard 7 5 = Piece Bishop White" "at rkBoard 7 6 = Piece Rook White" "at rkBoard 7 7 = Piece Knight White"
  by (simp_all add: rkBoard_def rd_def onGrid_def isWithinBoard_def keyCol_def)

lemma rkBoard_off: "\<not> onGrid r k \<Longrightarrow> rd rkBoard r k = Undefined"
  by (simp add: rkBoard_def rd_def)

lemma rkE3Board_at:
  "at rkE3Board 0 0 = Piece Rook Black" "at rkE3Board 0 1 = Piece Knight Black" "at rkE3Board 0 2 = Piece Bishop Black" "at rkE3Board 0 3 = Piece Queen Black" "at rkE3Board 0 4 = Piece King Black" "at rkE3Board 0 5 = Piece Bishop Black" "at rkE3Board 0 6 = Piece Rook Black" "at rkE3Board 0 7 = Piece Knight Black"
  "at rkE3Board 1 0 = Piece Pawn Black" "at rkE3Board 1 1 = Piece Pawn Black" "at rkE3Board 1 2 = Piece Pawn Black" "at rkE3Board 1 3 = Piece Pawn Black" "at rkE3Board 1 4 = Piece Pawn Black" "at rkE3Board 1 5 = Piece Pawn Black" "at rkE3Board 1 6 = Piece Pawn Black" "at rkE3Board 1 7 = Piece Pawn Black"
  "at rkE3Board 2 0 = Null" "at rkE3Board 2 1 = Null" "at rkE3Board 2 2 = Null" "at rkE3Board 2 3 = Null" "at rkE3Board 2 4 = Null" "at rkE3Board 2 5 = Null" "at rkE3Board 2 6 = Null" "at rkE3Board 2 7 = Null"
  "at rkE3Board 3 0 = Null" "at rkE3Board 3 1 = Null" "at rkE3Board 3 2 = Null" "at rkE3Board 3 3 = Null" "at rkE3Board 3 4 = Null" "at rkE3Board 3 5 = Null" "at rkE3Board 3 6 = Null" "at rkE3Board 3 7 = Null"
  "at rkE3Board 4 0 = Null" "at rkE3Board 4 1 = Null" "at rkE3Board 4 2 = Null" "at rkE3Board 4 3 = Null" "at rkE3Board 4 4 = Null" "at rkE3Board 4 5 = Null" "at rkE3Board 4 6 = Null" "at rkE3Board 4 7 = Null"
  "at rkE3Board 5 0 = Null" "at rkE3Board 5 1 = Null" "at rkE3Board 5 2 = Null" "at rkE3Board 5 3 = Null" "at rkE3Board 5 4 = Piece Pawn White" "at rkE3Board 5 5 = Null" "at rkE3Board 5 6 = Null" "at rkE3Board 5 7 = Null"
  "at rkE3Board 6 0 = Piece Pawn White" "at rkE3Board 6 1 = Piece Pawn White" "at rkE3Board 6 2 = Piece Pawn White" "at rkE3Board 6 3 = Piece Pawn White" "at rkE3Board 6 4 = Null" "at rkE3Board 6 5 = Piece Pawn White" "at rkE3Board 6 6 = Piece Pawn White" "at rkE3Board 6 7 = Piece Pawn White"
  "at rkE3Board 7 0 = Piece Rook White" "at rkE3Board 7 1 = Piece Knight White" "at rkE3Board 7 2 = Piece Bishop White" "at rkE3Board 7 3 = Piece Queen White" "at rkE3Board 7 4 = Piece King White" "at rkE3Board 7 5 = Piece Bishop White" "at rkE3Board 7 6 = Piece Rook White" "at rkE3Board 7 7 = Piece Knight White"
  by (simp_all add: rkE3Board_def rd_def onGrid_def isWithinBoard_def keyCol_def)

lemma rkE3Board_off: "\<not> onGrid r k \<Longrightarrow> rd rkE3Board r k = Undefined"
  by (simp add: rkE3Board_def rd_def)

lemma rkA6Board_at:
  "at rkA6Board 0 0 = Piece Rook Black" "at rkA6Board 0 1 = Piece Knight Black" "at rkA6Board 0 2 = Piece Bishop Black" "at rkA6Board 0 3 = Piece Queen Black" "at rkA6Board 0 4 = Piece King Black" "at rkA6Board 0 5 = Piece Bishop Black" "at rkA6Board 0 6 = Piece Rook Black" "at rkA6Board 0 7 = Piece Knight Black"
  "at rkA6Board 1 0 = Null" "at rkA6Board 1 1 = Piece Pawn Black" "at rkA6Board 1 2 = Piece Pawn Black" "at rkA6Board 1 3 = Piece Pawn Black" "at rkA6Board 1 4 = Piece Pawn Black" "at rkA6Board 1 5 = Piece Pawn Black" "at rkA6Board 1 6 = Piece Pawn Black" "at rkA6Board 1 7 = Piece Pawn Black"
  "at rkA6Board 2 0 = Piece Pawn Black" "at rkA6Board 2 1 = Null" "at rkA6Board 2 2 = Null" "at rkA6Board 2 3 = Null" "at rkA6Board 2 4 = Null" "at rkA6Board 2 5 = Null" "at rkA6Board 2 6 = Null" "at rkA6Board 2 7 = Null"
  "at rkA6Board 3 0 = Null" "at rkA6Board 3 1 = Null" "at rkA6Board 3 2 = Null" "at rkA6Board 3 3 = Null" "at rkA6Board 3 4 = Null" "at rkA6Board 3 5 = Null" "at rkA6Board 3 6 = Null" "at rkA6Board 3 7 = Null"
  "at rkA6Board 4 0 = Null" "at rkA6Board 4 1 = Null" "at rkA6Board 4 2 = Null" "at rkA6Board 4 3 = Null" "at rkA6Board 4 4 = Null" "at rkA6Board 4 5 = Null" "at rkA6Board 4 6 = Null" "at rkA6Board 4 7 = Null"
  "at rkA6Board 5 0 = Null" "at rkA6Board 5 1 = Null" "at rkA6Board 5 2 = Null" "at rkA6Board 5 3 = Null" "at rkA6Board 5 4 = Piece Pawn White" "at rkA6Board 5 5 = Null" "at rkA6Board 5 6 = Null" "at rkA6Board 5 7 = Null"
  "at rkA6Board 6 0 = Piece Pawn White" "at rkA6Board 6 1 = Piece Pawn White" "at rkA6Board 6 2 = Piece Pawn White" "at rkA6Board 6 3 = Piece Pawn White" "at rkA6Board 6 4 = Null" "at rkA6Board 6 5 = Piece Pawn White" "at rkA6Board 6 6 = Piece Pawn White" "at rkA6Board 6 7 = Piece Pawn White"
  "at rkA6Board 7 0 = Piece Rook White" "at rkA6Board 7 1 = Piece Knight White" "at rkA6Board 7 2 = Piece Bishop White" "at rkA6Board 7 3 = Piece Queen White" "at rkA6Board 7 4 = Piece King White" "at rkA6Board 7 5 = Piece Bishop White" "at rkA6Board 7 6 = Piece Rook White" "at rkA6Board 7 7 = Piece Knight White"
  by (simp_all add: rkA6Board_def rd_def onGrid_def isWithinBoard_def keyCol_def)

lemma rkA6Board_off: "\<not> onGrid r k \<Longrightarrow> rd rkA6Board r k = Undefined"
  by (simp add: rkA6Board_def rd_def)

lemma rkBe2Board_at:
  "at rkBe2Board 0 0 = Piece Rook Black" "at rkBe2Board 0 1 = Piece Knight Black" "at rkBe2Board 0 2 = Piece Bishop Black" "at rkBe2Board 0 3 = Piece Queen Black" "at rkBe2Board 0 4 = Piece King Black" "at rkBe2Board 0 5 = Piece Bishop Black" "at rkBe2Board 0 6 = Piece Rook Black" "at rkBe2Board 0 7 = Piece Knight Black"
  "at rkBe2Board 1 0 = Null" "at rkBe2Board 1 1 = Piece Pawn Black" "at rkBe2Board 1 2 = Piece Pawn Black" "at rkBe2Board 1 3 = Piece Pawn Black" "at rkBe2Board 1 4 = Piece Pawn Black" "at rkBe2Board 1 5 = Piece Pawn Black" "at rkBe2Board 1 6 = Piece Pawn Black" "at rkBe2Board 1 7 = Piece Pawn Black"
  "at rkBe2Board 2 0 = Piece Pawn Black" "at rkBe2Board 2 1 = Null" "at rkBe2Board 2 2 = Null" "at rkBe2Board 2 3 = Null" "at rkBe2Board 2 4 = Null" "at rkBe2Board 2 5 = Null" "at rkBe2Board 2 6 = Null" "at rkBe2Board 2 7 = Null"
  "at rkBe2Board 3 0 = Null" "at rkBe2Board 3 1 = Null" "at rkBe2Board 3 2 = Null" "at rkBe2Board 3 3 = Null" "at rkBe2Board 3 4 = Null" "at rkBe2Board 3 5 = Null" "at rkBe2Board 3 6 = Null" "at rkBe2Board 3 7 = Null"
  "at rkBe2Board 4 0 = Null" "at rkBe2Board 4 1 = Null" "at rkBe2Board 4 2 = Null" "at rkBe2Board 4 3 = Null" "at rkBe2Board 4 4 = Null" "at rkBe2Board 4 5 = Null" "at rkBe2Board 4 6 = Null" "at rkBe2Board 4 7 = Null"
  "at rkBe2Board 5 0 = Null" "at rkBe2Board 5 1 = Null" "at rkBe2Board 5 2 = Null" "at rkBe2Board 5 3 = Null" "at rkBe2Board 5 4 = Piece Pawn White" "at rkBe2Board 5 5 = Null" "at rkBe2Board 5 6 = Null" "at rkBe2Board 5 7 = Null"
  "at rkBe2Board 6 0 = Piece Pawn White" "at rkBe2Board 6 1 = Piece Pawn White" "at rkBe2Board 6 2 = Piece Pawn White" "at rkBe2Board 6 3 = Piece Pawn White" "at rkBe2Board 6 4 = Piece Bishop White" "at rkBe2Board 6 5 = Piece Pawn White" "at rkBe2Board 6 6 = Piece Pawn White" "at rkBe2Board 6 7 = Piece Pawn White"
  "at rkBe2Board 7 0 = Piece Rook White" "at rkBe2Board 7 1 = Piece Knight White" "at rkBe2Board 7 2 = Piece Bishop White" "at rkBe2Board 7 3 = Piece Queen White" "at rkBe2Board 7 4 = Piece King White" "at rkBe2Board 7 5 = Null" "at rkBe2Board 7 6 = Piece Rook White" "at rkBe2Board 7 7 = Piece Knight White"
  by (simp_all add: rkBe2Board_def rd_def onGrid_def isWithinBoard_def keyCol_def)

lemma rkBe2Board_off: "\<not> onGrid r k \<Longrightarrow> rd rkBe2Board r k = Undefined"
  by (simp add: rkBe2Board_def rd_def)

lemma rkReadyBoard_at:
  "at rkReadyBoard 0 0 = Piece Rook Black" "at rkReadyBoard 0 1 = Piece Knight Black" "at rkReadyBoard 0 2 = Piece Bishop Black" "at rkReadyBoard 0 3 = Piece Queen Black" "at rkReadyBoard 0 4 = Piece King Black" "at rkReadyBoard 0 5 = Piece Bishop Black" "at rkReadyBoard 0 6 = Piece Rook Black" "at rkReadyBoard 0 7 = Piece Knight Black"
  "at rkReadyBoard 1 0 = Null" "at rkReadyBoard 1 1 = Piece Pawn Black" "at rkReadyBoard 1 2 = Piece Pawn Black" "at rkReadyBoard 1 3 = Piece Pawn Black" "at rkReadyBoard 1 4 = Piece Pawn Black" "at rkReadyBoard 1 5 = Piece Pawn Black" "at rkReadyBoard 1 6 = Piece Pawn Black" "at rkReadyBoard 1 7 = Piece Pawn Black"
  "at rkReadyBoard 2 0 = Null" "at rkReadyBoard 2 1 = Null" "at rkReadyBoard 2 2 = Null" "at rkReadyBoard 2 3 = Null" "at rkReadyBoard 2 4 = Null" "at rkReadyBoard 2 5 = Null" "at rkReadyBoard 2 6 = Null" "at rkReadyBoard 2 7 = Null"
  "at rkReadyBoard 3 0 = Piece Pawn Black" "at rkReadyBoard 3 1 = Null" "at rkReadyBoard 3 2 = Null" "at rkReadyBoard 3 3 = Null" "at rkReadyBoard 3 4 = Null" "at rkReadyBoard 3 5 = Null" "at rkReadyBoard 3 6 = Null" "at rkReadyBoard 3 7 = Null"
  "at rkReadyBoard 4 0 = Null" "at rkReadyBoard 4 1 = Null" "at rkReadyBoard 4 2 = Null" "at rkReadyBoard 4 3 = Null" "at rkReadyBoard 4 4 = Null" "at rkReadyBoard 4 5 = Null" "at rkReadyBoard 4 6 = Null" "at rkReadyBoard 4 7 = Null"
  "at rkReadyBoard 5 0 = Null" "at rkReadyBoard 5 1 = Null" "at rkReadyBoard 5 2 = Null" "at rkReadyBoard 5 3 = Null" "at rkReadyBoard 5 4 = Piece Pawn White" "at rkReadyBoard 5 5 = Null" "at rkReadyBoard 5 6 = Null" "at rkReadyBoard 5 7 = Null"
  "at rkReadyBoard 6 0 = Piece Pawn White" "at rkReadyBoard 6 1 = Piece Pawn White" "at rkReadyBoard 6 2 = Piece Pawn White" "at rkReadyBoard 6 3 = Piece Pawn White" "at rkReadyBoard 6 4 = Piece Bishop White" "at rkReadyBoard 6 5 = Piece Pawn White" "at rkReadyBoard 6 6 = Piece Pawn White" "at rkReadyBoard 6 7 = Piece Pawn White"
  "at rkReadyBoard 7 0 = Piece Rook White" "at rkReadyBoard 7 1 = Piece Knight White" "at rkReadyBoard 7 2 = Piece Bishop White" "at rkReadyBoard 7 3 = Piece Queen White" "at rkReadyBoard 7 4 = Piece King White" "at rkReadyBoard 7 5 = Null" "at rkReadyBoard 7 6 = Piece Rook White" "at rkReadyBoard 7 7 = Piece Knight White"
  by (simp_all add: rkReadyBoard_def rd_def onGrid_def isWithinBoard_def keyCol_def)

lemma rkReadyBoard_off: "\<not> onGrid r k \<Longrightarrow> rd rkReadyBoard r k = Undefined"
  by (simp add: rkReadyBoard_def rd_def)

lemma queenBoard_at:
  "at queenBoard 0 0 = Null" "at queenBoard 0 1 = Null" "at queenBoard 0 2 = Null" "at queenBoard 0 3 = Null" "at queenBoard 0 4 = Null" "at queenBoard 0 5 = Null" "at queenBoard 0 6 = Null" "at queenBoard 0 7 = Piece King Black"
  "at queenBoard 1 0 = Null" "at queenBoard 1 1 = Null" "at queenBoard 1 2 = Null" "at queenBoard 1 3 = Null" "at queenBoard 1 4 = Null" "at queenBoard 1 5 = Piece King White" "at queenBoard 1 6 = Null" "at queenBoard 1 7 = Null"
  "at queenBoard 2 0 = Null" "at queenBoard 2 1 = Null" "at queenBoard 2 2 = Null" "at queenBoard 2 3 = Null" "at queenBoard 2 4 = Null" "at queenBoard 2 5 = Null" "at queenBoard 2 6 = Null" "at queenBoard 2 7 = Null"
  "at queenBoard 3 0 = Null" "at queenBoard 3 1 = Null" "at queenBoard 3 2 = Null" "at queenBoard 3 3 = Null" "at queenBoard 3 4 = Null" "at queenBoard 3 5 = Null" "at queenBoard 3 6 = Piece Queen White" "at queenBoard 3 7 = Null"
  "at queenBoard 4 0 = Null" "at queenBoard 4 1 = Null" "at queenBoard 4 2 = Null" "at queenBoard 4 3 = Null" "at queenBoard 4 4 = Null" "at queenBoard 4 5 = Null" "at queenBoard 4 6 = Null" "at queenBoard 4 7 = Null"
  "at queenBoard 5 0 = Null" "at queenBoard 5 1 = Null" "at queenBoard 5 2 = Null" "at queenBoard 5 3 = Null" "at queenBoard 5 4 = Null" "at queenBoard 5 5 = Null" "at queenBoard 5 6 = Null" "at queenBoard 5 7 = Null"
  "at queenBoard 6 0 = Null" "at queenBoard 6 1 = Null" "at queenBoard 6 2 = Null" "at queenBoard 6 3 = Null" "at queenBoard 6 4 = Null" "at queenBoard 6 5 = Null" "at queenBoard 6 6 = Null" "at queenBoard 6 7 = Null"
  "at queenBoard 7 0 = Null" "at queenBoard 7 1 = Null" "at queenBoard 7 2 = Null" "at queenBoard 7 3 = Null" "at queenBoard 7 4 = Null" "at queenBoard 7 5 = Null" "at queenBoard 7 6 = Null" "at queenBoard 7 7 = Null"
  by (simp_all add: queenBoard_def rd_def onGrid_def isWithinBoard_def keyCol_def)

lemma queenBoard_off: "\<not> onGrid r k \<Longrightarrow> rd queenBoard r k = Undefined"
  by (simp add: queenBoard_def rd_def)

lemma staleBoard_at:
  "at staleBoard 0 0 = Null" "at staleBoard 0 1 = Null" "at staleBoard 0 2 = Null" "at staleBoard 0 3 = Null" "at staleBoard 0 4 = Null" "at staleBoard 0 5 = Null" "at staleBoard 0 6 = Null" "at staleBoard 0 7 = Piece King Black"
  "at staleBoard 1 0 = Null" "at staleBoard 1 1 = Null" "at staleBoard 1 2 = Null" "at staleBoard 1 3 = Null" "at staleBoard 1 4 = Null" "at staleBoard 1 5 = Piece King White" "at staleBoard 1 6 = Null" "at staleBoard 1 7 = Null"
  "at staleBoard 2 0 = Null" "at staleBoard 2 1 = Null" "at staleBoard 2 2 = Null" "at staleBoard 2 3 = Null" "at staleBoard 2 4 = Null" "at staleBoard 2 5 = Null" "at staleBoard 2 6 = Piece Queen White" "at staleBoard 2 7 = Null"
  "at staleBoard 3 0 = Null" "at staleBoard 3 1 = Null" "at staleBoard 3 2 = Null" "at staleBoard 3 3 = Null" "at staleBoard 3 4 = Null" "at staleBoard 3 5 = Null" "at staleBoard 3 6 = Null" "at staleBoard 3 7 = Null"
  "at staleBoard 4 0 = Null" "at staleBoard 4 1 = Null" "at staleBoard 4 2 = Null" "at staleBoard 4 3 = Null" "at staleBoard 4 4 = Null" "at staleBoard 4 5 = Null" "at staleBoard 4 6 = Null" "at staleBoard 4 7 = Null"
  "at staleBoard 5 0 = Null" "at staleBoard 5 1 = Null" "at staleBoard 5 2 = Null" "at staleBoard 5 3 = Null" "at staleBoard 5 4 = Null" "at staleBoard 5 5 = Null" "at staleBoard 5 6 = Null" "at staleBoard 5 7 = Null"
  "at staleBoard 6 0 = Null" "at staleBoard 6 1 = Null" "at staleBoard 6 2 = Null" "at staleBoard 6 3 = Null" "at staleBoard 6 4 = Null" "at staleBoard 6 5 = Null" "at staleBoard 6 6 = Null" "at staleBoard 6 7 = Null"
  "at staleBoard 7 0 = Null" "at staleBoard 7 1 = Null" "at staleBoard 7 2 = Null" "at staleBoard 7 3 = Null" "at staleBoard 7 4 = Null" "at staleBoard 7 5 = Null" "at staleBoard 7 6 = Null" "at staleBoard 7 7 = Null"
  by (simp_all add: staleBoard_def rd_def onGrid_def isWithinBoard_def keyCol_def)

lemma staleBoard_off: "\<not> onGrid r k \<Longrightarrow> rd staleBoard r k = Undefined"
  by (simp add: staleBoard_def rd_def)

lemma wingBoard_at:
  "at wingBoard 0 0 = Piece Bishop Black" "at wingBoard 0 1 = Piece Bishop Black" "at wingBoard 0 2 = Piece Knight Black" "at wingBoard 0 3 = Piece Knight Black" "at wingBoard 0 4 = Piece Queen Black" "at wingBoard 0 5 = Piece Rook Black" "at wingBoard 0 6 = Piece King Black" "at wingBoard 0 7 = Piece Rook Black"
  "at wingBoard 1 0 = Piece Pawn Black" "at wingBoard 1 1 = Piece Pawn Black" "at wingBoard 1 2 = Piece Pawn Black" "at wingBoard 1 3 = Piece Pawn Black" "at wingBoard 1 4 = Piece Pawn Black" "at wingBoard 1 5 = Piece Pawn Black" "at wingBoard 1 6 = Piece Pawn Black" "at wingBoard 1 7 = Piece Pawn Black"
  "at wingBoard 2 0 = Null" "at wingBoard 2 1 = Null" "at wingBoard 2 2 = Null" "at wingBoard 2 3 = Null" "at wingBoard 2 4 = Null" "at wingBoard 2 5 = Null" "at wingBoard 2 6 = Null" "at wingBoard 2 7 = Null"
  "at wingBoard 3 0 = Null" "at wingBoard 3 1 = Null" "at wingBoard 3 2 = Null" "at wingBoard 3 3 = Null" "at wingBoard 3 4 = Null" "at wingBoard 3 5 = Null" "at wingBoard 3 6 = Null" "at wingBoard 3 7 = Null"
  "at wingBoard 4 0 = Null" "at wingBoard 4 1 = Null" "at wingBoard 4 2 = Null" "at wingBoard 4 3 = Null" "at wingBoard 4 4 = Null" "at wingBoard 4 5 = Null" "at wingBoard 4 6 = Null" "at wingBoard 4 7 = Null"
  "at wingBoard 5 0 = Null" "at wingBoard 5 1 = Null" "at wingBoard 5 2 = Null" "at wingBoard 5 3 = Null" "at wingBoard 5 4 = Null" "at wingBoard 5 5 = Null" "at wingBoard 5 6 = Null" "at wingBoard 5 7 = Null"
  "at wingBoard 6 0 = Piece Pawn White" "at wingBoard 6 1 = Piece Pawn White" "at wingBoard 6 2 = Piece Pawn White" "at wingBoard 6 3 = Piece Pawn White" "at wingBoard 6 4 = Piece Pawn White" "at wingBoard 6 5 = Piece Pawn White" "at wingBoard 6 6 = Piece Pawn White" "at wingBoard 6 7 = Piece Pawn White"
  "at wingBoard 7 0 = Piece Bishop White" "at wingBoard 7 1 = Piece Bishop White" "at wingBoard 7 2 = Piece Knight White" "at wingBoard 7 3 = Piece Knight White" "at wingBoard 7 4 = Piece Queen White" "at wingBoard 7 5 = Piece Rook White" "at wingBoard 7 6 = Piece King White" "at wingBoard 7 7 = Piece Rook White"
  by (simp_all add: wingBoard_def rd_def onGrid_def isWithinBoard_def keyCol_def)

lemma wingBoard_off: "\<not> onGrid r k \<Longrightarrow> rd wingBoard r k = Undefined"
  by (simp add: wingBoard_def rd_def)

lemma pinBoard_at:
  "at pinBoard 0 0 = Null" "at pinBoard 0 1 = Null" "at pinBoard 0 2 = Null" "at pinBoard 0 3 = Null" "at pinBoard 0 4 = Piece King Black" "at pinBoard 0 5 = Null" "at pinBoard 0 6 = Null" "at pinBoard 0 7 = Null"
  "at pinBoard 1 0 = Null" "at pinBoard 1 1 = Null" "at pinBoard 1 2 = Null" "at pinBoard 1 3 = Null" "at pinBoard 1 4 = Null" "at pinBoard 1 5 = Null" "at pinBoard 1 6 = Null" "at pinBoard 1 7 = Null"
  "at pinBoard 2 0 = Null" "at pinBoard 2 1 = Null" "at pinBoard 2 2 = Null" "at pinBoard 2 3 = Null" "at pinBoard 2 4 = Null" "at pinBoard 2 5 = Null" "at pinBoard 2 6 = Null" "at pinBoard 2 7 = Null"
  "at pinBoard 3 0 = Null" "at pinBoard 3 1 = Null" "at pinBoard 3 2 = Null" "at pinBoard 3 3 = Null" "at pinBoard 3 4 = Null" "at pinBoard 3 5 = Null" "at pinBoard 3 6 = Null" "at pinBoard 3 7 = Null"
  "at pinBoard 4 0 = Null" "at pinBoard 4 1 = Null" "at pinBoard 4 2 = Null" "at pinBoard 4 3 = Null" "at pinBoard 4 4 = Null" "at pinBoard 4 5 = Null" "at pinBoard 4 6 = Null" "at pinBoard 4 7 = Null"
  "at pinBoard 5 0 = Null" "at pinBoard 5 1 = Null" "at pinBoard 5 2 = Null" "at pinBoard 5 3 = Null" "at pinBoard 5 4 = Null" "at pinBoard 5 5 = Null" "at pinBoard 5 6 = Null" "at pinBoard 5 7 = Null"
  "at pinBoard 6 0 = Null" "at pinBoard 6 1 = Null" "at pinBoard 6 2 = Null" "at pinBoard 6 3 = Null" "at pinBoard 6 4 = Null" "at pinBoard 6 5 = Null" "at pinBoard 6 6 = Null" "at pinBoard 6 7 = Null"
  "at pinBoard 7 0 = Piece Queen Black" "at pinBoard 7 1 = Piece Rook White" "at pinBoard 7 2 = Null" "at pinBoard 7 3 = Null" "at pinBoard 7 4 = Piece King White" "at pinBoard 7 5 = Null" "at pinBoard 7 6 = Null" "at pinBoard 7 7 = Null"
  by (simp_all add: pinBoard_def rd_def onGrid_def isWithinBoard_def keyCol_def)

lemma pinBoard_off: "\<not> onGrid r k \<Longrightarrow> rd pinBoard r k = Undefined"
  by (simp add: pinBoard_def rd_def)

lemma fileBoard_at:
  "at fileBoard 0 0 = Piece King Black" "at fileBoard 0 1 = Null" "at fileBoard 0 2 = Null" "at fileBoard 0 3 = Null" "at fileBoard 0 4 = Null" "at fileBoard 0 5 = Piece Rook Black" "at fileBoard 0 6 = Null" "at fileBoard 0 7 = Null"
  "at fileBoard 1 0 = Null" "at fileBoard 1 1 = Null" "at fileBoard 1 2 = Null" "at fileBoard 1 3 = Null" "at fileBoard 1 4 = Null" "at fileBoard 1 5 = Null" "at fileBoard 1 6 = Null" "at fileBoard 1 7 = Null"
  "at fileBoard 2 0 = Null" "at fileBoard 2 1 = Null" "at fileBoard 2 2 = Null" "at fileBoard 2 3 = Null" "at fileBoard 2 4 = Null" "at fileBoard 2 5 = Null" "at fileBoard 2 6 = Null" "at fileBoard 2 7 = Null"
  "at fileBoard 3 0 = Null" "at fileBoard 3 1 = Null" "at fileBoard 3 2 = Null" "at fileBoard 3 3 = Null" "at fileBoard 3 4 = Null" "at fileBoard 3 5 = Null" "at fileBoard 3 6 = Null" "at fileBoard 3 7 = Null"
  "at fileBoard 4 0 = Null" "at fileBoard 4 1 = Null" "at fileBoard 4 2 = Null" "at fileBoard 4 3 = Null" "at fileBoard 4 4 = Null" "at fileBoard 4 5 = Null" "at fileBoard 4 6 = Null" "at fileBoard 4 7 = Null"
  "at fileBoard 5 0 = Null" "at fileBoard 5 1 = Null" "at fileBoard 5 2 = Null" "at fileBoard 5 3 = Null" "at fileBoard 5 4 = Null" "at fileBoard 5 5 = Null" "at fileBoard 5 6 = Null" "at fileBoard 5 7 = Null"
  "at fileBoard 6 0 = Null" "at fileBoard 6 1 = Null" "at fileBoard 6 2 = Null" "at fileBoard 6 3 = Null" "at fileBoard 6 4 = Null" "at fileBoard 6 5 = Null" "at fileBoard 6 6 = Null" "at fileBoard 6 7 = Null"
  "at fileBoard 7 0 = Null" "at fileBoard 7 1 = Null" "at fileBoard 7 2 = Null" "at fileBoard 7 3 = Null" "at fileBoard 7 4 = Piece King White" "at fileBoard 7 5 = Piece Rook White" "at fileBoard 7 6 = Null" "at fileBoard 7 7 = Null"
  by (simp_all add: fileBoard_def rd_def onGrid_def isWithinBoard_def keyCol_def)

lemma fileBoard_off: "\<not> onGrid r k \<Longrightarrow> rd fileBoard r k = Undefined"
  by (simp add: fileBoard_def rd_def)

lemma rookBoard_at:
  "at rookBoard 0 0 = Null" "at rookBoard 0 1 = Null" "at rookBoard 0 2 = Null" "at rookBoard 0 3 = Null" "at rookBoard 0 4 = Piece King Black" "at rookBoard 0 5 = Null" "at rookBoard 0 6 = Null" "at rookBoard 0 7 = Null"
  "at rookBoard 1 0 = Piece Pawn Black" "at rookBoard 1 1 = Null" "at rookBoard 1 2 = Null" "at rookBoard 1 3 = Null" "at rookBoard 1 4 = Null" "at rookBoard 1 5 = Null" "at rookBoard 1 6 = Null" "at rookBoard 1 7 = Null"
  "at rookBoard 2 0 = Null" "at rookBoard 2 1 = Null" "at rookBoard 2 2 = Null" "at rookBoard 2 3 = Null" "at rookBoard 2 4 = Null" "at rookBoard 2 5 = Null" "at rookBoard 2 6 = Null" "at rookBoard 2 7 = Null"
  "at rookBoard 3 0 = Null" "at rookBoard 3 1 = Null" "at rookBoard 3 2 = Null" "at rookBoard 3 3 = Null" "at rookBoard 3 4 = Null" "at rookBoard 3 5 = Null" "at rookBoard 3 6 = Null" "at rookBoard 3 7 = Null"
  "at rookBoard 4 0 = Null" "at rookBoard 4 1 = Null" "at rookBoard 4 2 = Null" "at rookBoard 4 3 = Null" "at rookBoard 4 4 = Null" "at rookBoard 4 5 = Null" "at rookBoard 4 6 = Null" "at rookBoard 4 7 = Null"
  "at rookBoard 5 0 = Null" "at rookBoard 5 1 = Null" "at rookBoard 5 2 = Null" "at rookBoard 5 3 = Null" "at rookBoard 5 4 = Null" "at rookBoard 5 5 = Null" "at rookBoard 5 6 = Null" "at rookBoard 5 7 = Null"
  "at rookBoard 6 0 = Null" "at rookBoard 6 1 = Null" "at rookBoard 6 2 = Null" "at rookBoard 6 3 = Null" "at rookBoard 6 4 = Null" "at rookBoard 6 5 = Null" "at rookBoard 6 6 = Null" "at rookBoard 6 7 = Null"
  "at rookBoard 7 0 = Piece Rook White" "at rookBoard 7 1 = Null" "at rookBoard 7 2 = Null" "at rookBoard 7 3 = Null" "at rookBoard 7 4 = Piece King White" "at rookBoard 7 5 = Null" "at rookBoard 7 6 = Null" "at rookBoard 7 7 = Null"
  by (simp_all add: rookBoard_def rd_def onGrid_def isWithinBoard_def keyCol_def)

lemma rookBoard_off: "\<not> onGrid r k \<Longrightarrow> rd rookBoard r k = Undefined"
  by (simp add: rookBoard_def rd_def)

lemma wingLeftBoard_at:
  "at wingLeftBoard 0 0 = Piece Bishop Black" "at wingLeftBoard 0 1 = Piece Bishop Black" "at wingLeftBoard 0 2 = Piece Knight Black" "at wingLeftBoard 0 3 = Piece Knight Black" "at wingLeftBoard 0 4 = Piece Queen Black" "at wingLeftBoard 0 5 = Piece Rook Black" "at wingLeftBoard 0 6 = Piece King Black" "at wingLeftBoard 0 7 = Piece Rook Black"
  "at wingLeftBoard 1 0 = Piece Pawn Black" "at wingLeftBoard 1 1 = Piece Pawn Black" "at wingLeftBoard 1 2 = Piece Pawn Black" "at wingLeftBoard 1 3 = Piece Pawn Black" "at wingLeftBoard 1 4 = Piece Pawn Black" "at wingLeftBoard 1 5 = Piece Pawn Black" "at wingLeftBoard 1 6 = Piece Pawn Black" "at wingLeftBoard 1 7 = Piece Pawn Black"
  "at wingLeftBoard 2 0 = Null" "at wingLeftBoard 2 1 = Null" "at wingLeftBoard 2 2 = Null" "at wingLeftBoard 2 3 = Null" "at wingLeftBoard 2 4 = Null" "at wingLeftBoard 2 5 = Null" "at wingLeftBoard 2 6 = Null" "at wingLeftBoard 2 7 = Null"
  "at wingLeftBoard 3 0 = Null" "at wingLeftBoard 3 1 = Null" "at wingLeftBoard 3 2 = Null" "at wingLeftBoard 3 3 = Null" "at wingLeftBoard 3 4 = Null" "at wingLeftBoard 3 5 = Null" "at wingLeftBoard 3 6 = Null" "at wingLeftBoard 3 7 = Null"
  "at wingLeftBoard 4 0 = Null" "at wingLeftBoard 4 1 = Null" "at wingLeftBoard 4 2 = Null" "at wingLeftBoard 4 3 = Null" "at wingLeftBoard 4 4 = Null" "at wingLeftBoard 4 5 = Null" "at wingLeftBoard 4 6 = Null" "at wingLeftBoard 4 7 = Null"
  "at wingLeftBoard 5 0 = Null" "at wingLeftBoard 5 1 = Null" "at wingLeftBoard 5 2 = Null" "at wingLeftBoard 5 3 = Null" "at wingLeftBoard 5 4 = Null" "at wingLeftBoard 5 5 = Null" "at wingLeftBoard 5 6 = Null" "at wingLeftBoard 5 7 = Null"
  "at wingLeftBoard 6 0 = Piece Pawn White" "at wingLeftBoard 6 1 = Piece Pawn White" "at wingLeftBoard 6 2 = Piece Pawn White" "at wingLeftBoard 6 3 = Piece Pawn White" "at wingLeftBoard 6 4 = Piece Pawn White" "at wingLeftBoard 6 5 = Piece Pawn White" "at wingLeftBoard 6 6 = Piece Pawn White" "at wingLeftBoard 6 7 = Piece Pawn White"
  "at wingLeftBoard 7 0 = Piece Bishop White" "at wingLeftBoard 7 1 = Piece Bishop White" "at wingLeftBoard 7 2 = Piece Knight White" "at wingLeftBoard 7 3 = Piece Knight White" "at wingLeftBoard 7 4 = Piece Queen White" "at wingLeftBoard 7 5 = Piece Rook White" "at wingLeftBoard 7 6 = Null" "at wingLeftBoard 7 7 = Null"
  by (simp_all add: wingLeftBoard_def rd_def onGrid_def isWithinBoard_def keyCol_def)

lemma wingLeftBoard_off: "\<not> onGrid r k \<Longrightarrow> rd wingLeftBoard r k = Undefined"
  by (simp add: wingLeftBoard_def rd_def)

lemma pinCastledBoard_at:
  "at pinCastledBoard 0 0 = Null" "at pinCastledBoard 0 1 = Null" "at pinCastledBoard 0 2 = Null" "at pinCastledBoard 0 3 = Null" "at pinCastledBoard 0 4 = Piece King Black" "at pinCastledBoard 0 5 = Null" "at pinCastledBoard 0 6 = Null" "at pinCastledBoard 0 7 = Null"
  "at pinCastledBoard 1 0 = Null" "at pinCastledBoard 1 1 = Null" "at pinCastledBoard 1 2 = Null" "at pinCastledBoard 1 3 = Null" "at pinCastledBoard 1 4 = Null" "at pinCastledBoard 1 5 = Null" "at pinCastledBoard 1 6 = Null" "at pinCastledBoard 1 7 = Null"
  "at pinCastledBoard 2 0 = Null" "at pinCastledBoard 2 1 = Null" "at pinCastledBoard 2 2 = Null" "at pinCastledBoard 2 3 = Null" "at pinCastledBoard 2 4 = Null" "at pinCastledBoard 2 5 = Null" "at pinCastledBoard 2 6 = Null" "at pinCastledBoard 2 7 = Null"
  "at pinCastledBoard 3 0 = Null" "at pinCastledBoard 3 1 = Null" "at pinCastledBoard 3 2 = Null" "at pinCastledBoard 3 3 = Null" "at pinCastledBoard 3 4 = Null" "at pinCastledBoard 3 5 = Null" "at pinCastledBoard 3 6 = Null" "at pinCastledBoard 3 7 = Null"
  "at pinCastledBoard 4 0 = Null" "at pinCastledBoard 4 1 = Null" "at pinCastledBoard 4 2 = Null" "at pinCastledBoard 4 3 = Null" "at pinCastledBoard 4 4 = Null" "at pinCastledBoard 4 5 = Null" "at pinCastledBoard 4 6 = Null" "at pinCastledBoard 4 7 = Null"
  "at pinCastledBoard 5 0 = Null" "at pinCastledBoard 5 1 = Null" "at pinCastledBoard 5 2 = Null" "at pinCastledBoard 5 3 = Null" "at pinCastledBoard 5 4 = Null" "at pinCastledBoard 5 5 = Null" "at pinCastledBoard 5 6 = Null" "at pinCastledBoard 5 7 = Null"
  "at pinCastledBoard 6 0 = Null" "at pinCastledBoard 6 1 = Null" "at pinCastledBoard 6 2 = Null" "at pinCastledBoard 6 3 = Null" "at pinCastledBoard 6 4 = Null" "at pinCastledBoard 6 5 = Null" "at pinCastledBoard 6 6 = Null" "at pinCastledBoard 6 7 = Null"
  "at pinCastledBoard 7 0 = Piece Queen Black" "at pinCastledBoard 7 1 = Null" "at pinCastledBoard 7 2 = Piece King White" "at pinCastledBoard 7 3 = Piece Rook White" "at pinCastledBoard 7 4 = Null" "at pinCastledBoard 7 5 = Null" "at pinCastledBoard 7 6 = Null" "at pinCastledBoard 7 7 = Null"
  by (simp_all add: pinCastledBoard_def rd_def onGrid_def isWithinBoard_def keyCol_def)

lemma pinCastledBoard_off: "\<not> onGrid r k \<Longrightarrow> rd pinCastledBoard r k = Undefined"
  by (simp add: pinCastledBoard_def rd_def)

text \<open>The board a move leaves is the next of the boards above.\<close>

lemma stdBoard_to_nf3Board:
  "wr (wr stdBoard 5 (Idx 5) (Piece Knight White)) 7 (Idx 6) Null = nf3Board"
  by (simp add: wr_def onGrid_def isWithinBoard_def keyCol_def stdBoard_def nf3Board_def)

lemma stdBoard_to_nf3Board_pos:
  "\<lparr>board = wr (wr stdBoard 5 (Idx 5) (Piece Knight White)) 7 (Idx 6) Null,
      currentPlayer = c, moveHistory = m, gameOver = g,
      gameResult = r, startPosition = sp, castlingRights = cr, enPassantTarget = e,
      halfMoveClock = h, fullMoveNumber = n\<rparr>
   = \<lparr>board = nf3Board,
      currentPlayer = c, moveHistory = m, gameOver = g,
      gameResult = r, startPosition = sp, castlingRights = cr, enPassantTarget = e,
      halfMoveClock = h, fullMoveNumber = n\<rparr>"
  by (simp only: stdBoard_to_nf3Board)

lemma nf3Board_to_nf3nf6Board:
  "wr (wr nf3Board 2 (Idx 5) (Piece Knight Black)) 0 (Idx 6) Null = nf3nf6Board"
  by (simp add: wr_def onGrid_def isWithinBoard_def keyCol_def nf3Board_def nf3nf6Board_def)

lemma nf3Board_to_nf3nf6Board_pos:
  "\<lparr>board = wr (wr nf3Board 2 (Idx 5) (Piece Knight Black)) 0 (Idx 6) Null,
      currentPlayer = c, moveHistory = m, gameOver = g,
      gameResult = r, startPosition = sp, castlingRights = cr, enPassantTarget = e,
      halfMoveClock = h, fullMoveNumber = n\<rparr>
   = \<lparr>board = nf3nf6Board,
      currentPlayer = c, moveHistory = m, gameOver = g,
      gameResult = r, startPosition = sp, castlingRights = cr, enPassantTarget = e,
      halfMoveClock = h, fullMoveNumber = n\<rparr>"
  by (simp only: nf3Board_to_nf3nf6Board)

lemma nf3nf6Board_to_nf6Board:
  "wr (wr nf3nf6Board 7 (Idx 6) (Piece Knight White)) 5 (Idx 5) Null = nf6Board"
  by (simp add: wr_def onGrid_def isWithinBoard_def keyCol_def nf3nf6Board_def nf6Board_def)

lemma nf3nf6Board_to_nf6Board_pos:
  "\<lparr>board = wr (wr nf3nf6Board 7 (Idx 6) (Piece Knight White)) 5 (Idx 5) Null,
      currentPlayer = c, moveHistory = m, gameOver = g,
      gameResult = r, startPosition = sp, castlingRights = cr, enPassantTarget = e,
      halfMoveClock = h, fullMoveNumber = n\<rparr>
   = \<lparr>board = nf6Board,
      currentPlayer = c, moveHistory = m, gameOver = g,
      gameResult = r, startPosition = sp, castlingRights = cr, enPassantTarget = e,
      halfMoveClock = h, fullMoveNumber = n\<rparr>"
  by (simp only: nf3nf6Board_to_nf6Board)

lemma nf6Board_to_stdBoard:
  "wr (wr nf6Board 0 (Idx 6) (Piece Knight Black)) 2 (Idx 5) Null = stdBoard"
  by (simp add: wr_def onGrid_def isWithinBoard_def keyCol_def nf6Board_def stdBoard_def)

lemma nf6Board_to_stdBoard_pos:
  "\<lparr>board = wr (wr nf6Board 0 (Idx 6) (Piece Knight Black)) 2 (Idx 5) Null,
      currentPlayer = c, moveHistory = m, gameOver = g,
      gameResult = r, startPosition = sp, castlingRights = cr, enPassantTarget = e,
      halfMoveClock = h, fullMoveNumber = n\<rparr>
   = \<lparr>board = stdBoard,
      currentPlayer = c, moveHistory = m, gameOver = g,
      gameResult = r, startPosition = sp, castlingRights = cr, enPassantTarget = e,
      halfMoveClock = h, fullMoveNumber = n\<rparr>"
  by (simp only: nf6Board_to_stdBoard)

lemma stdBoard_to_f3Board:
  "wr (wr stdBoard 5 (Idx 5) (Piece Pawn White)) 6 (Idx 5) Null = f3Board"
  by (simp add: wr_def onGrid_def isWithinBoard_def keyCol_def stdBoard_def f3Board_def)

lemma stdBoard_to_f3Board_pos:
  "\<lparr>board = wr (wr stdBoard 5 (Idx 5) (Piece Pawn White)) 6 (Idx 5) Null,
      currentPlayer = c, moveHistory = m, gameOver = g,
      gameResult = r, startPosition = sp, castlingRights = cr, enPassantTarget = e,
      halfMoveClock = h, fullMoveNumber = n\<rparr>
   = \<lparr>board = f3Board,
      currentPlayer = c, moveHistory = m, gameOver = g,
      gameResult = r, startPosition = sp, castlingRights = cr, enPassantTarget = e,
      halfMoveClock = h, fullMoveNumber = n\<rparr>"
  by (simp only: stdBoard_to_f3Board)

lemma f3Board_to_f3e5Board:
  "wr (wr f3Board 3 (Idx 4) (Piece Pawn Black)) 1 (Idx 4) Null = f3e5Board"
  by (simp add: wr_def onGrid_def isWithinBoard_def keyCol_def f3Board_def f3e5Board_def)

lemma f3Board_to_f3e5Board_pos:
  "\<lparr>board = wr (wr f3Board 3 (Idx 4) (Piece Pawn Black)) 1 (Idx 4) Null,
      currentPlayer = c, moveHistory = m, gameOver = g,
      gameResult = r, startPosition = sp, castlingRights = cr, enPassantTarget = e,
      halfMoveClock = h, fullMoveNumber = n\<rparr>
   = \<lparr>board = f3e5Board,
      currentPlayer = c, moveHistory = m, gameOver = g,
      gameResult = r, startPosition = sp, castlingRights = cr, enPassantTarget = e,
      halfMoveClock = h, fullMoveNumber = n\<rparr>"
  by (simp only: f3Board_to_f3e5Board)

lemma f3e5Board_to_f3e5g4Board:
  "wr (wr f3e5Board 4 (Idx 6) (Piece Pawn White)) 6 (Idx 6) Null = f3e5g4Board"
  by (simp add: wr_def onGrid_def isWithinBoard_def keyCol_def f3e5Board_def f3e5g4Board_def)

lemma f3e5Board_to_f3e5g4Board_pos:
  "\<lparr>board = wr (wr f3e5Board 4 (Idx 6) (Piece Pawn White)) 6 (Idx 6) Null,
      currentPlayer = c, moveHistory = m, gameOver = g,
      gameResult = r, startPosition = sp, castlingRights = cr, enPassantTarget = e,
      halfMoveClock = h, fullMoveNumber = n\<rparr>
   = \<lparr>board = f3e5g4Board,
      currentPlayer = c, moveHistory = m, gameOver = g,
      gameResult = r, startPosition = sp, castlingRights = cr, enPassantTarget = e,
      halfMoveClock = h, fullMoveNumber = n\<rparr>"
  by (simp only: f3e5Board_to_f3e5g4Board)

lemma f3e5g4Board_to_mateBoard:
  "wr (wr f3e5g4Board 4 (Idx 7) (Piece Queen Black)) 0 (Idx 3) Null = mateBoard"
  by (simp add: wr_def onGrid_def isWithinBoard_def keyCol_def f3e5g4Board_def mateBoard_def)

lemma f3e5g4Board_to_mateBoard_pos:
  "\<lparr>board = wr (wr f3e5g4Board 4 (Idx 7) (Piece Queen Black)) 0 (Idx 3) Null,
      currentPlayer = c, moveHistory = m, gameOver = g,
      gameResult = r, startPosition = sp, castlingRights = cr, enPassantTarget = e,
      halfMoveClock = h, fullMoveNumber = n\<rparr>
   = \<lparr>board = mateBoard,
      currentPlayer = c, moveHistory = m, gameOver = g,
      gameResult = r, startPosition = sp, castlingRights = cr, enPassantTarget = e,
      halfMoveClock = h, fullMoveNumber = n\<rparr>"
  by (simp only: f3e5g4Board_to_mateBoard)

lemma rkBoard_to_rkE3Board:
  "wr (wr rkBoard 5 (Idx 4) (Piece Pawn White)) 6 (Idx 4) Null = rkE3Board"
  by (simp add: wr_def onGrid_def isWithinBoard_def keyCol_def rkBoard_def rkE3Board_def)

lemma rkBoard_to_rkE3Board_pos:
  "\<lparr>board = wr (wr rkBoard 5 (Idx 4) (Piece Pawn White)) 6 (Idx 4) Null,
      currentPlayer = c, moveHistory = m, gameOver = g,
      gameResult = r, startPosition = sp, castlingRights = cr, enPassantTarget = e,
      halfMoveClock = h, fullMoveNumber = n\<rparr>
   = \<lparr>board = rkE3Board,
      currentPlayer = c, moveHistory = m, gameOver = g,
      gameResult = r, startPosition = sp, castlingRights = cr, enPassantTarget = e,
      halfMoveClock = h, fullMoveNumber = n\<rparr>"
  by (simp only: rkBoard_to_rkE3Board)

lemma rkE3Board_to_rkA6Board:
  "wr (wr rkE3Board 2 (Idx 0) (Piece Pawn Black)) 1 (Idx 0) Null = rkA6Board"
  by (simp add: wr_def onGrid_def isWithinBoard_def keyCol_def rkE3Board_def rkA6Board_def)

lemma rkE3Board_to_rkA6Board_pos:
  "\<lparr>board = wr (wr rkE3Board 2 (Idx 0) (Piece Pawn Black)) 1 (Idx 0) Null,
      currentPlayer = c, moveHistory = m, gameOver = g,
      gameResult = r, startPosition = sp, castlingRights = cr, enPassantTarget = e,
      halfMoveClock = h, fullMoveNumber = n\<rparr>
   = \<lparr>board = rkA6Board,
      currentPlayer = c, moveHistory = m, gameOver = g,
      gameResult = r, startPosition = sp, castlingRights = cr, enPassantTarget = e,
      halfMoveClock = h, fullMoveNumber = n\<rparr>"
  by (simp only: rkE3Board_to_rkA6Board)

lemma rkA6Board_to_rkBe2Board:
  "wr (wr rkA6Board 6 (Idx 4) (Piece Bishop White)) 7 (Idx 5) Null = rkBe2Board"
  by (simp add: wr_def onGrid_def isWithinBoard_def keyCol_def rkA6Board_def rkBe2Board_def)

lemma rkA6Board_to_rkBe2Board_pos:
  "\<lparr>board = wr (wr rkA6Board 6 (Idx 4) (Piece Bishop White)) 7 (Idx 5) Null,
      currentPlayer = c, moveHistory = m, gameOver = g,
      gameResult = r, startPosition = sp, castlingRights = cr, enPassantTarget = e,
      halfMoveClock = h, fullMoveNumber = n\<rparr>
   = \<lparr>board = rkBe2Board,
      currentPlayer = c, moveHistory = m, gameOver = g,
      gameResult = r, startPosition = sp, castlingRights = cr, enPassantTarget = e,
      halfMoveClock = h, fullMoveNumber = n\<rparr>"
  by (simp only: rkA6Board_to_rkBe2Board)

lemma rkBe2Board_to_rkReadyBoard:
  "wr (wr rkBe2Board 3 (Idx 0) (Piece Pawn Black)) 2 (Idx 0) Null = rkReadyBoard"
  by (simp add: wr_def onGrid_def isWithinBoard_def keyCol_def rkBe2Board_def rkReadyBoard_def)

lemma rkBe2Board_to_rkReadyBoard_pos:
  "\<lparr>board = wr (wr rkBe2Board 3 (Idx 0) (Piece Pawn Black)) 2 (Idx 0) Null,
      currentPlayer = c, moveHistory = m, gameOver = g,
      gameResult = r, startPosition = sp, castlingRights = cr, enPassantTarget = e,
      halfMoveClock = h, fullMoveNumber = n\<rparr>
   = \<lparr>board = rkReadyBoard,
      currentPlayer = c, moveHistory = m, gameOver = g,
      gameResult = r, startPosition = sp, castlingRights = cr, enPassantTarget = e,
      halfMoveClock = h, fullMoveNumber = n\<rparr>"
  by (simp only: rkBe2Board_to_rkReadyBoard)

lemma queenBoard_to_staleBoard:
  "wr (wr queenBoard 2 (Idx 6) (Piece Queen White)) 3 (Idx 6) Null = staleBoard"
  by (simp add: wr_def onGrid_def isWithinBoard_def keyCol_def queenBoard_def staleBoard_def)

lemma queenBoard_to_staleBoard_pos:
  "\<lparr>board = wr (wr queenBoard 2 (Idx 6) (Piece Queen White)) 3 (Idx 6) Null,
      currentPlayer = c, moveHistory = m, gameOver = g,
      gameResult = r, startPosition = sp, castlingRights = cr, enPassantTarget = e,
      halfMoveClock = h, fullMoveNumber = n\<rparr>
   = \<lparr>board = staleBoard,
      currentPlayer = c, moveHistory = m, gameOver = g,
      gameResult = r, startPosition = sp, castlingRights = cr, enPassantTarget = e,
      halfMoveClock = h, fullMoveNumber = n\<rparr>"
  by (simp only: queenBoard_to_staleBoard)

lemma wingBoard_castled:
  "wr (wr (wr wingBoard 7 (Idx 8) (Piece King White)) 7 (Idx 6) Null) 7 (Idx 7) Null
   = wr wingLeftBoard 7 (Idx 8) (Piece King White)"
  by (simp add: wr_def onGrid_def isWithinBoard_def keyCol_def wingBoard_def wingLeftBoard_def)

lemma wingBoard_castled_pos:
  "\<lparr>board = wr (wr (wr wingBoard 7 (Idx 8) (Piece King White)) 7 (Idx 6) Null) 7 (Idx 7) Null,
      currentPlayer = c, moveHistory = m, gameOver = g,
      gameResult = r, startPosition = sp, castlingRights = cr, enPassantTarget = e,
      halfMoveClock = h, fullMoveNumber = n\<rparr>
   = \<lparr>board = wr wingLeftBoard 7 (Idx 8) (Piece King White),
      currentPlayer = c, moveHistory = m, gameOver = g,
      gameResult = r, startPosition = sp, castlingRights = cr, enPassantTarget = e,
      halfMoveClock = h, fullMoveNumber = n\<rparr>"
  by (simp only: wingBoard_castled)

lemma pinBoard_castled:
  "wr (wr (wr (wr pinBoard 7 (Idx 2) (Piece King White)) 7 (Idx 4) Null) 7 (Idx 3) (Piece Rook White)) 7 (Idx 1) Null
   = pinCastledBoard"
  by (simp add: wr_def onGrid_def isWithinBoard_def keyCol_def pinBoard_def pinCastledBoard_def)

lemma pinBoard_castled_pos:
  "\<lparr>board = wr (wr (wr (wr pinBoard 7 (Idx 2) (Piece King White)) 7 (Idx 4) Null) 7 (Idx 3) (Piece Rook White)) 7 (Idx 1) Null,
      currentPlayer = c, moveHistory = m, gameOver = g,
      gameResult = r, startPosition = sp, castlingRights = cr, enPassantTarget = e,
      halfMoveClock = h, fullMoveNumber = n\<rparr>
   = \<lparr>board = pinCastledBoard,
      currentPlayer = c, moveHistory = m, gameOver = g,
      gameResult = r, startPosition = sp, castlingRights = cr, enPassantTarget = e,
      halfMoveClock = h, fullMoveNumber = n\<rparr>"
  by (simp only: pinBoard_castled)

lemmas nextBoard = stdBoard_to_nf3Board_pos nf3Board_to_nf3nf6Board_pos nf3nf6Board_to_nf6Board_pos nf6Board_to_stdBoard_pos stdBoard_to_f3Board_pos f3Board_to_f3e5Board_pos f3e5Board_to_f3e5g4Board_pos f3e5g4Board_to_mateBoard_pos rkBoard_to_rkE3Board_pos rkE3Board_to_rkA6Board_pos rkA6Board_to_rkBe2Board_pos rkBe2Board_to_rkReadyBoard_pos queenBoard_to_staleBoard_pos wingBoard_castled_pos pinBoard_castled_pos

section \<open>Running the program on a position\<close>

text \<open>
  The equations by which a call on a concrete position is evaluated: the
  definitions of the program, the constructors' rules, and arithmetic on numerals.
\<close>

lemma half_rows: "(10::int) div 2 = 5" "(4::int) div 2 = 2"
  by simp_all

lemmas programDefs =
  idx8_def isWithinBoard_def onGrid_def opponent_def rightsOf_def direction_def
  getPawnMoves_def knightOffsets_def getKnightMoves_def slide.simps getSlidingMoves_def
  bishopDirections_def rookDirections_def queenDirections_def getBishopMoves_def
  getRookMoves_def getQueenMoves_def hasMove_def pieceAttacks_def scanAttack.simps
  isSquareUnderAttack_def findKing.simps isInCheck_def canCastleLoop.simps homeRank_def
  castlingMoves_def getKingMoves_def pseudoMoves_def isEnPassantTarget_def rowExists_def
  getValidMoves_def hasLegalScan.simps hasLegalMoves_def isInCheckmate_def isInStalemate_def
  checkGameEnd_def findRookRight.simps findRookLeft.simps setRights_def isPiece_def
  isRook_def pawnOrClock_def kingCastling_def rookRights_def applyMove_def makeMove_def
  consMove.simps appendMoves.simps mayEnter.simps stepMoves.simps slideAll.simps hits.simps
  kingSteps.simps findRooks.simps filterMoves.simps findKingCol.simps play.simps
  rd_wr wr_wr_same wr_same Let_def

lemmas dataRules =
  simp_thms if_True if_False cell.simps sum.simps option.simps list.simps prod.simps
  ptype.simps color.simps key.simps error.simps bool.simps
  chess.select_convs chess.update_convs board.select_convs board.update_convs
  rights.select_convs rights.update_convs castling.select_convs castling.update_convs
  moveEntry.select_convs moveEntry.update_convs
  append.simps concat.simps list.map filter.simps list_ex_Nil_iff list_ex_Cons_iff
  fst_conv snd_conv list.size length_Cons zero_less_Suc less_nat_zero_code add_Suc

lemmas numeralRules =
  arith_simps rel_simps arith_special more_arith_simps numeral_One
  add_0 add_0_right diff_0_right diff_0 minus_zero mult_1 mult_1_right
  mult_zero_left mult_zero_right abs_numeral abs_neg_numeral abs_zero abs_one abs_minus
  one_neq_zero zero_neq_one half_rows

lemmas lazyCongs =
  if_weak_cong cell.case_cong_weak sum.case_cong_weak option.case_cong_weak
  list.case_cong_weak prod.case_cong_weak ptype.case_cong_weak key.case_cong_weak
  bool.case_cong_weak

lemmas startFacts = gameOn_def allRights_def stdRank_def wingRank_def

section \<open>Start positions\<close>

subsection \<open>Files of a back rank\<close>

lemma idx8_set: "i \<in> set idx8 \<longleftrightarrow> 0 \<le> i \<and> i < 8"
  by (auto simp: idx8_def)

lemma idx8_distinct: "distinct idx8"
  by (simp add: idx8_def)

lemma get8_set8_idx:
  "j \<in> set idx8 \<Longrightarrow> get8 (set8 v i x) j = (if i = j then x else get8 v j)"
  by (simp add: idx8_set get8_set8)

lemma list8_get8: "list8 v = map (get8 v) idx8"
  by (cases v) (simp add: idx8_def)

lemma empty_mem:
  "p \<in> set (emptyPositionsOf br) \<longleftrightarrow> p \<in> set idx8 \<and> get8 br p = None"
  by (simp add: emptyPositionsOf_def)

lemma empty_distinct: "distinct (emptyPositionsOf br)"
  by (simp add: emptyPositionsOf_def idx8_distinct)

lemma empty_sorted: "sorted_wrt (<) (emptyPositionsOf br)"
  by (simp add: emptyPositionsOf_def idx8_def sorted_wrt_filter)

lemma length_filter_neq:
  "distinct xs \<Longrightarrow> p \<in> set xs \<Longrightarrow> length (filter (\<lambda>i. i \<noteq> p) xs) = length xs - 1"
proof (induction xs)
  case Nil
  then show ?case by simp
next
  case (Cons x xs)
  show ?case
  proof (cases "x = p")
    case True
    with Cons.prems have "filter (\<lambda>i. i \<noteq> p) xs = xs"
      by (auto simp: filter_id_conv)
    with True show ?thesis by simp
  next
    case False
    with Cons have "length (filter (\<lambda>i. i \<noteq> p) xs) = length xs - 1" "0 < length xs"
      by auto
    with False show ?thesis by simp
  qed
qed

lemma length_filter_or:
  "distinct xs \<Longrightarrow> p \<in> set xs \<Longrightarrow> \<not> Q p \<Longrightarrow>
   length (filter (\<lambda>i. i = p \<or> Q i) xs) = Suc (length (filter Q xs))"
proof (induction xs)
  case Nil
  then show ?case by simp
next
  case (Cons x xs)
  show ?case
  proof (cases "x = p")
    case True
    with Cons.prems have "filter (\<lambda>i. i = p \<or> Q i) xs = filter Q xs"
      by (auto intro: filter_cong)
    with True Cons.prems show ?thesis by simp
  next
    case False
    with Cons show ?thesis by auto
  qed
qed

text \<open>A piece put on an empty file: the empty files and the files of each kind after it.\<close>

lemma empty_place:
  assumes "p \<in> set (emptyPositionsOf br)"
  shows "emptyPositionsOf (set8 br p (Some t)) = filter (\<lambda>i. i \<noteq> p) (emptyPositionsOf br)"
  unfolding emptyPositionsOf_def filter_filter
  by (rule filter_cong) (auto simp: get8_set8_idx)

lemma empty_place_length:
  assumes "p \<in> set (emptyPositionsOf br)"
  shows "length (emptyPositionsOf (set8 br p (Some t))) = length (emptyPositionsOf br) - 1"
  using assms by (simp add: empty_place length_filter_neq empty_distinct)

lemma files_place_other:
  assumes "p \<in> set (emptyPositionsOf br)" "t' \<noteq> t"
  shows "filesOf (set8 br p (Some t)) t' = filesOf br t'"
  unfolding filesOf_def using assms
  by (intro filter_cong) (auto simp: get8_set8_idx empty_mem)

lemma files_place_same:
  assumes "p \<in> set (emptyPositionsOf br)"
  shows "filesOf (set8 br p (Some t)) t = filter (\<lambda>i. i = p \<or> get8 br i = Some t) idx8"
  unfolding filesOf_def
  by (rule filter_cong) (auto simp: get8_set8_idx)

lemma files_place_length:
  assumes "p \<in> set (emptyPositionsOf br)"
  shows "length (filesOf (set8 br p (Some t)) t) = Suc (length (filesOf br t))"
proof -
  from assms have "p \<in> set idx8" "\<not> get8 br p = Some t"
    by (simp_all add: empty_mem)
  then have "length (filter (\<lambda>i. i = p \<or> get8 br i = Some t) idx8)
             = Suc (length (filter (\<lambda>i. get8 br i = Some t) idx8))"
    by (rule length_filter_or [OF idx8_distinct])
  moreover have "filesOf (set8 br p (Some t)) t
                 = filter (\<lambda>i. i = p \<or> get8 br i = Some t) idx8"
    by (rule files_place_same [OF assms])
  moreover have "filesOf br t = filter (\<lambda>i. get8 br i = Some t) idx8"
    by (simp add: filesOf_def)
  ultimately show ?thesis by simp
qed

lemma files_Nil: "filesOf br t = [] \<longleftrightarrow> (\<forall>i \<in> set idx8. get8 br i \<noteq> Some t)"
  by (simp add: filesOf_def filter_empty_conv)

lemma filter_one: "p \<in> set idx8 \<Longrightarrow> filter (\<lambda>i. i = p) idx8 = [p]"
  by (auto simp: idx8_def)

lemma filter_two:
  "a \<in> set idx8 \<Longrightarrow> b \<in> set idx8 \<Longrightarrow> a < b \<Longrightarrow> filter (\<lambda>i. i = b \<or> i = a) idx8 = [a, b]"
  by (auto simp: idx8_def)

text \<open>A draw below the number of empty files yields one of them.\<close>

lemma pick_empty:
  "d < length (emptyPositionsOf br) \<Longrightarrow>
   \<exists>p. getRandomEmptyPosition br d = Some p \<and> p \<in> set (emptyPositionsOf br)"
  by (simp add: getRandomEmptyPosition_def getRandomPosition_def)

text \<open>The two bishops, on any dark and any light file.\<close>

lemma bishops_placed:
  assumes "bd \<in> {0, 2, 4, 6}" "bl \<in> {1, 3, 5, 7}"
  shows "(case filesOf (set8 (set8 (V8 None None None None None None None None)
                                   bd (Some Bishop)) bl (Some Bishop)) Bishop of
            [b1, b2] \<Rightarrow> (b1 + b2) mod 2 = 1 | _ \<Rightarrow> False)"
    and "bd \<in> set (emptyPositionsOf (V8 None None None None None None None None))"
    and "bl \<in> set (emptyPositionsOf (set8 (V8 None None None None None None None None)
                                           bd (Some Bishop)))"
  using assms by (auto simp: filesOf_def emptyPositionsOf_def idx8_def)

subsection \<open>The generated back rank\<close>

lemma generated_backrank:
  assumes "d1 < 4" "d2 < 4" "d3 < 6" "d4 < 5" "d5 < 4"
  shows "\<exists>backrank. generateChess960Position d1 d2 d3 d4 d5 = Some backrank
           \<and> validBackrank backrank \<and> emptyPositionsOf backrank = []"
proof -
  define br0 :: "ptype option v8" where "br0 = V8 None None None None None None None None"
  have none0: "filesOf br0 t = []" for t
    by (simp add: br0_def filesOf_def idx8_def)
  have len0: "length (emptyPositionsOf br0) = 8"
    by (simp add: br0_def emptyPositionsOf_def idx8_def)
  \<comment> \<open>the bishops\<close>
  from \<open>d1 < 4\<close> obtain bd where bd: "getRandomPosition [0, 2, 4, 6] d1 = Some bd"
    and bd_dark: "bd \<in> {0, 2, 4, 6}"
    by (auto simp: getRandomPosition_def nth_Cons split: nat.splits)
  from \<open>d2 < 4\<close> obtain bl where bl: "getRandomPosition [1, 3, 5, 7] d2 = Some bl"
    and bl_light: "bl \<in> {1, 3, 5, 7}"
    by (auto simp: getRandomPosition_def nth_Cons split: nat.splits)
  define br1 where "br1 = set8 br0 bd (Some Bishop)"
  define br2 where "br2 = set8 br1 bl (Some Bishop)"
  note bishops = bishops_placed [OF bd_dark bl_light, folded br0_def, folded br1_def, folded br2_def]
  have len2: "length (emptyPositionsOf br2) = 6"
    using bishops(2,3) len0 by (simp add: br2_def br1_def empty_place_length)
  \<comment> \<open>the queen and the knights\<close>
  from pick_empty [of d3 br2] \<open>d3 < 6\<close> len2 obtain q where
    q: "getRandomEmptyPosition br2 d3 = Some q" and q_in: "q \<in> set (emptyPositionsOf br2)"
    by auto
  define br3 where "br3 = set8 br2 q (Some Queen)"
  have len3: "length (emptyPositionsOf br3) = 5"
    using q_in len2 by (simp add: br3_def empty_place_length)
  from pick_empty [of d4 br3] \<open>d4 < 5\<close> len3 obtain n1 where
    n1: "getRandomEmptyPosition br3 d4 = Some n1" and n1_in: "n1 \<in> set (emptyPositionsOf br3)"
    by auto
  define br4 where "br4 = set8 br3 n1 (Some Knight)"
  have len4: "length (emptyPositionsOf br4) = 4"
    using n1_in len3 by (simp add: br4_def empty_place_length)
  from pick_empty [of d5 br4] \<open>d5 < 4\<close> len4 obtain n2 where
    n2: "getRandomEmptyPosition br4 d5 = Some n2" and n2_in: "n2 \<in> set (emptyPositionsOf br4)"
    by auto
  define br5 where "br5 = set8 br4 n2 (Some Knight)"
  have len5: "length (emptyPositionsOf br5) = 3"
    using n2_in len4 by (simp add: br5_def empty_place_length)
  \<comment> \<open>the three files left, in ascending order\<close>
  from len5 obtain e0 e1 e2 where es: "emptyPositionsOf br5 = [e0, e1, e2]"
    by (auto simp: length_Suc_conv eval_nat_numeral)
  from empty_sorted [of br5] es have order: "e0 < e1" "e1 < e2" "e0 < e2"
    by auto
  have e0_in: "e0 \<in> set (emptyPositionsOf br5)" by (simp add: es)
  define br6 where "br6 = set8 br5 e0 (Some Rook)"
  have es6: "emptyPositionsOf br6 = [e1, e2]"
    using order by (simp add: br6_def empty_place [OF e0_in] es)
  have e2_in: "e2 \<in> set (emptyPositionsOf br6)" by (simp add: es6)
  define br7 where "br7 = set8 br6 e2 (Some Rook)"
  have es7: "emptyPositionsOf br7 = [e1]"
    using order by (simp add: br7_def empty_place [OF e2_in] es6)
  have e1_in: "e1 \<in> set (emptyPositionsOf br7)" by (simp add: es7)
  define final where "final = set8 br7 e1 (Some King)"
  have es8: "emptyPositionsOf final = []"
    by (simp add: final_def empty_place [OF e1_in] es7)
  have gen: "generateChess960Position d1 d2 d3 d4 d5 = Some final"
    by (simp add: generateChess960Position_def bd bl q n1 n2 es
        br0_def [symmetric] br1_def [symmetric] br2_def [symmetric] br3_def [symmetric]
        br4_def [symmetric] br5_def [symmetric] br6_def [symmetric] br7_def [symmetric]
        final_def [symmetric])
  \<comment> \<open>the files of each kind\<close>
  have other: "filesOf final t = filesOf br5 t" if "t \<noteq> Rook" "t \<noteq> King" for t
    using that e0_in e2_in e1_in
    by (simp add: final_def br7_def br6_def files_place_other)
  have bishopsF: "filesOf final Bishop = filesOf br2 Bishop"
    using q_in n1_in n2_in by (simp add: other br5_def br4_def br3_def files_place_other)
  have queenF: "length (filesOf final Queen) = 1"
    using q_in n1_in n2_in bishops(2,3)
    by (simp add: other br5_def br4_def files_place_other br3_def files_place_length
        br2_def br1_def none0)
  have knightF: "length (filesOf final Knight) = 2"
    using q_in n1_in n2_in bishops(2,3)
    by (simp add: other br5_def br4_def files_place_length br3_def files_place_other
        br2_def br1_def none0)
  have noRook: "filesOf br5 Rook = []" and noKing: "filesOf br5 King = []"
    using q_in n1_in n2_in bishops(2,3)
    by (simp_all add: br5_def br4_def br3_def br2_def br1_def files_place_other none0)
  have e_idx: "e0 \<in> set idx8" "e1 \<in> set idx8" "e2 \<in> set idx8"
    using e0_in e1_in e2_in by (simp_all add: empty_mem)
  have "filesOf br6 Rook = filter (\<lambda>i. i = e0) idx8"
    unfolding br6_def files_place_same [OF e0_in]
    using noRook by (intro filter_cong) (auto simp: files_Nil)
  then have rook6: "filesOf br6 Rook = [e0]"
    by (simp add: filter_one e_idx)
  have "filesOf br7 Rook = filter (\<lambda>i. i = e2 \<or> i = e0) idx8"
    unfolding br7_def files_place_same [OF e2_in]
  proof (rule filter_cong [OF refl])
    fix i assume "i \<in> set idx8"
    have "get8 br6 i = Some Rook \<longleftrightarrow> i \<in> set (filesOf br6 Rook)" if "i \<in> set idx8"
      using that by (simp add: filesOf_def)
    with \<open>i \<in> set idx8\<close> rook6 show "(i = e2 \<or> get8 br6 i = Some Rook) = (i = e2 \<or> i = e0)"
      by simp
  qed
  then have rook7: "filesOf br7 Rook = [e0, e2]"
    using order by (simp add: filter_two e_idx)
  have rookF: "filesOf final Rook = [e0, e2]"
    using e1_in rook7 by (simp add: final_def files_place_other)
  have "filesOf br7 King = []"
    using e0_in e2_in noKing by (simp add: br7_def br6_def files_place_other)
  then have "filesOf final King = filter (\<lambda>i. i = e1) idx8"
    unfolding final_def files_place_same [OF e1_in]
    by (intro filter_cong) (auto simp: files_Nil)
  then have kingF: "filesOf final King = [e1]"
    by (simp add: filter_one e_idx)
  have "validBackrank final"
    using bishops(1) order
    by (simp add: validBackrank_def bishopsF rookF kingF queenF knightF)
  with gen es8 show ?thesis by blast
qed

text \<open>On a back rank without \<open>null\<close> the two set-up loops fill the four outer rows.\<close>

lemma wr_grid:
  "isWithinBoard r c \<Longrightarrow>
   wr \<lparr>grid = g, props = p\<rparr> r (Idx c) x
   = \<lparr>grid = set8 g r (set8 (get8 g r) c x), props = p\<rparr>"
  by (simp add: wr_def onGrid_def keyCol_def)

lemma setUp_both:
  assumes "emptyPositionsOf backrank = []"
  shows "\<exists>b1 b2. setUp emptyBoard backrank 7 6 White idx8 = Some b1
               \<and> setUp b1 backrank 0 1 Black idx8 = Some b2
               \<and> grid b2 = startGrid backrank"
proof (cases backrank)
  case (V8 a0 a1 a2 a3 a4 a5 a6 a7)
  with assms obtain t0 t1 t2 t3 t4 t5 t6 t7 where
    br: "backrank = V8 (Some t0) (Some t1) (Some t2) (Some t3) (Some t4) (Some t5) (Some t6) (Some t7)"
    by (auto simp: emptyPositionsOf_def idx8_def split: if_splits)
  have white: "setUp emptyBoard backrank 7 6 White idx8
      = Some \<lparr>grid = V8 emptyRow emptyRow emptyRow emptyRow emptyRow emptyRow
                         (pawnRow White) (map8 (backPiece White) backrank),
                props = (\<lambda>r k. Undefined)\<rparr>"
    unfolding br emptyBoard_def emptyRow_def pawnRow_def backPiece_def idx8_def
    by (simp only: setUp.simps get8.simps set8.simps map8.simps wr_grid isWithinBoard_def
        dataRules numeralRules cong: lazyCongs)
  have black: "setUp \<lparr>grid = V8 emptyRow emptyRow emptyRow emptyRow emptyRow emptyRow
                         (pawnRow White) (map8 (backPiece White) backrank),
                props = (\<lambda>r k. Undefined)\<rparr> backrank 0 1 Black idx8
      = Some \<lparr>grid = startGrid backrank, props = (\<lambda>r k. Undefined)\<rparr>"
    unfolding br emptyRow_def pawnRow_def backPiece_def idx8_def startGrid_def
    by (simp only: setUp.simps get8.simps set8.simps map8.simps wr_grid isWithinBoard_def
        dataRules numeralRules cong: lazyCongs)
  from white black show ?thesis by simp
qed

text \<open>
  C5.  For every sequence of draws that \<open>Math.random\<close> can give,
  \<open>generateChess960Position\<close> returns a back rank of two rooks, two knights, two
  bishops, a queen and a king, the bishops on files of opposite parity and the
  king's file strictly between the rooks' files; and \<open>initializeChess960\<close> puts
  that back rank on row 7 for White and on row 0 for Black, a full row of
  pawns on rows 6 and 1, and nothing on the rows between.
\<close>

theorem chess960_start_wellformed:
  assumes "d1 < 4" "d2 < 4" "d3 < 6" "d4 < 5" "d5 < 4"
  shows "\<exists>backrank s.
           generateChess960Position d1 d2 d3 d4 d5 = Some backrank
         \<and> validBackrank backrank
         \<and> initializeChess960 d1 d2 d3 d4 d5 = Some s
         \<and> grid (board s) = startGrid backrank
         \<and> startPosition s = Some backrank"
proof -
  from generated_backrank [OF assms] obtain backrank where
    gen: "generateChess960Position d1 d2 d3 d4 d5 = Some backrank"
    and ok: "validBackrank backrank"
    and full: "emptyPositionsOf backrank = []"
    by blast
  from setUp_both [OF full] obtain b1 b2 where
    "setUp emptyBoard backrank 7 6 White idx8 = Some b1"
    "setUp b1 backrank 0 1 Black idx8 = Some b2"
    "grid b2 = startGrid backrank"
    by blast
  with gen ok show ?thesis
    by (simp add: initializeChess960_def)
qed

text \<open>The draws 1, 2, 2, 1, 2 give the back rank of standard chess.\<close>

lemma stdStart_initial: "initializeChess960 1 2 2 1 2 = Some stdStart"
  by (simp add: initializeChess960_def generateChess960Position_def getRandomPosition_def
      getRandomEmptyPosition_def emptyPositionsOf_def idx8_def wr_def onGrid_def
      isWithinBoard_def keyCol_def emptyBoard_def emptyRow_def stdStart_def gameOn_def
      stdBoard_def stdRank_def allRights_def)

lemma wingStart_initial: "initializeChess960 0 0 2 0 0 = Some wingStart"
  by (simp add: initializeChess960_def generateChess960Position_def getRandomPosition_def
      getRandomEmptyPosition_def emptyPositionsOf_def idx8_def wr_def onGrid_def
      isWithinBoard_def keyCol_def emptyBoard_def emptyRow_def wingStart_def gameOn_def
      wingBoard_def wingRank_def allRights_def)

theorem chess960_start_wellformed_witness:
  "(1::nat) < 4 \<and> (2::nat) < 4 \<and> (2::nat) < 6 \<and> (1::nat) < 5 \<and> (2::nat) < 4
   \<and> generateChess960Position 1 2 2 1 2 = Some stdRank
   \<and> validBackrank stdRank
   \<and> grid (board stdStart) = startGrid stdRank"
  using chess960_start_wellformed [of 1 2 2 1 2] stdStart_initial
  by (auto simp: initializeChess960_def stdStart_def gameOn_def split: option.splits)

section \<open>Castling on Chess960 back ranks\<close>

subsection \<open>The king castles off the board\<close>

lemma wingStart_reachable: "reachable wingStart"
  using wingStart_initial by (rule reachable.start)

lemma wing_castle:
  "makeMove wingStart 7 6 7 8
   = Inr (True,
       \<lparr>board = wr wingLeftBoard 7 (Idx 8) (Piece King White), currentPlayer = Black,
        moveHistory = [\<lparr>piece = Piece King White, fromSq = (7, 6), toSq = (7, 8),
                         captured = Undefined, castlingRook = Some ((7, Idx 7), (7, 7)),
                         enPassant = None, promotion = None\<rparr>],
        gameOver = False, gameResult = None, startPosition = Some wingRank,
        castlingRights = \<lparr>wRights = \<lparr>kingSide = False, queenSide = False\<rparr>,
                           bRights = \<lparr>kingSide = True, queenSide = True\<rparr>\<rparr>,
        enPassantTarget = None, halfMoveClock = 1, fullMoveNumber = 1\<rparr>)"
  by (simp only: programDefs dataRules numeralRules startFacts wingStart_def
      wingBoard_at wingBoard_off wingLeftBoard_at wingLeftBoard_off nextBoard cong: lazyCongs)

text \<open>
  C3.  The claim fails on the code.  In the game that \<open>initializeChess960\<close> sets
  up on the back rank \<open>BBNNQRKR\<close> (draws 0, 0, 2, 0, 0), White's first move
  \<open>makeMove(7, 6, 7, 8)\<close> is accepted: the king castles to column 8, which is
  not on the board, the rook on h1 is erased, and no white king is left on
  the 64 squares.
\<close>

theorem castling_leaves_the_board:
  "reachable wingStart
   \<and> (case makeMove wingStart 7 6 7 8 of
        Inr (ok, s') \<Rightarrow>
          ok \<and> reachable s'
          \<and> rd (board s') 7 (Idx 8) = Piece King White
          \<and> \<not> isWithinBoard 7 8
          \<and> countKings (board s') White = 0
          \<and> at (board s') 7 7 = Null
      | Inl e \<Rightarrow> False)"
proof -
  let ?b = "wr wingLeftBoard 7 (Idx 8) (Piece King White)"
  have "reachable (snd (projr (makeMove wingStart 7 6 7 8)))"
    using reachable.move [OF wingStart_reachable wing_castle] by (simp add: wing_castle)
  moreover have "rd ?b 7 (Idx 8) = Piece King White" "at ?b 7 7 = Null"
    by (simp_all add: rd_wr wingLeftBoard_at)
  moreover have "countKings ?b White = 0"
    by (simp add: countKings_def gridCells_def wr_def onGrid_def isWithinBoard_def
        wingLeftBoard_def)
  moreover have "\<not> isWithinBoard 7 8"
    by (simp add: isWithinBoard_def)
  ultimately show ?thesis
    by (simp add: wing_castle wingStart_reachable)
qed

subsection \<open>The rook that shielded the king is moved away\<close>

lemma pin_valid:
  "getValidMoves pinPosition 7 4
   = Inr ([(6, 3), (6, 4), (6, 5), (7, 3), (7, 5), (7, 2)], pinBoard)"
  by (simp only: programDefs dataRules numeralRules startFacts pinPosition_def
      pinBoard_at pinBoard_off cong: lazyCongs)

lemma pin_castle:
  "makeMove pinPosition 7 4 7 2
   = Inr (True,
       \<lparr>board = pinCastledBoard, currentPlayer = Black,
        moveHistory = [\<lparr>piece = Piece King White, fromSq = (7, 4), toSq = (7, 2),
                         captured = Null, castlingRook = Some ((7, Idx 1), (7, 3)),
                         enPassant = None, promotion = None\<rparr>],
        gameOver = False, gameResult = None, startPosition = None,
        castlingRights = \<lparr>wRights = \<lparr>kingSide = False, queenSide = False\<rparr>,
                           bRights = \<lparr>kingSide = True, queenSide = True\<rparr>\<rparr>,
        enPassantTarget = None, halfMoveClock = 1, fullMoveNumber = 1\<rparr>)"
  by (simp only: programDefs dataRules numeralRules startFacts pinPosition_def
      pinBoard_at pinBoard_off pinCastledBoard_at pinCastledBoard_off nextBoard
      cong: lazyCongs)

lemma pin_check: "isInCheck pinCastledBoard White = Inr True"
  by (simp only: programDefs dataRules numeralRules pinCastledBoard_at pinCastledBoard_off
      cong: lazyCongs)

text \<open>
  C1.  The claim fails on the code.  White: king e1, rook b1; Black: queen a1,
  king e8; White to move.  \<open>getValidMoves(7, 4)\<close> returns the castling move to
  \<open>(7, 2)\<close>: its filter tries the king on c1 with the rook still on b1.
  \<open>makeMove\<close> then also takes the rook to d1, and White's king stands in
  check from the queen on a1.
\<close>

theorem castling_into_check:
  "(case getValidMoves pinPosition 7 4 of
      Inr (moves, b) \<Rightarrow> hasMove moves 7 2
    | Inl e \<Rightarrow> False)
   \<and> isInCheck (board pinPosition) White = Inr False
   \<and> (case makeMove pinPosition 7 4 7 2 of
        Inr (ok, s') \<Rightarrow>
          ok \<and> at (board s') 7 2 = Piece King White \<and> at (board s') 7 3 = Piece Rook White
          \<and> isInCheck (board s') White = Inr True
      | Inl e \<Rightarrow> False)"
proof -
  have "isInCheck (board pinPosition) White = Inr False"
    by (simp only: programDefs dataRules numeralRules startFacts pinPosition_def
        pinBoard_at pinBoard_off cong: lazyCongs)
  then show ?thesis
    by (simp add: pin_valid pin_castle pin_check hasMove_def pinCastledBoard_at)
qed

subsection \<open>The king passes an attacked square\<close>

lemma file_king_moves:
  "getKingMoves fileBoard allRights 7 4 = Inr [(6, 3), (6, 4), (7, 3), (7, 6)]"
  by (simp only: programDefs dataRules numeralRules startFacts
      fileBoard_at fileBoard_off cong: lazyCongs)

lemma file_valid:
  "getValidMoves filePosition 7 4 = Inr ([(6, 3), (6, 4), (7, 3), (7, 6)], fileBoard)"
  by (simp only: programDefs dataRules numeralRules startFacts filePosition_def
      fileBoard_at fileBoard_off cong: lazyCongs)

lemma file_attack: "isSquareUnderAttack fileBoard 7 5 White = Inr True"
  by (simp only: programDefs dataRules numeralRules fileBoard_at fileBoard_off
      cong: lazyCongs)

text \<open>
  C2.  The claim fails on the code.  White: king e1, rook f1; Black: rook f8
  on the open f-file, king a8; White to move.  The castling move to
  \<open>(7, 6)\<close> is among the moves of \<open>getKingMoves\<close> and of \<open>getValidMoves\<close>, although
  the king passes f1 and \<open>isSquareUnderAttack(7, 5)\<close> holds: the loop of
  \<open>getKingMoves\<close> tests only the squares strictly between king and rook, and
  here there is none.
\<close>

theorem castling_through_attack:
  "(case getKingMoves fileBoard allRights 7 4 of
      Inr moves \<Rightarrow> hasMove moves 7 (4 + 2)
    | Inl e \<Rightarrow> False)
   \<and> (case getValidMoves filePosition 7 4 of
        Inr (moves, b) \<Rightarrow> hasMove moves 7 (4 + 2)
      | Inl e \<Rightarrow> False)
   \<and> at fileBoard 7 4 = Piece King White
   \<and> at fileBoard 7 5 = Piece Rook White
   \<and> isSquareUnderAttack fileBoard 7 5 White = Inr True"
  by (simp add: file_king_moves file_valid file_attack hasMove_def fileBoard_at)

subsection \<open>Castling rights after a rook has moved\<close>

lemma rook_takes:
  "makeMove rookPosition 7 0 1 0
   = Inr (True,
       \<lparr>board = wr (wr rookBoard 1 (Idx 0) (Piece Rook White)) 7 (Idx 0) Null,
        currentPlayer = Black,
        moveHistory = [\<lparr>piece = Piece Rook White, fromSq = (7, 0), toSq = (1, 0),
                         captured = Piece Pawn Black, castlingRook = None,
                         enPassant = None, promotion = None\<rparr>],
        gameOver = False, gameResult = None, startPosition = None,
        castlingRights = \<lparr>wRights = \<lparr>kingSide = False, queenSide = True\<rparr>,
                           bRights = \<lparr>kingSide = False, queenSide = False\<rparr>\<rparr>,
        enPassantTarget = None, halfMoveClock = 0, fullMoveNumber = 1\<rparr>)"
  by (simp only: programDefs dataRules numeralRules rookPosition_def
      rookBoard_at rookBoard_off cong: lazyCongs)

text \<open>
  C4.  The claim fails on the code.  White: king e1, rook a1, the right to
  castle to the queen's side; Black: pawn a7, king e8.  The rook takes the
  pawn, \<open>makeMove(7, 0, 1, 0)\<close>: the rook has left a1, and White's
  \<open>queenSide\<close> flag is still set.  (With a captured piece the block takes
  column and colour from the captured piece and the rank from the moving one.)
\<close>

theorem rook_move_keeps_right:
  "queenSide (wRights (castlingRights rookPosition))
   \<and> at (board rookPosition) 7 0 = Piece Rook White
   \<and> (case makeMove rookPosition 7 0 1 0 of
        Inr (ok, s') \<Rightarrow>
          ok \<and> at (board s') 7 0 = Null \<and> at (board s') 1 0 = Piece Rook White
          \<and> queenSide (wRights (castlingRights s'))
      | Inl e \<Rightarrow> False)"
proof -
  have "queenSide (wRights (castlingRights rookPosition))"
    "at (board rookPosition) 7 0 = Piece Rook White"
    by (simp_all add: rookPosition_def rookBoard_at)
  then show ?thesis
    by (simp add: rook_takes rd_wr)
qed

section \<open>The first move of a standard game\<close>

lemma stdStart_reachable: "reachable stdStart"
  using stdStart_initial by (rule reachable.start)

text \<open>The position after 1. e4.\<close>

lemma e4_played:
  "makeMove stdStart 6 4 4 4
   = Inr (True, afterE4)"
  by (simp only: programDefs dataRules numeralRules startFacts stdStart_def plain_def
      afterE4_def stdBoard_at stdBoard_off cong: lazyCongs)

lemma e4_fen:
  "generateFEN afterE4
   = Inr ''rnbqkbnr/pppppppp/8/8/4P3/8/PPPP1PPP/RNBQKBNR b KQkq 5,4 0 1''"
  by code_simp

text \<open>
  C7.  The claim fails on the code in its fourth field.  After 1. e4 in a
  standard game the en passant target is the square e3, and \<open>generateFEN\<close>
  writes it as \<open>5,4\<close>: the array \<open>[row, col]\<close> converted to a string, not the
  file letter and rank digit.
\<close>

theorem fen_en_passant_field:
  "reachable stdStart
   \<and> (case makeMove stdStart 6 4 4 4 of
        Inr (ok, s') \<Rightarrow>
          ok \<and> enPassantTarget s' = Some (5, 4)
          \<and> generateFEN s'
              = Inr ''rnbqkbnr/pppppppp/8/8/4P3/8/PPPP1PPP/RNBQKBNR b KQkq 5,4 0 1''
      | Inl e \<Rightarrow> False)"
  by (simp add: stdStart_reachable e4_played e4_fen) (simp add: afterE4_def)

section \<open>A game of a hundred knight moves, and a short one\<close>










text \<open>
  The game 1. f3 e5 2. g4 Qh4, played from the start position of standard chess
  with the clock and the outcome fields at any value: the first three plies
  leave \<open>gameOver\<close> and \<open>gameResult\<close> as they are, the fourth is mate.
\<close>

lemmas mateFacts = stdBoard_at stdBoard_off f3Board_at f3Board_off f3e5Board_at f3e5Board_off
  f3e5g4Board_at f3e5g4Board_off mateBoard_at mateBoard_off nextBoard
  standing_def plain_def allRights_def stdRank_def




lemma fool4:
  "makeMove (standing over result f3e5g4Board Black (Some (5, 6)) 0 n hist) 0 3 4 7
   = Inr (True, standing True (Some ''Black wins'') mateBoard White None 1 (n + 1)
                  (hist @ [plain Queen Black (0, 3) (4, 7)]))"
  by (simp only: programDefs dataRules numeralRules mateFacts cong: lazyCongs)


lemma mate_played: "makeMove beforeMate 0 3 4 7 = Inr (True, mated)"
  using fool4 [of False None 2] by (simp add: beforeMate_def mated_def)

section \<open>A game on the back rank RNBQKBRN\<close>

text \<open>The draws 1, 2, 2, 1, 3 give the back rank \<open>RNBQKBRN\<close>.\<close>

lemma rkStart_initial: "initializeChess960 1 2 2 1 3 = Some rkStart"
  by (simp add: initializeChess960_def generateChess960Position_def getRandomPosition_def
      getRandomEmptyPosition_def emptyPositionsOf_def idx8_def wr_def onGrid_def
      isWithinBoard_def keyCol_def emptyBoard_def emptyRow_def rkStart_def gameOn_def
      rkBoard_def rkRank_def allRights_def)

lemma rkStart_game: "rkStart = rkGame rkBoard White 0 1 []"
  by (simp add: rkStart_def gameOn_def rkGame_def)

lemmas rkFacts = rkBoard_at rkBoard_off rkE3Board_at rkE3Board_off rkA6Board_at rkA6Board_off
  rkBe2Board_at rkBe2Board_off rkReadyBoard_at rkReadyBoard_off nextBoard
  rkGame_def plain_def allRights_def rkRank_def

lemma rk1:
  "makeMove (rkGame rkBoard White 0 1 []) 6 4 5 4
   = Inr (True, rkGame rkE3Board Black 0 1 [plain Pawn White (6, 4) (5, 4)])"
  by (simp only: programDefs dataRules numeralRules rkFacts cong: lazyCongs)

lemma rk2:
  "makeMove (rkGame rkE3Board Black 0 1 [plain Pawn White (6, 4) (5, 4)]) 1 0 2 0
   = Inr (True, rkGame rkA6Board White 0 2
                  [plain Pawn White (6, 4) (5, 4), plain Pawn Black (1, 0) (2, 0)])"
  by (simp only: programDefs dataRules numeralRules rkFacts cong: lazyCongs)

lemma rk3:
  "makeMove (rkGame rkA6Board White 0 2
               [plain Pawn White (6, 4) (5, 4), plain Pawn Black (1, 0) (2, 0)]) 7 5 6 4
   = Inr (True, rkGame rkBe2Board Black 1 2
                  [plain Pawn White (6, 4) (5, 4), plain Pawn Black (1, 0) (2, 0),
                   plain Bishop White (7, 5) (6, 4)])"
  by (simp only: programDefs dataRules numeralRules rkFacts cong: lazyCongs)

lemma rk4:
  "makeMove (rkGame rkBe2Board Black 1 2
               [plain Pawn White (6, 4) (5, 4), plain Pawn Black (1, 0) (2, 0),
                plain Bishop White (7, 5) (6, 4)]) 2 0 3 0
   = Inr (True, rkReady)"
  by (simp only: programDefs dataRules numeralRules rkFacts rkReady_def cong: lazyCongs)

lemma rkReady_reachable: "reachable rkReady"
proof -
  from rkStart_initial have "reachable (rkGame rkBoard White 0 1 [])"
    unfolding rkStart_game by (rule reachable.start)
  from this rk1 have "reachable (rkGame rkE3Board Black 0 1 [plain Pawn White (6, 4) (5, 4)])"
    by (rule reachable.move)
  from this rk2 have "reachable (rkGame rkA6Board White 0 2
                  [plain Pawn White (6, 4) (5, 4), plain Pawn Black (1, 0) (2, 0)])"
    by (rule reachable.move)
  from this rk3 have "reachable (rkGame rkBe2Board Black 1 2
                  [plain Pawn White (6, 4) (5, 4), plain Pawn Black (1, 0) (2, 0),
                   plain Bishop White (7, 5) (6, 4)])"
    by (rule reachable.move)
  from this rk4 show ?thesis
    by (rule reachable.move)
qed

text \<open>
  White's king on e1 may castle with the rook on g1: f1 is empty and not
  attacked.  The target is g1.  \<open>makeMove\<close> puts the king there, on the rook,
  finds no rook to the right of e1 any more and writes \<open>board[7][undefined]\<close>,
  which is \<open>undefined\<close>, to f1.  \<open>checkGameEnd\<close> then reads \<open>.color\<close> of that
  cell on the diagonal of the bishop on e2.
\<close>

lemma rk_valid: "getValidMoves rkReady 7 4 = Inr ([(7, 5), (7, 6)], rkReadyBoard)"
  by (simp only: programDefs dataRules numeralRules rkFacts rkReady_def cong: lazyCongs)

lemma rk_applied:
  "at (board (applyMove rkReady King White 7 4 7 6)) 7 4 = Null
   \<and> at (board (applyMove rkReady King White 7 4 7 6)) 7 5 = Undefined
   \<and> at (board (applyMove rkReady King White 7 4 7 6)) 7 6 = Piece King White
   \<and> currentPlayer (applyMove rkReady King White 7 4 7 6) = Black
   \<and> length (moveHistory (applyMove rkReady King White 7 4 7 6)) = 5"
  by (simp only: programDefs dataRules numeralRules rkFacts rkReady_def cong: lazyCongs)

lemma rk_end: "checkGameEnd (applyMove rkReady King White 7 4 7 6) = Inl TypeError"
  by (simp only: programDefs dataRules numeralRules rkFacts rkReady_def cong: lazyCongs)

lemma rk_squares:
  "at (board rkReady) 7 4 = Piece King White" "at (board rkReady) 7 5 = Null"
  "at (board rkReady) 7 6 = Piece Rook White" "currentPlayer rkReady = White"
  "length (moveHistory rkReady) = 4"
  by (simp_all add: rkReady_def rkGame_def rkReadyBoard_at)

lemma rk_board: "board rkReady = rkReadyBoard"
  by (simp add: rkReady_def rkGame_def)

lemma rk_throws: "makeMove rkReady 7 4 7 6 = Inl TypeError"
proof -
  have "rkReady\<lparr>board := rkReadyBoard\<rparr> = rkReady"
    by (simp add: rkReady_def rkGame_def)
  then show ?thesis
    by (simp add: makeMove_def rowExists_def rk_squares rk_valid hasMove_def rk_end)
qed

section \<open>King and queen against the king\<close>

lemmas queenFacts = queenBoard_at queenBoard_off staleBoard_at staleBoard_off nextBoard
  beforeStalemate_def stalemated_def noRights_def plain_def

lemma stalemate_played: "makeMove beforeStalemate 3 6 2 6 = Inr (True, stalemated)"
  by (simp only: programDefs dataRules numeralRules queenFacts cong: lazyCongs)

section \<open>What the calls change\<close>

lemma gameFields_simps [simp]:
  "gameFields (s\<lparr>board := b\<rparr>) = gameFields s"
  "gameFields (s\<lparr>gameOver := g\<rparr>) = gameFields s"
  "gameFields (s\<lparr>gameResult := r\<rparr>) = gameFields s"
  by (simp_all add: gameFields_def)

lemma chess_eqI:
  "board s' = board s \<Longrightarrow> gameFields s' = gameFields s \<Longrightarrow> gameOver s' = gameOver s \<Longrightarrow>
   gameResult s' = gameResult s \<Longrightarrow> s' = s"
  for s s' :: chess
  by (simp add: gameFields_def)

lemma hasLegalScan_fields:
  "hasLegalScan s color r c = Inr (x, s') \<Longrightarrow>
   gameFields s' = gameFields s \<and> gameOver s' = gameOver s \<and> gameResult s' = gameResult s"
proof (induction s color r c arbitrary: x s' rule: hasLegalScan.induct)
  case (1 s color r c)
  from "1.prems" "1.IH" show ?case
    by (subst (asm) hasLegalScan.simps)
       (fastforce split: if_splits cell.splits sum.splits prod.splits)
qed

lemma hasMove_iff: "hasMove moves row col \<longleftrightarrow> (row, col) \<in> set moves"
  by (auto simp: hasMove_def list_ex_iff)

lemma makeMove_accepted:
  assumes "makeMove s fromRow fromCol toRow toCol = Inr (True, s')"
  obtains pt pc moves b' where
    "rowExists fromRow"
    "at (board s) fromRow fromCol = Piece pt pc"
    "pc = currentPlayer s"
    "getValidMoves s fromRow fromCol = Inr (moves, b')"
    "hasMove moves toRow toCol"
    "checkGameEnd (applyMove (s\<lparr>board := b'\<rparr>) pt pc fromRow fromCol toRow toCol) = Inr s'"
  using assms
  by (auto simp: makeMove_def split: if_splits cell.splits sum.splits prod.splits)

lemma getValidMoves_filtered:
  assumes "getValidMoves s row col = Inr (moves, b')"
    and "at (board s) row col = Piece pt pc" "pc = currentPlayer s"
  obtains candidates where
    "pseudoMoves (board s) (enPassantTarget s) (castlingRights s) pt row col = Inr candidates"
    "filterMoves (board s) (enPassantTarget s) row col pc candidates = Inr (moves, b')"
  using assms
  by (auto simp: getValidMoves_def split: if_splits sum.splits)

lemma filterMoves_step:
  "filterMoves b ep row col pc ((toRow, toCol) # rest) =
     (case at b row col of
        Piece mt mc \<Rightarrow>
          (case isInCheck (trial b ep row col toRow toCol) pc of
             Inl e \<Rightarrow> Inl e
           | Inr inCheck \<Rightarrow>
               (case filterMoves (undone b ep row col pc toRow toCol) ep row col pc rest of
                  Inl e \<Rightarrow> Inl e
                | Inr (kept, b') \<Rightarrow> Inr (if inCheck then kept else (toRow, toCol) # kept, b')))
      | _ \<Rightarrow> Inl TypeError)"
  by (auto simp: trial_def undone_def isPawn_def Let_def split: cell.splits sum.splits)

lemma filterMoves_subset:
  "filterMoves b ep row col pc candidates = Inr (kept, b') \<Longrightarrow> set kept \<subseteq> set candidates"
proof (induction candidates arbitrary: b kept b')
  case Nil
  then show ?case by simp
next
  case (Cons m candidates)
  obtain toRow toCol where m: "m = (toRow, toCol)" by (cases m)
  from Cons.prems obtain rest where
    "filterMoves (undone b ep row col pc toRow toCol) ep row col pc candidates = Inr (rest, b')"
    "set kept \<subseteq> insert m (set rest)"
    unfolding m filterMoves_step
    by (auto split: cell.splits sum.splits prod.splits if_splits)
  with Cons.IH show ?case by fastforce
qed

lemma isInCheckmate_fields:
  "isInCheckmate s c = Inr (x, s') \<Longrightarrow>
   gameFields s' = gameFields s \<and> gameOver s' = gameOver s \<and> gameResult s' = gameResult s"
  by (auto simp: isInCheckmate_def hasLegalMoves_def
      split: sum.splits bool.splits prod.splits dest: hasLegalScan_fields)

lemma isInStalemate_fields:
  "isInStalemate s c = Inr (x, s') \<Longrightarrow>
   gameFields s' = gameFields s \<and> gameOver s' = gameOver s \<and> gameResult s' = gameResult s"
  by (auto simp: isInStalemate_def hasLegalMoves_def
      split: sum.splits bool.splits prod.splits dest: hasLegalScan_fields)

lemma checkGameEnd_fields:
  assumes "checkGameEnd m = Inr s'"
  shows "gameFields s' = gameFields m"
  using assms
  by (auto simp: checkGameEnd_def Let_def
      split: sum.splits prod.splits bool.splits if_splits
      dest!: isInCheckmate_fields isInStalemate_fields)

lemma getPawnMoves_mem:
  assumes "getPawnMoves b ep row col = Inr candidates"
    and "at b row col = Piece pt pc"
    and "(toRow, toCol) \<in> set candidates"
  shows "toRow = row + direction pc \<and> toCol = col \<and> at b toRow toCol = Null
       \<or> toRow = row + 2 * direction pc \<and> toCol = col \<and> row = (if pc = White then 6 else 1)
       \<or> toRow = row + direction pc \<and> (toCol = col - 1 \<or> toCol = col + 1)
          \<and> (\<exists>t c. at b toRow toCol = Piece t c \<and> c \<noteq> pc)
       \<or> ep = Some (toRow, toCol) \<and> row = (if pc = White then 3 else 4)
          \<and> \<bar>col - toCol\<bar> = 1 \<and> toRow = row + direction pc"
proof -
  define d where "d = direction pc"
  define forward where "forward =
     (if isWithinBoard (row + d) col \<and> at b (row + d) col = Null
      then (row + d, col) #
           (if row = (if pc = White then 6 else 1) \<and> at b (row + 2 * d) col = Null
            then [(row + 2 * d, col)] else [])
      else [])"
  define capture where "capture = (\<lambda>offset.
     if isWithinBoard (row + d) (col + offset)
     then (case at b (row + d) (col + offset) of
             Piece t c \<Rightarrow> if c \<noteq> pc then [(row + d, col + offset)] else []
           | _ \<Rightarrow> [])
     else [])"
  define passing where "passing =
     (case ep of
        Some (epRow, epCol) \<Rightarrow>
          if row = (if pc = White then 3 else 4) \<and> \<bar>col - epCol\<bar> = 1 \<and> epRow = row + d
          then [(epRow, epCol)] else []
      | None \<Rightarrow> [])"
  have "getPawnMoves b ep row col = Inr (forward @ capture (- 1) @ capture 1 @ passing)"
    unfolding getPawnMoves_def assms(2) forward_def capture_def passing_def d_def
    by (simp only: cell.case Let_def list.map concat.simps append_Nil2 append_assoc simp_thms)
  with assms(1) have "candidates = forward @ capture (- 1) @ capture 1 @ passing"
    by simp
  with assms(3) consider "(toRow, toCol) \<in> set forward" | "(toRow, toCol) \<in> set (capture (- 1))"
    | "(toRow, toCol) \<in> set (capture 1)" | "(toRow, toCol) \<in> set passing"
    by auto
  moreover have cap: "toRow = row + d \<and> toCol = col + k
      \<and> (\<exists>t c. at b toRow toCol = Piece t c \<and> c \<noteq> pc)"
    if "(toRow, toCol) \<in> set (capture k)" for k
  proof (cases "isWithinBoard (row + d) (col + k)")
    case False
    with that show ?thesis by (simp add: capture_def)
  next
    case True
    with that show ?thesis
      by (cases "at b (row + d) (col + k)") (auto simp: capture_def split: if_splits)
  qed
  ultimately show ?thesis
  proof cases
    case 1
    then show ?thesis
      by (auto simp: forward_def d_def split: if_splits)
  next
    case 2
    from cap [OF this] show ?thesis
      by (auto simp: d_def)
  next
    case 3
    from cap [OF this] show ?thesis
      by (auto simp: d_def)
  next
    case 4
    then show ?thesis
      by (auto simp: passing_def d_def split: if_splits option.splits)
  qed
qed

lemma pawn_two_rows:
  assumes "getPawnMoves b ep row col = Inr candidates"
    and "at b row col = Piece pt pc"
    and "(toRow, toCol) \<in> set candidates" "\<bar>toRow - row\<bar> = 2"
  shows "toCol = col \<and> toRow = row + 2 * direction pc
         \<and> row = (if pc = White then 6 else 1)"
  using getPawnMoves_mem [OF assms(1-3)] assms(4)
  by (auto simp: direction_def split: if_splits)

section \<open>The en passant target\<close>

lemma pawnOrClock_ep:
  "enPassantTarget (fst (pawnOrClock s e pt pc cap fromRow fromCol toRow toCol))
   = (if pt = Pawn \<and> \<bar>toRow - fromRow\<bar> = 2
      then Some ((fromRow + toRow) div 2, fromCol) else None)"
  by (simp add: pawnOrClock_def Let_def)

lemma kingCastling_ep:
  "enPassantTarget (fst (kingCastling s e pt pc fromCol toCol)) = enPassantTarget s"
  by (simp add: kingCastling_def Let_def)

lemma rookRights_ep:
  "enPassantTarget (rookRights s pt pc cap fromRow fromCol toCol) = enPassantTarget s"
  by (simp add: rookRights_def Let_def)

lemma applyMove_enPassantTarget:
  "enPassantTarget (applyMove s pt pc fromRow fromCol toRow toCol)
   = (if pt = Pawn \<and> \<bar>toRow - fromRow\<bar> = 2
      then Some ((fromRow + toRow) div 2, fromCol) else None)"
  by (simp add: applyMove_def Let_def case_prod_beta pawnOrClock_ep kingCastling_ep rookRights_ep)

text \<open>
  C9.  After a successful \<open>makeMove\<close> the en passant target is set exactly when
  the piece moved is a pawn and the move changes the row by two; the move is
  then the pawn's straight double step, and the target is the square it
  passed over.  In every other case the target is \<open>null\<close>, whatever it was
  before: a target lives for one ply.
\<close>

theorem en_passant_target_after_move:
  assumes "makeMove s fromRow fromCol toRow toCol = Inr (True, s')"
  shows "\<exists>pt pc. at (board s) fromRow fromCol = Piece pt pc
           \<and> (if pt = Pawn \<and> \<bar>toRow - fromRow\<bar> = 2
               then toCol = fromCol \<and> toRow = fromRow + 2 * direction pc
                    \<and> enPassantTarget s' = Some (fromRow + direction pc, fromCol)
               else enPassantTarget s' = None)"
proof -
  from assms obtain pt pc moves b' where
    piece: "at (board s) fromRow fromCol = Piece pt pc" and turn: "pc = currentPlayer s"
    and valid: "getValidMoves s fromRow fromCol = Inr (moves, b')"
    and target: "hasMove moves toRow toCol"
    and final: "checkGameEnd (applyMove (s\<lparr>board := b'\<rparr>) pt pc fromRow fromCol toRow toCol)
                = Inr s'"
    by (rule makeMove_accepted)
  let ?m = "applyMove (s\<lparr>board := b'\<rparr>) pt pc fromRow fromCol toRow toCol"
  from checkGameEnd_fields [OF final] have "enPassantTarget s' = enPassantTarget ?m"
    by (simp add: gameFields_def)
  then have ep: "enPassantTarget s'
      = (if pt = Pawn \<and> \<bar>toRow - fromRow\<bar> = 2
         then Some ((fromRow + toRow) div 2, fromCol) else None)"
    by (simp only: applyMove_enPassantTarget)
  show ?thesis
  proof (cases "pt = Pawn \<and> \<bar>toRow - fromRow\<bar> = 2")
    case False
    with ep piece show ?thesis by auto
  next
    case True
    from getValidMoves_filtered [OF valid piece turn] obtain candidates where
      "pseudoMoves (board s) (enPassantTarget s) (castlingRights s) pt fromRow fromCol
       = Inr candidates"
      "filterMoves (board s) (enPassantTarget s) fromRow fromCol pc candidates = Inr (moves, b')"
      by blast
    with True target filterMoves_subset [of "board s" "enPassantTarget s" fromRow fromCol pc
        candidates moves b'] have
      "getPawnMoves (board s) (enPassantTarget s) fromRow fromCol = Inr candidates"
      "(toRow, toCol) \<in> set candidates"
      by (auto simp: pseudoMoves_def hasMove_iff)
    from pawn_two_rows [OF this(1) piece this(2)] True
    have step: "toCol = fromCol" "toRow = fromRow + 2 * direction pc"
      by auto
    then have "(fromRow + toRow) div 2 = fromRow + direction pc"
      by simp
    with True ep step piece show ?thesis by auto
  qed
qed

section \<open>The side to move after a move\<close>

lemma pawnOrClock_player:
  "currentPlayer (fst (pawnOrClock s e pt pc cap fromRow fromCol toRow toCol)) = currentPlayer s"
  by (simp add: pawnOrClock_def Let_def)

lemma kingCastling_player:
  "currentPlayer (fst (kingCastling s e pt pc fromCol toCol)) = currentPlayer s"
  by (simp add: kingCastling_def Let_def)

lemma rookRights_player:
  "currentPlayer (rookRights s pt pc cap fromRow fromCol toCol) = currentPlayer s"
  by (simp add: rookRights_def Let_def)

lemma applyMove_currentPlayer:
  "currentPlayer (applyMove s pt pc fromRow fromCol toRow toCol) = opponent (currentPlayer s)"
  by (simp add: applyMove_def Let_def case_prod_beta opponent_def
      pawnOrClock_player kingCastling_player rookRights_player)

section \<open>Moves after the end of the game\<close>


section \<open>Calls that are refused\<close>

subsection \<open>The filter puts the board back\<close>

lemma wr_comm:
  assumes "r \<noteq> r' \<or> k \<noteq> k'"
  shows "wr (wr b r k x) r' k' y = wr (wr b r' k' y) r k x"
proof (cases "onGrid r k")
  case False
  then show ?thesis
    using assms by (cases "onGrid r' k'") (auto simp: wr_def fun_eq_iff)
next
  case on: True
  show ?thesis
  proof (cases "onGrid r' k'")
    case False
    with on show ?thesis by (simp add: wr_def)
  next
    case True
    from on obtain c where k: "k = Idx c" and rc: "0 \<le> r" "r < 8" "0 \<le> c" "c < 8"
      by (auto simp: onGrid_def isWithinBoard_def split: key.splits)
    from True obtain c' where k': "k' = Idx c'" and rc': "0 \<le> r'" "r' < 8" "0 \<le> c'" "c' < 8"
      by (auto simp: onGrid_def isWithinBoard_def split: key.splits)
    show ?thesis
    proof (cases "r = r'")
      case True
      with assms k k' have "c \<noteq> c'" by simp
      with True on rc show ?thesis
        by (simp add: wr_def k k' keyCol_def get8_set8 set8_set8 set8_comm [of c c'])
    next
      case False
      with on True rc rc' show ?thesis
        by (simp add: wr_def k k' keyCol_def get8_set8 set8_comm [of r r'])
    qed
  qed
qed

lemma undone_same:
  assumes "isPawn (at b row col) \<and> isEnPassantTarget ep toRow toCol \<Longrightarrow>
           at b row toCol = Piece Pawn (opponent pc) \<and> toCol \<noteq> col \<and> toRow \<noteq> row"
  shows "undone b ep row col pc toRow toCol = b"
proof (cases "isPawn (at b row col) \<and> isEnPassantTarget ep toRow toCol")
  case False
  let ?M = "at b row col" and ?O = "at b toRow toCol"
  have "wr (wr (wr b toRow (Idx toCol) ?M) row (Idx col) ?M) toRow (Idx toCol) ?O = b"
  proof (cases "toRow = row \<and> toCol = col")
    case True
    then show ?thesis by (simp add: wr_wr_same wr_same)
  next
    case False
    then have "wr (wr b toRow (Idx toCol) ?M) row (Idx col) ?M
               = wr (wr b row (Idx col) ?M) toRow (Idx toCol) ?M"
      by (intro wr_comm) auto
    then show ?thesis by (simp add: wr_wr_same wr_same)
  qed
  then show ?thesis
    unfolding undone_def trial_def Let_def if_not_P [OF False] wr_wr_same .
next
  case True
  with assms have cap: "at b row toCol = Piece Pawn (opponent pc)"
    and ne: "toCol \<noteq> col" "toRow \<noteq> row"
    by auto
  let ?M = "at b row col" and ?O = "at b toRow toCol"
  let ?X = "wr (wr b toRow (Idx toCol) ?M) row (Idx col) Null"
  have 1: "wr (wr ?X row (Idx toCol) Null) row (Idx col) ?M
           = wr (wr ?X row (Idx col) ?M) row (Idx toCol) Null"
    using ne by (intro wr_comm) auto
  have 2: "wr ?X row (Idx col) ?M = wr b toRow (Idx toCol) ?M"
  proof -
    have "wr ?X row (Idx col) ?M = wr (wr b toRow (Idx toCol) ?M) row (Idx col) ?M"
      by (simp add: wr_wr_same)
    also have "\<dots> = wr (wr b row (Idx col) ?M) toRow (Idx toCol) ?M"
      using ne by (intro wr_comm) auto
    finally show ?thesis by (simp add: wr_same)
  qed
  have 3: "wr (wr (wr b toRow (Idx toCol) ?M) row (Idx toCol) Null) toRow (Idx toCol) ?O
           = wr (wr (wr b toRow (Idx toCol) ?M) toRow (Idx toCol) ?O) row (Idx toCol) Null"
    using ne by (intro wr_comm) auto
  have "wr (wr (wr (wr ?X row (Idx toCol) Null) row (Idx col) ?M) toRow (Idx toCol) ?O)
           row (Idx toCol) (Piece Pawn (opponent pc)) = b"
    unfolding 1 2 3 using cap by (simp add: wr_wr_same wr_same)
  then show ?thesis
    unfolding undone_def trial_def Let_def if_P [OF True] .
qed


lemma filterMoves_board:
  assumes "filterMoves b ep row col pc cands = Inr (kept, b')"
    and "\<And>toRow toCol. (toRow, toCol) \<in> set cands \<Longrightarrow>
           isPawn (at b row col) \<and> isEnPassantTarget ep toRow toCol \<Longrightarrow>
           at b row toCol = Piece Pawn (opponent pc) \<and> toCol \<noteq> col \<and> toRow \<noteq> row"
  shows "b' = b"
  using assms
proof (induction cands arbitrary: kept)
  case Nil
  then show ?case by simp
next
  case (Cons m cands)
  obtain toRow toCol where m: "m = (toRow, toCol)" by (cases m)
  have same: "undone b ep row col pc toRow toCol = b"
    by (rule undone_same) (rule Cons.prems(2), simp add: m)
  from Cons.prems(1) obtain rest where
    "filterMoves b ep row col pc cands = Inr (rest, b')"
    unfolding m filterMoves_step same
    by (auto split: cell.splits sum.splits prod.splits)
  moreover have "at b row toCol = Piece Pawn (opponent pc) \<and> toCol \<noteq> col \<and> toRow \<noteq> row"
    if "(toRow, toCol) \<in> set cands" "isPawn (at b row col) \<and> isEnPassantTarget ep toRow toCol"
    for toRow toCol
  proof -
    from that(1) have "(toRow, toCol) \<in> set (m # cands)"
      by simp
    from Cons.prems(2) [OF this that(2)] show ?thesis .
  qed
  ultimately show ?case
    by (rule Cons.IH)
qed

lemma pawn_candidate_good:
  assumes cands: "getPawnMoves (board s) (enPassantTarget s) row col = Inr cands"
    and piece: "at (board s) row col = Piece Pawn (currentPlayer s)"
    and inv: "epConsistent s"
    and mem: "(toRow, toCol) \<in> set cands"
    and target: "isEnPassantTarget (enPassantTarget s) toRow toCol"
  shows "at (board s) row toCol = Piece Pawn (opponent (currentPlayer s))
         \<and> toCol \<noteq> col \<and> toRow \<noteq> row"
proof -
  from target have ep: "enPassantTarget s = Some (toRow, toCol)"
    by (auto simp: isEnPassantTarget_def split: option.splits)
  with inv have row: "toRow = (if currentPlayer s = White then 2 else 5)"
    and pawn: "at (board s) (if currentPlayer s = White then 3 else 4) toCol
               = Piece Pawn (opponent (currentPlayer s))"
    by (simp_all add: epConsistent_def)
  have other: "opponent (currentPlayer s) \<noteq> currentPlayer s"
    by (simp add: opponent_def)
  from getPawnMoves_mem [OF cands piece mem] row pawn piece other show ?thesis
    by (auto simp: direction_def split: if_splits)
qed

lemma getValidMoves_board:
  assumes inv: "epConsistent s" and valid: "getValidMoves s row col = Inr (moves, b')"
  shows "b' = board s"
proof (cases "at (board s) row col")
  case (Piece pt pc)
  show ?thesis
  proof (cases "pc = currentPlayer s")
    case False
    with valid Piece show ?thesis
      by (simp add: getValidMoves_def split: if_splits)
  next
    case True
    from getValidMoves_filtered [OF valid Piece True] obtain cands where
      pseudo: "pseudoMoves (board s) (enPassantTarget s) (castlingRights s) pt row col = Inr cands"
      and filtered: "filterMoves (board s) (enPassantTarget s) row col pc cands = Inr (moves, b')"
      by blast
    from filtered show ?thesis
    proof (rule filterMoves_board)
      fix toRow toCol
      assume mem: "(toRow, toCol) \<in> set cands"
        and ep: "isPawn (at (board s) row col) \<and> isEnPassantTarget (enPassantTarget s) toRow toCol"
      with Piece have pt: "pt = Pawn"
        by (simp add: isPawn_def)
      with pseudo have "getPawnMoves (board s) (enPassantTarget s) row col = Inr cands"
        by (simp add: pseudoMoves_def)
      from pawn_candidate_good [OF this _ inv mem] Piece pt True ep
      show "at (board s) row toCol = Piece Pawn (opponent pc) \<and> toCol \<noteq> col \<and> toRow \<noteq> row"
        by simp
    qed
  qed
qed (use valid in \<open>simp_all add: getValidMoves_def split: if_splits\<close>)

lemma hasLegalScan_same:
  "epConsistent s \<Longrightarrow> hasLegalScan s color r c = Inr (x, s') \<Longrightarrow> s' = s"
proof (induction s color r c arbitrary: x s' rule: hasLegalScan.induct)
  case (1 s color r c)
  have keep: "s\<lparr>board := b'\<rparr> = s" if "getValidMoves s r c = Inr (moves, b')" for moves b'
    using getValidMoves_board [OF "1.prems"(1) that] by simp
  from "1.prems" "1.IH" keep show ?case
    by (subst (asm) hasLegalScan.simps)
       (auto split: if_splits cell.splits sum.splits prod.splits)
qed

lemma checkGameEnd_board:
  assumes "epConsistent m" "checkGameEnd m = Inr s'"
  shows "board s' = board m"
proof -
  have mate: "s1 = m" if "isInCheckmate m c = Inr (x, s1)" for c x s1
    using that assms(1)
    by (auto simp: isInCheckmate_def hasLegalMoves_def
        split: sum.splits bool.splits prod.splits dest: hasLegalScan_same)
  have stale: "s2 = m" if "isInStalemate m c = Inr (x, s2)" for c x s2
    using that assms(1)
    by (auto simp: isInStalemate_def hasLegalMoves_def
        split: sum.splits bool.splits prod.splits dest: hasLegalScan_same)
  from assms(2) show ?thesis
    by (auto simp: checkGameEnd_def Let_def
        split: sum.splits prod.splits bool.splits if_splits dest!: mate stale)
qed

subsection \<open>The en passant target has its pawn\<close>

lemma kingCastling_other:
  "pt \<noteq> King \<Longrightarrow> kingCastling s e pt pc fromCol toCol = (s, e)"
  by (simp add: kingCastling_def)

lemma rookRights_board:
  "board (rookRights s pt pc cap fromRow fromCol toCol) = board s"
  by (simp add: rookRights_def Let_def)

lemma pawnOrClock_cell:
  assumes "toRow \<noteq> fromRow" "toRow \<noteq> 0" "toRow \<noteq> 7"
  shows "at (board (fst (pawnOrClock s e Pawn pc cap fromRow fromCol toRow toCol))) toRow toCol
         = at (board s) toRow toCol"
  using assms by (simp add: pawnOrClock_def Let_def rd_wr)

lemma applyMove_pawn_cell:
  assumes "toRow \<noteq> fromRow" "toRow \<noteq> 0" "toRow \<noteq> 7"
  shows "at (board (applyMove s Pawn pc fromRow fromCol toRow toCol)) toRow toCol = Piece Pawn pc"
proof -
  let ?s1 = "s\<lparr>board := wr (wr (board s) toRow (Idx toCol) (Piece Pawn pc)) fromRow (Idx fromCol) Null\<rparr>"
  have "at (board ?s1) toRow toCol = Piece Pawn pc"
    using assms by (simp add: rd_wr)
  with pawnOrClock_cell [OF assms, of ?s1] show ?thesis
    by (simp add: applyMove_def Let_def case_prod_beta kingCastling_other rookRights_board
        del: chess.simps)
qed

lemma initial_no_target:
  "initializeChess960 d1 d2 d3 d4 d5 = Some s \<Longrightarrow> enPassantTarget s = None"
  by (auto simp: initializeChess960_def split: option.splits)

lemma epConsistentI:
  assumes "enPassantTarget s = Some (r, c)"
    "r = (if currentPlayer s = White then 2 else 5)"
    "at (board s) (if currentPlayer s = White then 3 else 4) c
     = Piece Pawn (opponent (currentPlayer s))"
  shows "epConsistent s"
  using assms by (simp add: epConsistent_def)

lemma applyMove_epConsistent:
  assumes piece: "at (board s) fromRow fromCol = Piece pt pc" and turn: "pc = currentPlayer s"
    and valid: "getValidMoves s fromRow fromCol = Inr (moves, b')"
    and target: "hasMove moves toRow toCol"
  shows "epConsistent (applyMove (s\<lparr>board := b'\<rparr>) pt pc fromRow fromCol toRow toCol)"
proof (cases "pt = Pawn \<and> \<bar>toRow - fromRow\<bar> = 2")
  case False
  then have "enPassantTarget (applyMove (s\<lparr>board := b'\<rparr>) pt pc fromRow fromCol toRow toCol)
             = None"
    by (simp only: applyMove_enPassantTarget if_False)
  then show ?thesis
    by (simp add: epConsistent_def)
next
  case True
  from getValidMoves_filtered [OF valid piece turn] obtain candidates where
    "pseudoMoves (board s) (enPassantTarget s) (castlingRights s) pt fromRow fromCol
     = Inr candidates"
    and "filterMoves (board s) (enPassantTarget s) fromRow fromCol pc candidates = Inr (moves, b')"
    by blast
  with True target
    filterMoves_subset [of "board s" "enPassantTarget s" fromRow fromCol pc candidates moves b']
  have "getPawnMoves (board s) (enPassantTarget s) fromRow fromCol = Inr candidates"
    "(toRow, toCol) \<in> set candidates"
    by (auto simp: pseudoMoves_def hasMove_iff)
  from pawn_two_rows [OF this(1) piece this(2)] True
  have step: "toCol = fromCol" "toRow = fromRow + 2 * direction pc"
    "fromRow = (if pc = White then 6 else 1)"
    by simp_all
  from True have pt: "pt = Pawn"
    by simp
  define m where "m = applyMove (s\<lparr>board := b'\<rparr>) Pawn pc fromRow fromCol toRow toCol"
  from step have "toRow \<noteq> fromRow" "toRow \<noteq> 0" "toRow \<noteq> 7"
    by (auto simp: direction_def split: if_splits)
  then have cell: "at (board m) toRow toCol = Piece Pawn pc"
    unfolding m_def by (rule applyMove_pawn_cell)
  have player: "currentPlayer m = opponent pc"
    by (simp add: m_def applyMove_currentPlayer turn)
  have ep: "enPassantTarget m = Some ((fromRow + toRow) div 2, fromCol)"
    using True by (simp add: m_def applyMove_enPassantTarget)
  have "epConsistent m"
  proof (rule epConsistentI [OF ep])
    from step show "(fromRow + toRow) div 2 = (if currentPlayer m = White then 2 else 5)"
      by (cases pc) (simp_all add: player direction_def opponent_def)
    from step cell
    show "at (board m) (if currentPlayer m = White then 3 else 4) fromCol
          = Piece Pawn (opponent (currentPlayer m))"
      by (cases pc) (simp_all add: player direction_def opponent_def)
  qed
  then show ?thesis
    by (simp only: m_def pt)
qed

lemma epConsistent_same:
  assumes "epConsistent m" "board s' = board m" "currentPlayer s' = currentPlayer m"
    "enPassantTarget s' = enPassantTarget m"
  shows "epConsistent s'"
  using assms by (auto simp: epConsistent_def split: option.splits)

lemma reachable_epConsistent: "reachable s \<Longrightarrow> epConsistent s"
proof (induction rule: reachable.induct)
  case (start d1 d2 d3 d4 d5 s)
  then show ?case
    by (simp add: epConsistent_def initial_no_target)
next
  case (move s fromRow fromCol toRow toCol s')
  from move.hyps(2) obtain pt pc moves b' where
    piece: "at (board s) fromRow fromCol = Piece pt pc" and turn: "pc = currentPlayer s"
    and valid: "getValidMoves s fromRow fromCol = Inr (moves, b')"
    and target: "hasMove moves toRow toCol"
    and final: "checkGameEnd (applyMove (s\<lparr>board := b'\<rparr>) pt pc fromRow fromCol toRow toCol)
                = Inr s'"
    by (rule makeMove_accepted)
  define m where "m = applyMove (s\<lparr>board := b'\<rparr>) pt pc fromRow fromCol toRow toCol"
  have inv: "epConsistent m"
    unfolding m_def using piece turn valid target by (rule applyMove_epConsistent)
  from final have final: "checkGameEnd m = Inr s'"
    by (simp only: m_def)
  from checkGameEnd_fields [OF final]
  have "currentPlayer s' = currentPlayer m" "enPassantTarget s' = enPassantTarget m"
    by (simp_all add: gameFields_def)
  with inv checkGameEnd_board [OF inv final] show ?case
    by (rule epConsistent_same)
qed

text \<open>
  In a position reached by play, a call of \<open>makeMove\<close> that returns \<open>false\<close> has
  left the position as it was, field by field and the board cell by cell.
\<close>

lemma refused_call_changes_nothing:
  assumes "reachable s"
  shows "(rowExists fromRow
          \<and> (case at (board s) fromRow fromCol of
                Piece pt pc \<Rightarrow> pc \<noteq> currentPlayer s
              | _ \<Rightarrow> True)
          \<longrightarrow> makeMove s fromRow fromCol toRow toCol = Inr (False, s))
       \<and> (\<forall>moves b. getValidMoves s fromRow fromCol = Inr (moves, b)
                      \<and> \<not> hasMove moves toRow toCol
          \<longrightarrow> makeMove s fromRow fromCol toRow toCol = Inr (False, s))
       \<and> (\<forall>ok s'. makeMove s fromRow fromCol toRow toCol = Inr (ok, s') \<and> s' \<noteq> s \<longrightarrow> ok)"
proof -
  from assms have inv: "epConsistent s"
    by (rule reachable_epConsistent)
  have keep: "s\<lparr>board := b\<rparr> = s" if "getValidMoves s fromRow fromCol = Inr (moves, b)" for moves b
    using getValidMoves_board [OF inv that] by simp
  have first: "makeMove s fromRow fromCol toRow toCol = Inr (False, s)"
    if "rowExists fromRow"
      "case at (board s) fromRow fromCol of Piece pt pc \<Rightarrow> pc \<noteq> currentPlayer s | _ \<Rightarrow> True"
    using that by (simp add: makeMove_def split: cell.splits)
  have second: "makeMove s fromRow fromCol toRow toCol = Inr (False, s)"
    if "getValidMoves s fromRow fromCol = Inr (moves, b)" "\<not> hasMove moves toRow toCol"
    for moves b
    using that keep [OF that(1)]
    by (auto simp: makeMove_def getValidMoves_def split: cell.splits if_splits)
  have third: ok
    if "makeMove s fromRow fromCol toRow toCol = Inr (ok, s')" "s' \<noteq> s" for ok s'
    using that keep
    by (auto simp: makeMove_def split: cell.splits if_splits sum.splits prod.splits)
  from first second third show ?thesis
    by blast
qed

subsection \<open>A call that is accepted and throws\<close>

text \<open>
  C6.  The claim fails on the code.  In the game on the back rank \<open>RNBQKBRN\<close>
  (draws 1, 2, 2, 1, 3) after 1. e3 a6 2. Be2 a5, \<open>getValidMoves(7, 4)\<close> offers
  the castling move \<open>[7, 6]\<close>.  \<open>makeMove(7, 4, 7, 6)\<close> accepts it and writes the
  position: the king stands on g1 where the rook was, f1 holds \<open>undefined\<close>,
  the move is in the history and Black is to move.  Its last step,
  \<open>checkGameEnd\<close>, throws a TypeError on that position, so the call has
  changed the position and has not returned \<open>true\<close>.
\<close>

theorem accepted_move_throws_after_writing:
  "reachable rkReady
   \<and> getValidMoves rkReady 7 4 = Inr ([(7, 5), (7, 6)], board rkReady)
   \<and> makeMove rkReady 7 4 7 6 = Inl TypeError
   \<and> checkGameEnd (applyMove rkReady King White 7 4 7 6) = Inl TypeError
   \<and> at (board rkReady) 7 4 = Piece King White
   \<and> at (board rkReady) 7 5 = Null
   \<and> at (board rkReady) 7 6 = Piece Rook White
   \<and> currentPlayer rkReady = White
   \<and> length (moveHistory rkReady) = 4
   \<and> at (board (applyMove rkReady King White 7 4 7 6)) 7 4 = Null
   \<and> at (board (applyMove rkReady King White 7 4 7 6)) 7 5 = Undefined
   \<and> at (board (applyMove rkReady King White 7 4 7 6)) 7 6 = Piece King White
   \<and> currentPlayer (applyMove rkReady King White 7 4 7 6) = Black
   \<and> length (moveHistory (applyMove rkReady King White 7 4 7 6)) = 5"
  using rkReady_reachable rk_valid rk_throws rk_end rk_squares rk_applied
  by (simp only: rk_board simp_thms)

section \<open>The end of the game\<close>

subsection \<open>The scan for a legal move\<close>

lemma scan_here:
  fixes r c :: int
  assumes "r < 8" "c < 8" "0 \<le> c"
  shows "(\<exists>r' c'. r' < 8 \<and> c' < 8 \<and> (r' = r \<and> c \<le> c' \<or> r < r' \<and> 0 \<le> c') \<and> Q r' c')
         \<longleftrightarrow> Q r c
             \<or> (\<exists>r' c'. r' < 8 \<and> c' < 8 \<and> (r' = r \<and> c + 1 \<le> c' \<or> r < r' \<and> 0 \<le> c') \<and> Q r' c')"
proof -
  have "c \<le> c' \<longleftrightarrow> c' = c \<or> c + 1 \<le> c'" for c'
    by auto
  with assms show ?thesis
    by (simp only:) blast
qed

lemma scan_next_row:
  fixes r c :: int
  assumes "\<not> c < 8"
  shows "(\<exists>r' c'. r' < 8 \<and> c' < 8 \<and> (r' = r \<and> c \<le> c' \<or> r < r' \<and> 0 \<le> c') \<and> Q r' c')
         \<longleftrightarrow> (\<exists>r' c'. r' < 8 \<and> c' < 8 \<and> (r' = r + 1 \<and> 0 \<le> c' \<or> r + 1 < r' \<and> 0 \<le> c') \<and> Q r' c')"
proof -
  have "r < r' \<longleftrightarrow> r' = r + 1 \<or> r + 1 < r'" for r'
    by auto
  moreover have "\<not> (c' < 8 \<and> c \<le> c')" for c'
    using assms by auto
  ultimately show ?thesis
    by (simp only:) blast
qed

lemma scan_end:
  fixes r c :: int
  assumes "\<not> r < 8"
  shows "\<not> (\<exists>r' c'. r' < 8 \<and> c' < 8 \<and> (r' = r \<and> c \<le> c' \<or> r < r' \<and> 0 \<le> c') \<and> Q r' c')"
  using assms by auto

lemma ownValidMove_none:
  "(\<And>t pc. at (board s) r c = Piece t pc \<Longrightarrow> pc \<noteq> currentPlayer s) \<Longrightarrow> \<not> ownValidMove s r c"
  by (auto simp: ownValidMove_def split: cell.splits)

lemma ownValidMove_piece:
  "at (board s) r c = Piece t (currentPlayer s) \<Longrightarrow> getValidMoves s r c = Inr (moves, b) \<Longrightarrow>
   ownValidMove s r c \<longleftrightarrow> moves \<noteq> []"
  by (simp add: ownValidMove_def)

lemma hasLegalScan_iff:
  "epConsistent s \<Longrightarrow> color = currentPlayer s \<Longrightarrow> hasLegalScan s color r c = Inr (x, s') \<Longrightarrow>
   0 \<le> c \<Longrightarrow>
   x \<longleftrightarrow> (\<exists>r' c'. r' < 8 \<and> c' < 8 \<and> (r' = r \<and> c \<le> c' \<or> r < r' \<and> 0 \<le> c')
                    \<and> ownValidMove s r' c')"
proof (induction s color r c arbitrary: x s' rule: hasLegalScan.induct)
  case (1 s color r c)
  note inv = "1.prems"(1) and color = "1.prems"(2) and run = "1.prems"(3) and c0 = "1.prems"(4)
  let ?P = "\<lambda>r c. \<exists>r' c'. r' < 8 \<and> c' < 8 \<and> (r' = r \<and> c \<le> c' \<or> r < r' \<and> 0 \<le> c')
                    \<and> ownValidMove s r' c'"
  show ?case
  proof (cases "r < 8")
    case False
    with run have "\<not> x"
      by (subst (asm) hasLegalScan.simps) simp
    with scan_end [OF False, where Q = "ownValidMove s" and c = c] show ?thesis
      by simp
  next
    case row: True
    show ?thesis
    proof (cases "c < 8")
      case False
      with row run have "hasLegalScan s color (r + 1) 0 = Inr (x, s')"
        by (subst (asm) hasLegalScan.simps) simp
      with "1.IH"(5) [OF row False inv color] have "x \<longleftrightarrow> ?P (r + 1) 0"
        by simp
      with scan_next_row [OF False, where Q = "ownValidMove s" and r = r] show ?thesis
        by simp
    next
      case col: True
      have next_sq: "x \<longleftrightarrow> ?P r (c + 1)" if "hasLegalScan s color r (c + 1) = Inr (x, s')"
          and "\<not> ownValidMove s r c"
          and "\<And>x s'. hasLegalScan s color r (c + 1) = Inr (x, s') \<Longrightarrow> x \<longleftrightarrow> ?P r (c + 1)"
        using that by blast
      show ?thesis
      proof (cases "at (board s) r c")
        case Null
        with row col run have "hasLegalScan s color r (c + 1) = Inr (x, s')"
          by (subst (asm) hasLegalScan.simps) simp
        with "1.IH"(1) [OF row col Null inv color] c0 have "x \<longleftrightarrow> ?P r (c + 1)"
          by simp
        moreover from Null have "\<not> ownValidMove s r c"
          by (simp add: ownValidMove_def)
        ultimately show ?thesis
          using scan_here [OF row col c0, where Q = "ownValidMove s"] by simp
      next
        case Undefined
        with row col run have "hasLegalScan s color r (c + 1) = Inr (x, s')"
          by (subst (asm) hasLegalScan.simps) simp
        with "1.IH"(2) [OF row col Undefined inv color] c0 have "x \<longleftrightarrow> ?P r (c + 1)"
          by simp
        moreover from Undefined have "\<not> ownValidMove s r c"
          by (simp add: ownValidMove_def)
        ultimately show ?thesis
          using scan_here [OF row col c0, where Q = "ownValidMove s"] by simp
      next
        case (Piece t pc)
        show ?thesis
        proof (cases "pc = color")
          case False
          with Piece row col run have "hasLegalScan s color r (c + 1) = Inr (x, s')"
            by (subst (asm) hasLegalScan.simps) simp
          with "1.IH"(4) [OF row col Piece False inv color] c0 have "x \<longleftrightarrow> ?P r (c + 1)"
            by simp
          moreover from Piece False color have "\<not> ownValidMove s r c"
            by (simp add: ownValidMove_def)
          ultimately show ?thesis
            using scan_here [OF row col c0, where Q = "ownValidMove s"] by simp
        next
          case True
          from run row col Piece True obtain moves b' where
            valid: "getValidMoves s r c = Inr (moves, b')"
            by (subst (asm) hasLegalScan.simps) (auto split: sum.splits)
          from getValidMoves_board [OF inv valid] have keep: "s\<lparr>board := b'\<rparr> = s"
            by simp
          from Piece True color valid have own: "ownValidMove s r c \<longleftrightarrow> moves \<noteq> []"
            by (simp add: ownValidMove_def)
          show ?thesis
          proof (cases "moves = []")
            case False
            with run row col Piece True valid have x
              by (subst (asm) hasLegalScan.simps) simp
            with own False scan_here [OF row col c0, where Q = "ownValidMove s"] show ?thesis
              by simp
          next
            case empty: True
            with run row col Piece True valid keep
            have "hasLegalScan s color r (c + 1) = Inr (x, s')"
              by (subst (asm) hasLegalScan.simps) simp
            moreover from empty have "\<not> 0 < length moves"
              by simp
            from "1.IH"(3) [OF row col Piece True valid refl this, of x s'] keep inv color c0
            have "hasLegalScan s color r (c + 1) = Inr (x, s') \<Longrightarrow> x \<longleftrightarrow> ?P r (c + 1)"
              by simp
            ultimately have "x \<longleftrightarrow> ?P r (c + 1)"
              by blast
            with own empty scan_here [OF row col c0, where Q = "ownValidMove s"] show ?thesis
              by simp
          qed
        qed
      qed
    qed
  qed
qed

lemma hasValidMove_iff:
  "hasValidMove s \<longleftrightarrow>
     (\<exists>r' c'. r' < 8 \<and> c' < 8 \<and> (r' = 0 \<and> 0 \<le> c' \<or> 0 < r' \<and> 0 \<le> c') \<and> ownValidMove s r' c')"
proof -
  have "set idx8 = {i. 0 \<le> i \<and> i < 8}"
    by (auto simp: idx8_def)
  then have "hasValidMove s \<longleftrightarrow> (\<exists>r' c'. 0 \<le> r' \<and> r' < 8 \<and> 0 \<le> c' \<and> c' < 8 \<and> ownValidMove s r' c')"
    by (auto simp: hasValidMove_def list_ex_iff)
  also have "\<dots> \<longleftrightarrow> (\<exists>r' c'. r' < 8 \<and> c' < 8 \<and> (r' = 0 \<and> 0 \<le> c' \<or> 0 < r' \<and> 0 \<le> c')
                            \<and> ownValidMove s r' c')"
    by (metis order_le_less)
  finally show ?thesis .
qed

lemma hasLegalMoves_sem:
  assumes "epConsistent m" "hasLegalMoves m (currentPlayer m) = Inr (legal, s1)"
  shows "s1 = m \<and> (legal \<longleftrightarrow> hasValidMove m)"
proof -
  from assms(2) have run: "hasLegalScan m (currentPlayer m) 0 0 = Inr (legal, s1)"
    by (simp add: hasLegalMoves_def)
  from hasLegalScan_same [OF assms(1) run] have "s1 = m" .
  moreover from hasLegalScan_iff [OF assms(1) refl run] have "legal \<longleftrightarrow> hasValidMove m"
    by (simp only: hasValidMove_iff order_refl)
  ultimately show ?thesis ..
qed

lemma checkGameEnd_sem:
  assumes inv: "epConsistent m" and final: "checkGameEnd m = Inr s'"
  shows "\<exists>inCheck. isInCheck (board m) (currentPlayer m) = Inr inCheck
           \<and> s' = (if inCheck \<and> \<not> hasValidMove m
                   then m\<lparr>gameOver := True,
                          gameResult := Some (if currentPlayer m = White
                                              then ''Black wins'' else ''White wins'')\<rparr>
                   else if \<not> inCheck \<and> \<not> hasValidMove m
                   then m\<lparr>gameOver := True, gameResult := Some ''Stalemate''\<rparr>
                   else if halfMoveClock m \<ge> 100
                   then m\<lparr>gameOver := True, gameResult := Some ''Draw by fifty-move rule''\<rparr>
                   else m)"
proof (cases "isInCheck (board m) (currentPlayer m)")
  case (Inl e)
  with final show ?thesis
    by (simp add: checkGameEnd_def isInCheckmate_def)
next
  case (Inr inCheck)
  show ?thesis
  proof (cases "hasLegalMoves m (currentPlayer m)")
    case (Inl e)
    with final Inr show ?thesis
      by (cases inCheck) (simp_all add: checkGameEnd_def isInCheckmate_def isInStalemate_def)
  next
    case legal: (Inr q)
    obtain legal s1 where q: "q = (legal, s1)" by (cases q)
    from hasLegalMoves_sem [OF inv legal [unfolded q]]
    have same: "s1 = m" and sem: "legal \<longleftrightarrow> hasValidMove m"
      by simp_all
    note run = legal [unfolded q same]
    from final Inr run sem
    have "s' = (if inCheck \<and> \<not> hasValidMove m
                   then m\<lparr>gameOver := True,
                          gameResult := Some (if currentPlayer m = White
                                              then ''Black wins'' else ''White wins'')\<rparr>
                   else if \<not> inCheck \<and> \<not> hasValidMove m
                   then m\<lparr>gameOver := True, gameResult := Some ''Stalemate''\<rparr>
                   else if halfMoveClock m \<ge> 100
                   then m\<lparr>gameOver := True, gameResult := Some ''Draw by fifty-move rule''\<rparr>
                   else m)"
      by (cases inCheck; cases legal)
         (auto simp: checkGameEnd_def isInCheckmate_def isInStalemate_def split: if_splits)
    with Inr show ?thesis
      by blast
  qed
qed

text \<open>
  C8.  A successful \<open>makeMove\<close> ends with \<open>checkGameEnd\<close> on the position \<open>m\<close> it
  has written, in which the opponent of the side that moved is to move.  The
  position it leaves is \<open>m\<close> with the outcome of the first test that holds, in
  this order: checkmate (the side to move is in check and has no move), which
  names the other side as the winner; stalemate (it is not in check and has
  no move); a half-move clock of at least 100.  If none holds it is \<open>m\<close> itself.
  ``In check'' is the answer of \<open>isInCheck\<close>, and ``has a move'' is that
  \<open>getValidMoves\<close> returns a move for some piece of the side to move.  The
  conditions of checkmate and stalemate exclude each other, and the clock is
  asked only when both fail.
\<close>

theorem terminal_evaluation_after_move:
  assumes "makeMove s fromRow fromCol toRow toCol = Inr (True, s')"
  shows "\<exists>pt pc moves b m inCheck.
           at (board s) fromRow fromCol = Piece pt pc
         \<and> getValidMoves s fromRow fromCol = Inr (moves, b)
         \<and> m = applyMove (s\<lparr>board := b\<rparr>) pt pc fromRow fromCol toRow toCol
         \<and> currentPlayer m = opponent (currentPlayer s)
         \<and> isInCheck (board m) (currentPlayer m) = Inr inCheck
         \<and> s' = (if inCheck \<and> \<not> hasValidMove m
                 then m\<lparr>gameOver := True,
                        gameResult := Some (if currentPlayer m = White
                                            then ''Black wins'' else ''White wins'')\<rparr>
                 else if \<not> inCheck \<and> \<not> hasValidMove m
                 then m\<lparr>gameOver := True, gameResult := Some ''Stalemate''\<rparr>
                 else if halfMoveClock m \<ge> 100
                 then m\<lparr>gameOver := True, gameResult := Some ''Draw by fifty-move rule''\<rparr>
                 else m)"
proof -
  from assms obtain pt pc moves b where
    piece: "at (board s) fromRow fromCol = Piece pt pc" and turn: "pc = currentPlayer s"
    and valid: "getValidMoves s fromRow fromCol = Inr (moves, b)"
    and target: "hasMove moves toRow toCol"
    and final: "checkGameEnd (applyMove (s\<lparr>board := b\<rparr>) pt pc fromRow fromCol toRow toCol)
                = Inr s'"
    by (rule makeMove_accepted)
  define m where "m = applyMove (s\<lparr>board := b\<rparr>) pt pc fromRow fromCol toRow toCol"
  have inv: "epConsistent m"
    unfolding m_def using piece turn valid target by (rule applyMove_epConsistent)
  have player: "currentPlayer m = opponent (currentPlayer s)"
    by (simp add: m_def applyMove_currentPlayer)
  from final have "checkGameEnd m = Inr s'"
    by (simp only: m_def)
  from checkGameEnd_sem [OF inv this] obtain inCheck where
    "isInCheck (board m) (currentPlayer m) = Inr inCheck"
    "s' = (if inCheck \<and> \<not> hasValidMove m
                 then m\<lparr>gameOver := True,
                        gameResult := Some (if currentPlayer m = White
                                            then ''Black wins'' else ''White wins'')\<rparr>
                 else if \<not> inCheck \<and> \<not> hasValidMove m
                 then m\<lparr>gameOver := True, gameResult := Some ''Stalemate''\<rparr>
                 else if halfMoveClock m \<ge> 100
                 then m\<lparr>gameOver := True, gameResult := Some ''Draw by fifty-move rule''\<rparr>
                 else m)"
    by (elim exE conjE)
  with piece valid m_def player show ?thesis
    by (intro exI conjI)
qed

section \<open>The theorems at moves of a standard game\<close>

theorem en_passant_target_after_move_witness:
  "makeMove stdStart 6 4 4 4 = Inr (True, afterE4)
   \<and> at (board stdStart) 6 4 = Piece Pawn White
   \<and> enPassantTarget afterE4 = Some (6 + direction White, 4)"
proof -
  have pawn: "at (board stdStart) 6 4 = Piece Pawn White"
    by (simp add: stdStart_def gameOn_def stdBoard_at)
  from en_passant_target_after_move [OF e4_played] pawn
  have "enPassantTarget afterE4 = Some (6 + direction White, 4)"
    by simp
  with pawn show ?thesis
    by (simp only: e4_played simp_thms)
qed

lemma pawnOrClock_result:
  "gameResult (fst (pawnOrClock s e pt pc cap fromRow fromCol toRow toCol)) = gameResult s"
  by (simp add: pawnOrClock_def Let_def)

lemma kingCastling_result:
  "gameResult (fst (kingCastling s e pt pc fromCol toCol)) = gameResult s"
  by (simp add: kingCastling_def Let_def)

lemma rookRights_result:
  "gameResult (rookRights s pt pc cap fromRow fromCol toCol) = gameResult s"
  by (simp add: rookRights_def Let_def)

lemma applyMove_gameResult:
  "gameResult (applyMove s pt pc fromRow fromCol toRow toCol) = gameResult s"
  by (simp add: applyMove_def Let_def case_prod_beta
      pawnOrClock_result kingCastling_result rookRights_result)

theorem terminal_evaluation_after_move_witness:
  "makeMove beforeMate 0 3 4 7 = Inr (True, mated)
   \<and> (\<exists>m. isInCheck (board m) White = Inr True \<and> \<not> hasValidMove m
          \<and> mated = m\<lparr>gameOver := True, gameResult := Some ''Black wins''\<rparr>)
   \<and> makeMove beforeStalemate 3 6 2 6 = Inr (True, stalemated)
   \<and> (\<exists>m. isInCheck (board m) Black = Inr False \<and> \<not> hasValidMove m
          \<and> stalemated = m\<lparr>gameOver := True, gameResult := Some ''Stalemate''\<rparr>)"
proof -
  have first: "\<exists>m. isInCheck (board m) White = Inr True \<and> \<not> hasValidMove m
          \<and> mated = m\<lparr>gameOver := True, gameResult := Some ''Black wins''\<rparr>"
  proof -
    from terminal_evaluation_after_move [OF mate_played] obtain pt pc moves b m inCheck where
      m: "m = applyMove (beforeMate\<lparr>board := b\<rparr>) pt pc 0 3 4 7"
      and player: "currentPlayer m = opponent (currentPlayer beforeMate)"
      and check: "isInCheck (board m) (currentPlayer m) = Inr inCheck"
      and after: "mated = (if inCheck \<and> \<not> hasValidMove m
                 then m\<lparr>gameOver := True,
                        gameResult := Some (if currentPlayer m = White
                                            then ''Black wins'' else ''White wins'')\<rparr>
                 else if \<not> inCheck \<and> \<not> hasValidMove m
                 then m\<lparr>gameOver := True, gameResult := Some ''Stalemate''\<rparr>
                 else if halfMoveClock m \<ge> 100
                 then m\<lparr>gameOver := True, gameResult := Some ''Draw by fifty-move rule''\<rparr>
                 else m)"
      by (elim exE conjE)
    from player have white: "currentPlayer m = White"
      by (simp add: beforeMate_def standing_def opponent_def)
    have "gameResult m = None"
      by (simp add: m applyMove_gameResult beforeMate_def standing_def)
    moreover have "gameResult mated = Some ''Black wins''"
      by (simp add: mated_def standing_def)
    moreover from after have "gameResult mated = gameResult (if inCheck \<and> \<not> hasValidMove m
                 then m\<lparr>gameOver := True,
                        gameResult := Some (if currentPlayer m = White
                                            then ''Black wins'' else ''White wins'')\<rparr>
                 else if \<not> inCheck \<and> \<not> hasValidMove m
                 then m\<lparr>gameOver := True, gameResult := Some ''Stalemate''\<rparr>
                 else if halfMoveClock m \<ge> 100
                 then m\<lparr>gameOver := True, gameResult := Some ''Draw by fifty-move rule''\<rparr>
                 else m)"
      by (rule arg_cong)
    ultimately have "inCheck \<and> \<not> hasValidMove m"
      by (auto split: if_splits)
    with after white check show ?thesis
      by auto
  qed
  have second: "\<exists>m. isInCheck (board m) Black = Inr False \<and> \<not> hasValidMove m
          \<and> stalemated = m\<lparr>gameOver := True, gameResult := Some ''Stalemate''\<rparr>"
  proof -
    from terminal_evaluation_after_move [OF stalemate_played]
    obtain pt pc moves b m inCheck where
      m: "m = applyMove (beforeStalemate\<lparr>board := b\<rparr>) pt pc 3 6 2 6"
      and player: "currentPlayer m = opponent (currentPlayer beforeStalemate)"
      and check: "isInCheck (board m) (currentPlayer m) = Inr inCheck"
      and after: "stalemated = (if inCheck \<and> \<not> hasValidMove m
                 then m\<lparr>gameOver := True,
                        gameResult := Some (if currentPlayer m = White
                                            then ''Black wins'' else ''White wins'')\<rparr>
                 else if \<not> inCheck \<and> \<not> hasValidMove m
                 then m\<lparr>gameOver := True, gameResult := Some ''Stalemate''\<rparr>
                 else if halfMoveClock m \<ge> 100
                 then m\<lparr>gameOver := True, gameResult := Some ''Draw by fifty-move rule''\<rparr>
                 else m)"
      by (elim exE conjE)
    from player have black: "currentPlayer m = Black"
      by (simp add: beforeStalemate_def opponent_def)
    have "gameResult m = None"
      by (simp add: m applyMove_gameResult beforeStalemate_def)
    moreover have "gameResult stalemated = Some ''Stalemate''"
      by (simp add: stalemated_def)
    moreover from after have "gameResult stalemated = gameResult (if inCheck \<and> \<not> hasValidMove m
                 then m\<lparr>gameOver := True,
                        gameResult := Some (if currentPlayer m = White
                                            then ''Black wins'' else ''White wins'')\<rparr>
                 else if \<not> inCheck \<and> \<not> hasValidMove m
                 then m\<lparr>gameOver := True, gameResult := Some ''Stalemate''\<rparr>
                 else if halfMoveClock m \<ge> 100
                 then m\<lparr>gameOver := True, gameResult := Some ''Draw by fifty-move rule''\<rparr>
                 else m)"
      by (rule arg_cong)
    ultimately have "\<not> inCheck \<and> \<not> hasValidMove m"
      using black by (auto split: if_splits)
    with after black check show ?thesis
      by auto
  qed
  from mate_played first stalemate_played second show ?thesis
    by (intro conjI)
qed

end
